theory Spec2Isabelle
  imports Main "HOL-Library.Word" "HOL-Library.List_Lexorder" "HOL-Library.Char_ord"
begin

section \<open>Go values and the library calls the stores make\<close>

text \<open>
  The two packages \<^verbatim>\<open>checkpoint\<close> and \<^verbatim>\<open>database\<close> keep block checkpoints, alert-key flags
  and denied addresses in goleveldb databases. Heights are Go \<^verbatim>\<open>int64\<close> values, modelled as
  64-bit words read in two's complement by \<open>sint\<close>. Byte slices and strings are both
  \<open>string\<close> (a list of bytes); a nil slice and the empty string are both \<open>[]\<close>.
\<close>

type_synonym int64 = "64 word"
type_synonym uint64 = "64 word"

text \<open>
  Go \<^verbatim>\<open>error\<close> values that reach the code: the two sentinel errors of \<^verbatim>\<open>strconv\<close>, goleveldb's
  not-found and lock errors, a command-line parse error of go-flags, and the error
  \<^verbatim>\<open>loadConfig\<close> builds with \<^verbatim>\<open>fmt.Errorf\<close>. A nil error is \<open>None\<close>.
\<close>

datatype go_error = ErrSyntax | ErrRange | ErrNotFound | ErrLocked | ErrFlags | ErrNetworks

text \<open>
  Ways a call ends without returning: a run-time panic on a nil pointer, or \<^verbatim>\<open>os.Exit\<close>.
  A function that can end so returns \<open>abort + 'a\<close>, with \<open>Inl\<close> the abort.
\<close>

datatype abort = NilPointerDereference | Exit int

subsection \<open>\<^verbatim>\<open>fmt.Sprintf("%020d", height)\<close>\<close>

text \<open>
  The integer formatter of package \<^verbatim>\<open>fmt\<close> for verb \<^verbatim>\<open>%d\<close> with the zero flag and width 20:
  it takes the magnitude of a negative number (in \<^verbatim>\<open>uint64\<close> arithmetic, so the least
  \<^verbatim>\<open>int64\<close> keeps magnitude \<open>2^63\<close>), sets the precision to the width, less one when a sign will
  be written, produces the decimal digits right to left, pads with zeros up to the
  precision and writes the sign in front.
\<close>

definition digits :: string where
  "digits = ''0123456789abcdefx''"

function fmt_base10 :: "int \<Rightarrow> string \<Rightarrow> string" where
  "fmt_base10 u buf =
     (if u \<ge> 10
      then (let next = u div 10 in fmt_base10 next (char_of (48 + u - next * 10) # buf))
      else digits ! nat u # buf)"
  by pat_completeness auto
termination
  by (relation "measure (\<lambda>(u, buf). nat u)") auto

declare fmt_base10.simps [simp del]

definition fmt_020d :: "int64 \<Rightarrow> string" where
  "fmt_020d v =
     (let negative = (sint v < 0);
          u = uint (if negative then - v else v);
          prec = (if negative then 20 - 1 else 20);
          ds = fmt_base10 u [];
          padded = replicate (prec - length ds) (CHR ''0'') @ ds
      in (if negative then CHR ''-'' # padded else padded))"

subsection \<open>\<^verbatim>\<open>strconv.ParseInt(s, 10, 64)\<close>\<close>

text \<open>
  \<^verbatim>\<open>strconv.ParseUint\<close> in base 10 with 64 bits reads the bytes left to right. A byte that is
  not a decimal digit is a syntax error with value 0 (a letter decodes to a digit value of
  at least 10, which the base check rejects). Before each digit is added the accumulator is
  compared with the cutoff, and the sum is checked for wrap-around: either overflow returns
  the greatest \<^verbatim>\<open>uint64\<close> with a range error, at once, without reading the remaining bytes.
\<close>

definition cutoff10 :: uint64 where
  "cutoff10 = 18446744073709551615 div 10 + 1"

definition maxVal :: uint64 where
  "maxVal = 18446744073709551615"

fun ParseUint_loop :: "uint64 \<Rightarrow> string \<Rightarrow> uint64 \<times> go_error option" where
  "ParseUint_loop n [] = (n, None)"
| "ParseUint_loop n (c # cs) =
     (if CHR ''0'' \<le> c \<and> c \<le> CHR ''9'' then
        (let d = (of_char c - 48 :: nat) in
         if n \<ge> cutoff10 then (maxVal, Some ErrRange)
         else (let n' = n * 10; n1 = n' + of_nat d in
               if n1 < n' \<or> n1 > maxVal then (maxVal, Some ErrRange)
               else ParseUint_loop n1 cs))
      else (0, Some ErrSyntax))"

definition ParseUint :: "string \<Rightarrow> uint64 \<times> go_error option" where
  "ParseUint s = (if s = [] then (0, Some ErrSyntax) else ParseUint_loop 0 s)"

text \<open>
  \<^verbatim>\<open>strconv.ParseInt\<close> takes off one leading sign, parses the rest unsigned, and returns
  \<open>(0, ErrSyntax)\<close> on a syntax error; a magnitude that does not fit is a range error whose
  value is the greatest or the least \<^verbatim>\<open>int64\<close>.
\<close>

definition ParseInt :: "string \<Rightarrow> int64 \<times> go_error option" where
  "ParseInt s0 =
     (case s0 of
        [] \<Rightarrow> (0, Some ErrSyntax)
      | c # rest \<Rightarrow>
         (let neg = (c = CHR ''-'');
              s = (if c = CHR ''+'' \<or> c = CHR ''-'' then rest else s0);
              (un, err) = ParseUint s
          in if err \<noteq> None \<and> err \<noteq> Some ErrRange then (0, err)
             else (let cutoff = (2 ^ 63 :: uint64) in
                   if \<not> neg \<and> un \<ge> cutoff then (cutoff - 1, Some ErrRange)
                   else if neg \<and> un > cutoff then (- cutoff, Some ErrRange)
                   else (if neg then - un else un, None))))"

subsection \<open>The embedded key-value engine\<close>

text \<open>
  goleveldb is taken as an ordered byte-key store: the entries of an open database are a
  list kept in ascending byte order of the keys, which is the order its iterators walk.
  Reads and writes on an open database succeed (I/O failures are outside the model); a
  method called on a nil \<^verbatim>\<open>*leveldb.DB\<close> reads a field of its receiver and panics.
\<close>

type_synonym kv = "(string \<times> string) list"

fun kv_put :: "string \<Rightarrow> string \<Rightarrow> kv \<Rightarrow> kv" where
  "kv_put k v [] = [(k, v)]"
| "kv_put k v ((k', v') # r) =
     (if k < k' then (k, v) # (k', v') # r
      else if k = k' then (k, v) # r
      else (k', v') # kv_put k v r)"

fun kv_delete :: "string \<Rightarrow> kv \<Rightarrow> kv" where
  "kv_delete k [] = []"
| "kv_delete k ((k', v') # r) = (if k = k' then kv_delete k r else (k', v') # kv_delete k r)"

record DB =
  db_path :: string
  db_data :: kv

definition leveldb_Put :: "DB option \<Rightarrow> string \<Rightarrow> string \<Rightarrow> abort + (DB option \<times> go_error option)" where
  "leveldb_Put db key val =
     (case db of
        None \<Rightarrow> Inl NilPointerDereference
      | Some d \<Rightarrow> Inr (Some (d\<lparr>db_data := kv_put key val (db_data d)\<rparr>), None))"

definition leveldb_Delete :: "DB option \<Rightarrow> string \<Rightarrow> abort + (DB option \<times> go_error option)" where
  "leveldb_Delete db key =
     (case db of
        None \<Rightarrow> Inl NilPointerDereference
      | Some d \<Rightarrow> Inr (Some (d\<lparr>db_data := kv_delete key (db_data d)\<rparr>), None))"

definition leveldb_Get :: "DB option \<Rightarrow> string \<Rightarrow> abort + (string \<times> go_error option)" where
  "leveldb_Get db key =
     (case db of
        None \<Rightarrow> Inl NilPointerDereference
      | Some d \<Rightarrow>
         (case map_of (db_data d) key of
            None \<Rightarrow> Inr ([], Some ErrNotFound)
          | Some v \<Rightarrow> Inr (v, None)))"

text \<open>An iterator walks a snapshot of the entries, in key order.\<close>

definition leveldb_NewIterator :: "DB option \<Rightarrow> abort + kv" where
  "leveldb_NewIterator db =
     (case db of None \<Rightarrow> Inl NilPointerDereference | Some d \<Rightarrow> Inr (db_data d))"

text \<open>
  The disk holds the entries of every database directory, and the set of directories
  whose lock file is held by an open handle. \<^verbatim>\<open>leveldb.OpenFile\<close> creates a missing database,
  fails on a directory that is locked, and returns a nil handle with the error then.
  \<^verbatim>\<open>Close\<close> leaves the entries on disk and releases the lock.
\<close>

record world =
  files :: "string \<rightharpoonup> kv"
  locks :: "string set"

definition leveldb_OpenFile :: "string \<Rightarrow> world \<Rightarrow> (DB option \<times> go_error option) \<times> world" where
  "leveldb_OpenFile path w =
     (if path \<in> locks w then ((None, Some ErrLocked), w)
      else (let d = (case files w path of None \<Rightarrow> [] | Some es \<Rightarrow> es)
            in ((Some \<lparr>db_path = path, db_data = d\<rparr>, None),
                w\<lparr>files := (files w)(path \<mapsto> d), locks := insert path (locks w)\<rparr>)))"

definition leveldb_Close :: "DB \<Rightarrow> world \<Rightarrow> world" where
  "leveldb_Close d w =
     w\<lparr>files := (files w)(db_path d \<mapsto> db_data d), locks := locks w - {db_path d}\<rparr>"


subsection \<open>\<^verbatim>\<open>filepath.Join\<close>\<close>

text \<open>
  Path handling of package \<^verbatim>\<open>path/filepath\<close> on a host whose separator is the slash.
  \<^verbatim>\<open>Join\<close> drops leading empty elements, joins the rest with the separator and cleans the
  result. \<^verbatim>\<open>Clean\<close> walks the elements between separators with a stack: empty elements and
  \<^verbatim>\<open>.\<close> are skipped, \<^verbatim>\<open>..\<close> removes the element before it when there is one, is kept at the
  front of a relative path and dropped at the root; an empty result is \<^verbatim>\<open>.\<close>. The stack
  \<open>out\<close> holds the elements written so far, the last one first.
\<close>

fun strings_Join :: "string list \<Rightarrow> string \<Rightarrow> string" where
  "strings_Join [] sep = []"
| "strings_Join [x] sep = x"
| "strings_Join (x # y # r) sep = x @ sep @ strings_Join (y # r) sep"

fun split_sep :: "string \<Rightarrow> string list" where
  "split_sep [] = [[]]"
| "split_sep (c # cs) =
     (if c = CHR ''/'' then [] # split_sep cs
      else (case split_sep cs of [] \<Rightarrow> [[c]] | x # xs \<Rightarrow> (c # x) # xs))"

definition clean_elem :: "bool \<Rightarrow> string list \<Rightarrow> string \<Rightarrow> string list" where
  "clean_elem rooted out e =
     (if e = [] \<or> e = ''.'' then out
      else if e = ''..'' then
        (case out of
           [] \<Rightarrow> (if rooted then [] else [''..''])
         | t # ts \<Rightarrow> (if t \<noteq> ''..'' then ts else if rooted then out else ''..'' # out))
      else e # out)"

definition filepath_Clean :: "string \<Rightarrow> string" where
  "filepath_Clean path =
     (if path = [] then ''.''
      else (let rooted = (hd path = CHR ''/'');
                out = foldl (clean_elem rooted) [] (split_sep path)
            in if rooted then CHR ''/'' # strings_Join (rev out) ''/''
               else if out = [] then ''.''
               else strings_Join (rev out) ''/''))"

definition filepath_Join :: "string list \<Rightarrow> string" where
  "filepath_Join elem =
     (case dropWhile (\<lambda>e. e = []) elem of
        [] \<Rightarrow> []
      | es \<Rightarrow> filepath_Clean (strings_Join es ''/''))"

section \<open>What both packages declare alike\<close>

text \<open>
  Modelled from the spec: packages \<^verbatim>\<open>wire\<close> and \<^verbatim>\<open>chaincfg\<close> are not part of the sources.
  A network has a numeric identifier (only its identity matters here), a canonical name and
  two alert public keys; \<^verbatim>\<open>chaincfg\<close> supplies one parameter table for each of the four
  networks. The tables are an input of the model.
\<close>

datatype BitcoinNet = wire_MainNet | wire_TestNet | wire_TestNet4 | wire_SimNet

record Params =
  Name :: string
  Net :: BitcoinNet
  AlertPubMainKey :: string
  AlertPubSubKey :: string

record chaincfg =
  MainNetParams :: Params
  TestNet4Params :: Params
  RegressionNetParams :: Params
  SimNetParams :: Params

definition userCheckpointDbNamePrefix :: string where
  "userCheckpointDbNamePrefix = ''usercheckpoints''"

definition volatileCheckpointDbNamePrefix :: string where
  "volatileCheckpointDbNamePrefix = ''volatilecheckpoints''"

definition alertKeyDbNamePrefix :: string where
  "alertKeyDbNamePrefix = ''alertkey''"

definition denyAddressDbNamePrefix :: string where
  "denyAddressDbNamePrefix = ''denyaddress''"

definition defaultDbType :: string where
  "defaultDbType = ''leveldb''"

text \<open>
  What a process gives the packages from outside: the directory
  \<^verbatim>\<open>monautil.AppDataDir("monad", false)\<close> and the parameter tables. The package variable
  \<^verbatim>\<open>activeNetParams\<close> starts at the main network's table and is threaded through the path
  functions, which assign it.
\<close>

record environ =
  monadHomeDir :: string
  chain :: chaincfg

definition defaultDataDir :: "'a environ_scheme \<Rightarrow> string" where
  "defaultDataDir e = filepath_Join [monadHomeDir e, ''data'']"

record UserCheckpoint =
  Ucdb :: "DB option"

record VolatileCheckpoint =
  Vcdb :: "DB option"

record AlertKey =
  Akdb :: "DB option"

record DenyAddress =
  Dadb :: "DB option"

section \<open>Package checkpoint\<close>

text \<open>
  The go-flags parser fills a \<^verbatim>\<open>config\<close> from the configuration file and the command line;
  what it returns (an error, or the filled structure and the remaining arguments) is an
  input. \<^verbatim>\<open>loadConfig\<close> passes a parse error on, and otherwise counts the network flags.
\<close>

record config =
  DataDir :: string
  ConfigFile :: string
  TestNet4 :: bool
  RegressionTest :: bool
  SimNet :: bool

record checkpoint_env = environ +
  parsed :: "go_error + (config \<times> string list)"

definition checkpoint_netName :: "Params \<Rightarrow> string" where
  "checkpoint_netName chainParams =
     (case Net chainParams of
        wire_TestNet4 \<Rightarrow> ''testnet''
      | _ \<Rightarrow> Name chainParams)"

definition checkpoint_loadConfig ::
  "go_error + (config \<times> string list) \<Rightarrow> go_error + (config \<times> string list)" where
  "checkpoint_loadConfig parse =
     (case parse of
        Inl err \<Rightarrow> Inl err
      | Inr (cfg, remainingArgs) \<Rightarrow>
         (let numNets = (0 :: nat);
              numNets = (if TestNet4 cfg then numNets + 1 else numNets);
              numNets = (if SimNet cfg then numNets + 1 else numNets)
          in if numNets > 1 then Inl ErrNetworks else Inr (cfg, remainingArgs)))"

definition checkpoint_GetUserCheckpointDbPath ::
  "checkpoint_env \<Rightarrow> Params \<Rightarrow> abort + (string \<times> Params)" where
  "checkpoint_GetUserCheckpointDbPath e activeNetParams =
     (case checkpoint_loadConfig (parsed e) of
        Inl err \<Rightarrow> Inl (Exit 1)
      | Inr (cfg, remainingArgs) \<Rightarrow>
         (let a = (if TestNet4 cfg then TestNet4Params (chain e) else activeNetParams);
              a = (if RegressionTest cfg then RegressionNetParams (chain e) else a);
              a = (if SimNet cfg then SimNetParams (chain e) else a);
              dbName = userCheckpointDbNamePrefix @ ''_'' @ defaultDbType;
              dbPath = filepath_Join [defaultDataDir e, checkpoint_netName a, dbName]
          in Inr (dbPath, a)))"

definition checkpoint_GetVolatileCheckpointDbPath ::
  "checkpoint_env \<Rightarrow> Params \<Rightarrow> abort + (string \<times> Params)" where
  "checkpoint_GetVolatileCheckpointDbPath e activeNetParams =
     (case checkpoint_loadConfig (parsed e) of
        Inl err \<Rightarrow> Inl (Exit 1)
      | Inr (cfg, remainingArgs) \<Rightarrow>
         (let a = (if TestNet4 cfg then TestNet4Params (chain e) else activeNetParams);
              a = (if RegressionTest cfg then RegressionNetParams (chain e) else a);
              a = (if SimNet cfg then SimNetParams (chain e) else a);
              dbName = volatileCheckpointDbNamePrefix @ ''_'' @ defaultDbType;
              dbPath = filepath_Join [defaultDataDir e, checkpoint_netName a, dbName]
          in Inr (dbPath, a)))"

definition checkpoint_GetAlertKeyDbPath ::
  "checkpoint_env \<Rightarrow> Params \<Rightarrow> abort + (string \<times> Params)" where
  "checkpoint_GetAlertKeyDbPath e activeNetParams =
     (case checkpoint_loadConfig (parsed e) of
        Inl err \<Rightarrow> Inl (Exit 1)
      | Inr (cfg, remainingArgs) \<Rightarrow>
         (let a = (if TestNet4 cfg then TestNet4Params (chain e) else activeNetParams);
              a = (if RegressionTest cfg then RegressionNetParams (chain e) else a);
              a = (if SimNet cfg then SimNetParams (chain e) else a);
              dbName = alertKeyDbNamePrefix @ ''_'' @ defaultDbType;
              dbPath = filepath_Join [defaultDataDir e, checkpoint_netName a, dbName]
          in Inr (dbPath, a)))"

text \<open>
  A store method works on the package variable, the disk and its receiver, as far as it
  touches them. \<^verbatim>\<open>OpenDB\<close> returns the engine's error; the other methods return nothing or
  a value.
\<close>

definition checkpoint_UserCheckpoint_OpenDB ::
  "checkpoint_env \<Rightarrow> Params \<times> world \<times> UserCheckpoint \<Rightarrow>
     abort + (go_error option \<times> Params \<times> world \<times> UserCheckpoint)" where
  "checkpoint_UserCheckpoint_OpenDB e st =
     (case st of (activeNetParams, w, uc) \<Rightarrow>
        (if Ucdb uc \<noteq> None then Inr (None, activeNetParams, w, uc)
         else (case checkpoint_GetUserCheckpointDbPath e activeNetParams of
                 Inl a \<Rightarrow> Inl a
               | Inr (dbpath, activeNetParams') \<Rightarrow>
                  (case leveldb_OpenFile dbpath w of
                     ((db, err), w') \<Rightarrow> Inr (err, activeNetParams', w', uc\<lparr>Ucdb := db\<rparr>)))))"

definition checkpoint_UserCheckpoint_CloseDB ::
  "world \<times> UserCheckpoint \<Rightarrow> world \<times> UserCheckpoint" where
  "checkpoint_UserCheckpoint_CloseDB st =
     (case st of (w, uc) \<Rightarrow>
        (case Ucdb uc of
           None \<Rightarrow> (w, uc)
         | Some d \<Rightarrow> (leveldb_Close d w, uc\<lparr>Ucdb := None\<rparr>)))"

definition checkpoint_UserCheckpoint_Add ::
  "int64 \<Rightarrow> string \<Rightarrow> UserCheckpoint \<Rightarrow> abort + UserCheckpoint" where
  "checkpoint_UserCheckpoint_Add height hash uc =
     (case leveldb_Put (Ucdb uc) (fmt_020d height) hash of
        Inl a \<Rightarrow> Inl a
      | Inr (db, err) \<Rightarrow> Inr (uc\<lparr>Ucdb := db\<rparr>))"

definition checkpoint_UserCheckpoint_Delete ::
  "int64 \<Rightarrow> UserCheckpoint \<Rightarrow> abort + UserCheckpoint" where
  "checkpoint_UserCheckpoint_Delete height uc =
     (case leveldb_Delete (Ucdb uc) (fmt_020d height) of
        Inl a \<Rightarrow> Inl a
      | Inr (db, err) \<Rightarrow> Inr (uc\<lparr>Ucdb := db\<rparr>))"

definition checkpoint_UserCheckpoint_GetMaxCheckpointHeight ::
  "UserCheckpoint \<Rightarrow> abort + int64" where
  "checkpoint_UserCheckpoint_GetMaxCheckpointHeight uc =
     (let height = (0 :: int64) in
      case leveldb_NewIterator (Ucdb uc) of
        Inl a \<Rightarrow> Inl a
      | Inr iter \<Rightarrow>
         (if iter = [] then Inr height
          else Inr (fst (ParseInt (fst (last iter))))))"

definition checkpoint_VolatileCheckpoint_OpenDB ::
  "checkpoint_env \<Rightarrow> Params \<times> world \<times> VolatileCheckpoint \<Rightarrow>
     abort + (go_error option \<times> Params \<times> world \<times> VolatileCheckpoint)" where
  "checkpoint_VolatileCheckpoint_OpenDB e st =
     (case st of (activeNetParams, w, vc) \<Rightarrow>
        (if Vcdb vc \<noteq> None then Inr (None, activeNetParams, w, vc)
         else (case checkpoint_GetVolatileCheckpointDbPath e activeNetParams of
                 Inl a \<Rightarrow> Inl a
               | Inr (dbpath, activeNetParams') \<Rightarrow>
                  (case leveldb_OpenFile dbpath w of
                     ((db, err), w') \<Rightarrow> Inr (err, activeNetParams', w', vc\<lparr>Vcdb := db\<rparr>)))))"

definition checkpoint_VolatileCheckpoint_CloseDB ::
  "world \<times> VolatileCheckpoint \<Rightarrow> world \<times> VolatileCheckpoint" where
  "checkpoint_VolatileCheckpoint_CloseDB st =
     (case st of (w, vc) \<Rightarrow>
        (case Vcdb vc of
           None \<Rightarrow> (w, vc)
         | Some d \<Rightarrow> (leveldb_Close d w, vc\<lparr>Vcdb := None\<rparr>)))"

definition checkpoint_VolatileCheckpoint_Set ::
  "int64 \<Rightarrow> string \<Rightarrow> VolatileCheckpoint \<Rightarrow> abort + VolatileCheckpoint" where
  "checkpoint_VolatileCheckpoint_Set height hash vc =
     (case leveldb_Put (Vcdb vc) (fmt_020d height) hash of
        Inl a \<Rightarrow> Inl a
      | Inr (db, err) \<Rightarrow> Inr (vc\<lparr>Vcdb := db\<rparr>))"

text \<open>The loop of \<^verbatim>\<open>ClearDB\<close>: one \<^verbatim>\<open>Delete\<close> for each entry the iterator yields, left at the first error.\<close>

fun checkpoint_ClearDB_loop :: "kv \<Rightarrow> DB option \<Rightarrow> abort + DB option" where
  "checkpoint_ClearDB_loop [] db = Inr db"
| "checkpoint_ClearDB_loop (entry # iter) db =
     (case leveldb_Delete db (fst entry) of
        Inl a \<Rightarrow> Inl a
      | Inr (db', err) \<Rightarrow> (if err \<noteq> None then Inr db' else checkpoint_ClearDB_loop iter db'))"

definition checkpoint_VolatileCheckpoint_ClearDB ::
  "VolatileCheckpoint \<Rightarrow> abort + VolatileCheckpoint" where
  "checkpoint_VolatileCheckpoint_ClearDB vc =
     (case leveldb_NewIterator (Vcdb vc) of
        Inl a \<Rightarrow> Inl a
      | Inr iter \<Rightarrow>
         (case checkpoint_ClearDB_loop iter (Vcdb vc) of
            Inl a \<Rightarrow> Inl a
          | Inr db \<Rightarrow> Inr (vc\<lparr>Vcdb := db\<rparr>)))"

definition checkpoint_AlertKey_OpenDB ::
  "checkpoint_env \<Rightarrow> Params \<times> world \<times> AlertKey \<Rightarrow>
     abort + (go_error option \<times> Params \<times> world \<times> AlertKey)" where
  "checkpoint_AlertKey_OpenDB e st =
     (case st of (activeNetParams, w, ak) \<Rightarrow>
        (if Akdb ak \<noteq> None then Inr (None, activeNetParams, w, ak)
         else (case checkpoint_GetAlertKeyDbPath e activeNetParams of
                 Inl a \<Rightarrow> Inl a
               | Inr (dbpath, activeNetParams') \<Rightarrow>
                  (case leveldb_OpenFile dbpath w of
                     ((db, err), w') \<Rightarrow> Inr (err, activeNetParams', w', ak\<lparr>Akdb := db\<rparr>)))))"

definition checkpoint_AlertKey_CloseDB :: "world \<times> AlertKey \<Rightarrow> world \<times> AlertKey" where
  "checkpoint_AlertKey_CloseDB st =
     (case st of (w, ak) \<Rightarrow>
        (case Akdb ak of
           None \<Rightarrow> (w, ak)
         | Some d \<Rightarrow> (leveldb_Close d w, ak\<lparr>Akdb := None\<rparr>)))"

definition checkpoint_AlertKey_Set :: "string \<Rightarrow> AlertKey \<Rightarrow> abort + AlertKey" where
  "checkpoint_AlertKey_Set key ak =
     (case leveldb_Put (Akdb ak) key ''true'' of
        Inl a \<Rightarrow> Inl a
      | Inr (db, err) \<Rightarrow> Inr (ak\<lparr>Akdb := db\<rparr>))"

text \<open>
  \<^verbatim>\<open>IsValid\<close> reads the main key, writes \<^verbatim>\<open>"false"\<close> for it when the read failed, does
  the same for the sub key, and compares the two values it read.
\<close>

definition checkpoint_AlertKey_IsValid :: "Params \<Rightarrow> AlertKey \<Rightarrow> abort + (bool \<times> AlertKey)" where
  "checkpoint_AlertKey_IsValid activeNetParams ak =
     (case leveldb_Get (Akdb ak) (AlertPubMainKey activeNetParams) of
        Inl a \<Rightarrow> Inl a
      | Inr (d1, err1) \<Rightarrow>
     (case (if err1 \<noteq> None then leveldb_Put (Akdb ak) (AlertPubMainKey activeNetParams) ''false''
            else Inr (Akdb ak, None)) of
        Inl a \<Rightarrow> Inl a
      | Inr (db1, _) \<Rightarrow>
     (case leveldb_Get db1 (AlertPubSubKey activeNetParams) of
        Inl a \<Rightarrow> Inl a
      | Inr (d2, err2) \<Rightarrow>
     (case (if err2 \<noteq> None then leveldb_Put db1 (AlertPubSubKey activeNetParams) ''false''
            else Inr (db1, None)) of
        Inl a \<Rightarrow> Inl a
      | Inr (db2, _) \<Rightarrow>
         Inr (if d1 = ''false'' \<and> d2 = ''false'' then True else False, ak\<lparr>Akdb := db2\<rparr>)))))"

section \<open>Package database\<close>

text \<open>
  The package declares three boolean flags with package \<^verbatim>\<open>flag\<close>; every path function calls
  \<^verbatim>\<open>flag.Parse()\<close>, which ends the process with an exit status on a command line it cannot
  parse (the default flag set exits on error) and otherwise leaves the flag values. Its
  outcome, the exit status or the flag values, is an input. There is no \<^verbatim>\<open>loadConfig\<close>
  here, and no count of the selected networks.
\<close>

record flagset =
  testnet :: bool
  regtest :: bool
  simnet :: bool

record database_env = environ +
  flag_Parse :: "int + flagset"

definition database_netName :: "Params \<Rightarrow> string" where
  "database_netName chainParams =
     (case Net chainParams of
        wire_TestNet4 \<Rightarrow> ''testnet''
      | _ \<Rightarrow> Name chainParams)"

definition database_GetUserCheckpointDbPath ::
  "database_env \<Rightarrow> Params \<Rightarrow> abort + (string \<times> Params)" where
  "database_GetUserCheckpointDbPath e activeNetParams =
     (case flag_Parse e of
        Inl status \<Rightarrow> Inl (Exit status)
      | Inr fl \<Rightarrow>
         (let a = (if testnet fl then TestNet4Params (chain e) else activeNetParams);
              a = (if regtest fl then RegressionNetParams (chain e) else a);
              a = (if simnet fl then SimNetParams (chain e) else a);
              dbName = userCheckpointDbNamePrefix @ ''_'' @ defaultDbType;
              dbPath = filepath_Join [defaultDataDir e, database_netName a, dbName]
          in Inr (dbPath, a)))"

definition database_GetVolatileCheckpointDbPath ::
  "database_env \<Rightarrow> Params \<Rightarrow> abort + (string \<times> Params)" where
  "database_GetVolatileCheckpointDbPath e activeNetParams =
     (case flag_Parse e of
        Inl status \<Rightarrow> Inl (Exit status)
      | Inr fl \<Rightarrow>
         (let a = (if testnet fl then TestNet4Params (chain e) else activeNetParams);
              a = (if regtest fl then RegressionNetParams (chain e) else a);
              a = (if simnet fl then SimNetParams (chain e) else a);
              dbName = volatileCheckpointDbNamePrefix @ ''_'' @ defaultDbType;
              dbPath = filepath_Join [defaultDataDir e, database_netName a, dbName]
          in Inr (dbPath, a)))"

definition database_GetAlertKeyDbPath ::
  "database_env \<Rightarrow> Params \<Rightarrow> abort + (string \<times> Params)" where
  "database_GetAlertKeyDbPath e activeNetParams =
     (case flag_Parse e of
        Inl status \<Rightarrow> Inl (Exit status)
      | Inr fl \<Rightarrow>
         (let a = (if testnet fl then TestNet4Params (chain e) else activeNetParams);
              a = (if regtest fl then RegressionNetParams (chain e) else a);
              a = (if simnet fl then SimNetParams (chain e) else a);
              dbName = alertKeyDbNamePrefix @ ''_'' @ defaultDbType;
              dbPath = filepath_Join [defaultDataDir e, database_netName a, dbName]
          in Inr (dbPath, a)))"

definition database_GetDenyAddressDbPath ::
  "database_env \<Rightarrow> Params \<Rightarrow> abort + (string \<times> Params)" where
  "database_GetDenyAddressDbPath e activeNetParams =
     (case flag_Parse e of
        Inl status \<Rightarrow> Inl (Exit status)
      | Inr fl \<Rightarrow>
         (let a = (if testnet fl then TestNet4Params (chain e) else activeNetParams);
              a = (if regtest fl then RegressionNetParams (chain e) else a);
              a = (if simnet fl then SimNetParams (chain e) else a);
              dbName = denyAddressDbNamePrefix @ ''_'' @ defaultDbType;
              dbPath = filepath_Join [defaultDataDir e, database_netName a, dbName]
          in Inr (dbPath, a)))"

definition database_UserCheckpoint_OpenDB ::
  "database_env \<Rightarrow> Params \<times> world \<times> UserCheckpoint \<Rightarrow>
     abort + (go_error option \<times> Params \<times> world \<times> UserCheckpoint)" where
  "database_UserCheckpoint_OpenDB e st =
     (case st of (activeNetParams, w, uc) \<Rightarrow>
        (if Ucdb uc \<noteq> None then Inr (None, activeNetParams, w, uc)
         else (case database_GetUserCheckpointDbPath e activeNetParams of
                 Inl a \<Rightarrow> Inl a
               | Inr (dbpath, activeNetParams') \<Rightarrow>
                  (case leveldb_OpenFile dbpath w of
                     ((db, err), w') \<Rightarrow> Inr (err, activeNetParams', w', uc\<lparr>Ucdb := db\<rparr>)))))"

definition database_UserCheckpoint_CloseDB ::
  "world \<times> UserCheckpoint \<Rightarrow> world \<times> UserCheckpoint" where
  "database_UserCheckpoint_CloseDB st =
     (case st of (w, uc) \<Rightarrow>
        (case Ucdb uc of
           None \<Rightarrow> (w, uc)
         | Some d \<Rightarrow> (leveldb_Close d w, uc\<lparr>Ucdb := None\<rparr>)))"

definition database_UserCheckpoint_Add ::
  "int64 \<Rightarrow> string \<Rightarrow> UserCheckpoint \<Rightarrow> abort + UserCheckpoint" where
  "database_UserCheckpoint_Add height hash uc =
     (case leveldb_Put (Ucdb uc) (fmt_020d height) hash of
        Inl a \<Rightarrow> Inl a
      | Inr (db, err) \<Rightarrow> Inr (uc\<lparr>Ucdb := db\<rparr>))"

definition database_UserCheckpoint_Delete ::
  "int64 \<Rightarrow> UserCheckpoint \<Rightarrow> abort + UserCheckpoint" where
  "database_UserCheckpoint_Delete height uc =
     (case leveldb_Delete (Ucdb uc) (fmt_020d height) of
        Inl a \<Rightarrow> Inl a
      | Inr (db, err) \<Rightarrow> Inr (uc\<lparr>Ucdb := db\<rparr>))"

definition database_UserCheckpoint_GetMaxCheckpointHeight ::
  "UserCheckpoint \<Rightarrow> abort + int64" where
  "database_UserCheckpoint_GetMaxCheckpointHeight uc =
     (let height = (0 :: int64) in
      case leveldb_NewIterator (Ucdb uc) of
        Inl a \<Rightarrow> Inl a
      | Inr iter \<Rightarrow>
         (if iter = [] then Inr height
          else Inr (fst (ParseInt (fst (last iter))))))"

definition database_VolatileCheckpoint_OpenDB ::
  "database_env \<Rightarrow> Params \<times> world \<times> VolatileCheckpoint \<Rightarrow>
     abort + (go_error option \<times> Params \<times> world \<times> VolatileCheckpoint)" where
  "database_VolatileCheckpoint_OpenDB e st =
     (case st of (activeNetParams, w, vc) \<Rightarrow>
        (if Vcdb vc \<noteq> None then Inr (None, activeNetParams, w, vc)
         else (case database_GetVolatileCheckpointDbPath e activeNetParams of
                 Inl a \<Rightarrow> Inl a
               | Inr (dbpath, activeNetParams') \<Rightarrow>
                  (case leveldb_OpenFile dbpath w of
                     ((db, err), w') \<Rightarrow> Inr (err, activeNetParams', w', vc\<lparr>Vcdb := db\<rparr>)))))"

definition database_VolatileCheckpoint_CloseDB ::
  "world \<times> VolatileCheckpoint \<Rightarrow> world \<times> VolatileCheckpoint" where
  "database_VolatileCheckpoint_CloseDB st =
     (case st of (w, vc) \<Rightarrow>
        (case Vcdb vc of
           None \<Rightarrow> (w, vc)
         | Some d \<Rightarrow> (leveldb_Close d w, vc\<lparr>Vcdb := None\<rparr>)))"

definition database_VolatileCheckpoint_Set ::
  "int64 \<Rightarrow> string \<Rightarrow> VolatileCheckpoint \<Rightarrow> abort + VolatileCheckpoint" where
  "database_VolatileCheckpoint_Set height hash vc =
     (case leveldb_Put (Vcdb vc) (fmt_020d height) hash of
        Inl a \<Rightarrow> Inl a
      | Inr (db, err) \<Rightarrow> Inr (vc\<lparr>Vcdb := db\<rparr>))"

fun database_ClearDB_loop :: "kv \<Rightarrow> DB option \<Rightarrow> abort + DB option" where
  "database_ClearDB_loop [] db = Inr db"
| "database_ClearDB_loop (entry # iter) db =
     (case leveldb_Delete db (fst entry) of
        Inl a \<Rightarrow> Inl a
      | Inr (db', err) \<Rightarrow> (if err \<noteq> None then Inr db' else database_ClearDB_loop iter db'))"

definition database_VolatileCheckpoint_ClearDB ::
  "VolatileCheckpoint \<Rightarrow> abort + VolatileCheckpoint" where
  "database_VolatileCheckpoint_ClearDB vc =
     (case leveldb_NewIterator (Vcdb vc) of
        Inl a \<Rightarrow> Inl a
      | Inr iter \<Rightarrow>
         (case database_ClearDB_loop iter (Vcdb vc) of
            Inl a \<Rightarrow> Inl a
          | Inr db \<Rightarrow> Inr (vc\<lparr>Vcdb := db\<rparr>)))"

definition database_AlertKey_OpenDB ::
  "database_env \<Rightarrow> Params \<times> world \<times> AlertKey \<Rightarrow>
     abort + (go_error option \<times> Params \<times> world \<times> AlertKey)" where
  "database_AlertKey_OpenDB e st =
     (case st of (activeNetParams, w, ak) \<Rightarrow>
        (if Akdb ak \<noteq> None then Inr (None, activeNetParams, w, ak)
         else (case database_GetAlertKeyDbPath e activeNetParams of
                 Inl a \<Rightarrow> Inl a
               | Inr (dbpath, activeNetParams') \<Rightarrow>
                  (case leveldb_OpenFile dbpath w of
                     ((db, err), w') \<Rightarrow> Inr (err, activeNetParams', w', ak\<lparr>Akdb := db\<rparr>)))))"

definition database_AlertKey_CloseDB :: "world \<times> AlertKey \<Rightarrow> world \<times> AlertKey" where
  "database_AlertKey_CloseDB st =
     (case st of (w, ak) \<Rightarrow>
        (case Akdb ak of
           None \<Rightarrow> (w, ak)
         | Some d \<Rightarrow> (leveldb_Close d w, ak\<lparr>Akdb := None\<rparr>)))"

definition database_AlertKey_Set :: "string \<Rightarrow> AlertKey \<Rightarrow> abort + AlertKey" where
  "database_AlertKey_Set key ak =
     (case leveldb_Put (Akdb ak) key ''true'' of
        Inl a \<Rightarrow> Inl a
      | Inr (db, err) \<Rightarrow> Inr (ak\<lparr>Akdb := db\<rparr>))"

definition database_AlertKey_IsValid :: "Params \<Rightarrow> AlertKey \<Rightarrow> abort + (bool \<times> AlertKey)" where
  "database_AlertKey_IsValid activeNetParams ak =
     (case leveldb_Get (Akdb ak) (AlertPubMainKey activeNetParams) of
        Inl a \<Rightarrow> Inl a
      | Inr (d1, err1) \<Rightarrow>
     (case (if err1 \<noteq> None then leveldb_Put (Akdb ak) (AlertPubMainKey activeNetParams) ''false''
            else Inr (Akdb ak, None)) of
        Inl a \<Rightarrow> Inl a
      | Inr (db1, _) \<Rightarrow>
     (case leveldb_Get db1 (AlertPubSubKey activeNetParams) of
        Inl a \<Rightarrow> Inl a
      | Inr (d2, err2) \<Rightarrow>
     (case (if err2 \<noteq> None then leveldb_Put db1 (AlertPubSubKey activeNetParams) ''false''
            else Inr (db1, None)) of
        Inl a \<Rightarrow> Inl a
      | Inr (db2, _) \<Rightarrow>
         Inr (if d1 = ''false'' \<and> d2 = ''false'' then True else False, ak\<lparr>Akdb := db2\<rparr>)))))"

definition database_DenyAddress_OpenDB ::
  "database_env \<Rightarrow> Params \<times> world \<times> DenyAddress \<Rightarrow>
     abort + (go_error option \<times> Params \<times> world \<times> DenyAddress)" where
  "database_DenyAddress_OpenDB e st =
     (case st of (activeNetParams, w, da) \<Rightarrow>
        (if Dadb da \<noteq> None then Inr (None, activeNetParams, w, da)
         else (case database_GetDenyAddressDbPath e activeNetParams of
                 Inl a \<Rightarrow> Inl a
               | Inr (dbpath, activeNetParams') \<Rightarrow>
                  (case leveldb_OpenFile dbpath w of
                     ((db, err), w') \<Rightarrow> Inr (err, activeNetParams', w', da\<lparr>Dadb := db\<rparr>)))))"

definition database_DenyAddress_CloseDB :: "world \<times> DenyAddress \<Rightarrow> world \<times> DenyAddress" where
  "database_DenyAddress_CloseDB st =
     (case st of (w, da) \<Rightarrow>
        (case Dadb da of
           None \<Rightarrow> (w, da)
         | Some d \<Rightarrow> (leveldb_Close d w, da\<lparr>Dadb := None\<rparr>)))"

definition database_DenyAddress_Set :: "string \<Rightarrow> DenyAddress \<Rightarrow> abort + DenyAddress" where
  "database_DenyAddress_Set address da =
     (case leveldb_Put (Dadb da) address ''0'' of
        Inl a \<Rightarrow> Inl a
      | Inr (db, err) \<Rightarrow> Inr (da\<lparr>Dadb := db\<rparr>))"

section \<open>Notions used in the statements\<close>

text \<open>
  \<open>fixed k u\<close> is the decimal numeral of \<open>u\<close> written with exactly \<open>k\<close> digits, the reference
  the formatter is compared with.
\<close>

fun fixed :: "nat \<Rightarrow> int \<Rightarrow> string" where
  "fixed 0 u = []"
| "fixed (Suc k) u = fixed k (u div 10) @ [digits ! nat (u mod 10)]"

text \<open>
  A history of writes to a \<^verbatim>\<open>UserCheckpoint\<close> store: \<open>checkpoint_writes\<close> makes the calls of
  \<^verbatim>\<open>Add\<close> and \<^verbatim>\<open>Delete\<close> in order, and \<open>heights_stored\<close> is the set of heights that were
  inserted and not deleted afterwards.
\<close>

datatype uc_write = Write_Add int64 string | Write_Delete int64

fun checkpoint_writes :: "uc_write list \<Rightarrow> UserCheckpoint \<Rightarrow> abort + UserCheckpoint" where
  "checkpoint_writes [] uc = Inr uc"
| "checkpoint_writes (Write_Add h hash # ws) uc =
     (case checkpoint_UserCheckpoint_Add h hash uc of Inl a \<Rightarrow> Inl a | Inr uc' \<Rightarrow> checkpoint_writes ws uc')"
| "checkpoint_writes (Write_Delete h # ws) uc =
     (case checkpoint_UserCheckpoint_Delete h uc of Inl a \<Rightarrow> Inl a | Inr uc' \<Rightarrow> checkpoint_writes ws uc')"

fun heights_stored :: "uc_write list \<Rightarrow> int64 set \<Rightarrow> int64 set" where
  "heights_stored [] S = S"
| "heights_stored (Write_Add h hash # ws) S = heights_stored ws (insert h S)"
| "heights_stored (Write_Delete h # ws) S = heights_stored ws (S - {h})"





text \<open>
  The disk after a handle \<open>d\<close> was closed and its directory opened again: the entries of \<open>d\<close>
  are on disk and the directory is locked.
\<close>

definition reopened :: "DB \<Rightarrow> world \<Rightarrow> world" where
  "reopened d w =
     w\<lparr>files := (files w)(db_path d \<mapsto> db_data d), locks := insert (db_path d) (locks w)\<rparr>"









text \<open>
  A path element that \<^verbatim>\<open>Clean\<close> keeps as it is: not empty, without a separator, and neither
  \<^verbatim>\<open>.\<close> nor \<^verbatim>\<open>..\<close>.
\<close>

definition simple_name :: "string \<Rightarrow> bool" where
  "simple_name s \<longleftrightarrow> s \<noteq> [] \<and> CHR ''/'' \<notin> set s \<and> s \<noteq> ''.'' \<and> s \<noteq> ''..''"

text \<open>
  The network the selector chooses: each flag that is set assigns \<^verbatim>\<open>activeNetParams\<close>, in the
  order \<^verbatim>\<open>testnet\<close>, \<^verbatim>\<open>regtest\<close>, \<^verbatim>\<open>simnet\<close>, so the last one set decides, and with none set
  the variable keeps its value.
\<close>

definition selected_network :: "chaincfg \<Rightarrow> bool \<Rightarrow> bool \<Rightarrow> bool \<Rightarrow> Params \<Rightarrow> Params" where
  "selected_network c tn rt sn a =
     (if sn then SimNetParams c else if rt then RegressionNetParams c
      else if tn then TestNet4Params c else a)"

text \<open>
  The stacks \<^verbatim>\<open>Clean\<close> can end with: every element is a simple name, except for a run of
  \<^verbatim>\<open>..\<close> at the bottom of the stack of a path that is not rooted.
\<close>

fun normal :: "bool \<Rightarrow> string list \<Rightarrow> bool" where
  "normal rooted [] = True"
| "normal rooted (e # es) =
     (if e = ''..'' then \<not> rooted \<and> (\<forall>x \<in> set es. x = ''..'')
      else simple_name e \<and> normal rooted es)"

section \<open>The key encoding\<close>

lemma digit_char: "0 \<le> x \<Longrightarrow> x < 10 \<Longrightarrow> char_of (48 + x :: int) = digits ! nat x"
proof -
  assume "0 \<le> x" "x < 10"
  then have "x = 0 \<or> x = 1 \<or> x = 2 \<or> x = 3 \<or> x = 4 \<or> x = 5 \<or> x = 6 \<or> x = 7 \<or> x = 8 \<or> x = 9"
    by arith
  then show ?thesis
    by (elim disjE) (simp_all add: digits_def char_of_def)
qed

lemma length_fixed [simp]: "length (fixed k u) = k"
  by (induction k arbitrary: u) simp_all

lemma fixed_zero: "fixed k 0 = replicate k (CHR ''0'')"
  by (induction k) (simp_all add: digits_def replicate_append_same)

lemma fmt_base10_fixed:
  "0 \<le> u \<Longrightarrow> u < 10 ^ p \<Longrightarrow> 0 < p \<Longrightarrow>
     \<exists>k. 0 < k \<and> k \<le> p \<and> fmt_base10 u buf = fixed k u @ buf \<and>
         fixed p u = replicate (p - k) (CHR ''0'') @ fixed k u"
proof (induction p arbitrary: u buf)
  case 0
  then show ?case by simp
next
  case (Suc q)
  show ?case
  proof (cases "u \<ge> 10")
    case False
    with Suc.prems have small: "0 \<le> u" "u < 10" by auto
    then have d: "u div 10 = 0" "u mod 10 = u" by auto
    have "fmt_base10 u buf = fixed (Suc 0) u @ buf"
      using small by (subst fmt_base10.simps) (simp add: d)
    moreover have "fixed (Suc q) u = replicate (Suc q - Suc 0) (CHR ''0'') @ fixed (Suc 0) u"
      by (simp add: d fixed_zero)
    ultimately show ?thesis by (intro exI[of _ "Suc 0"]) simp
  next
    case True
    let ?c = "digits ! nat (u mod 10)"
    have c: "char_of (48 + u - u div 10 * 10) = ?c"
    proof -
      have "u - u div 10 * 10 = u mod 10" by (simp add: minus_div_mult_eq_mod)
      then have e: "48 + u - u div 10 * 10 = 48 + u mod 10" by arith
      show ?thesis unfolding e by (rule digit_char) simp_all
    qed
    have "0 \<le> u div 10" using Suc.prems by simp
    moreover have lt: "u div 10 < 10 ^ q" using Suc.prems by simp
    moreover have "0 < q"
    proof (rule ccontr)
      assume "\<not> 0 < q"
      then have "u div 10 < 1" using lt by simp
      then show False using True by simp
    qed
    ultimately obtain k where k: "0 < k" "k \<le> q"
        "fmt_base10 (u div 10) (?c # buf) = fixed k (u div 10) @ ?c # buf"
        "fixed q (u div 10) = replicate (q - k) (CHR ''0'') @ fixed k (u div 10)"
      using Suc.IH[of "u div 10" "?c # buf"] by blast
    have "fmt_base10 u buf = fixed (Suc k) u @ buf"
      using True k(3) by (subst fmt_base10.simps) (simp add: Let_def c)
    moreover have "fixed (Suc q) u = replicate (Suc q - Suc k) (CHR ''0'') @ fixed (Suc k) u"
      using k(4) by simp
    ultimately show ?thesis using k(1,2) by (intro exI[of _ "Suc k"]) simp
  qed
qed

lemma pad_fixed:
  assumes "0 \<le> u" "u < 10 ^ p" "0 < p"
  shows "replicate (p - length (fmt_base10 u [])) (CHR ''0'') @ fmt_base10 u [] = fixed p u"
proof -
  obtain k where "fmt_base10 u [] = fixed k u @ []"
      "fixed p u = replicate (p - k) (CHR ''0'') @ fixed k u"
    using fmt_base10_fixed[OF assms, of "[]"] by blast
  then show ?thesis by simp
qed

lemma uint_of_nonneg:
  fixes v :: int64
  assumes "0 \<le> sint v"
  shows "uint v = sint v"
proof -
  have "sint v < 2 ^ 63" using sint_lt[of v] by simp
  then have "sint v mod 2 ^ 64 = sint v"
    using assms by (intro mod_pos_pos_trivial) simp_all
  then show ?thesis using uint_sint[of v] by (simp add: take_bit_eq_mod)
qed

lemma fmt_020d_nonneg: "0 \<le> sint v \<Longrightarrow> fmt_020d v = fixed 20 (uint v)"
proof -
  assume nn: "0 \<le> sint v"
  have "uint v < 2 ^ LENGTH(64)" by (rule uint_lt2p)
  then have "uint v < 10 ^ 20" by simp
  then show ?thesis
    using nn pad_fixed[of "uint v" 20] by (simp add: fmt_020d_def Let_def)
qed

lemma uint_neg_of_negative:
  fixes v :: int64
  assumes "sint v < 0"
  shows "uint (- v) = - sint v"
proof -
  have b: "- (2 ^ 63) \<le> sint v" using sint_ge[of v] by simp
  have "(- sint v) mod 2 ^ 64 = - sint v"
    using assms b by (intro mod_pos_pos_trivial) simp_all
  moreover have "- v = word_of_int (- sint v)" by simp
  ultimately show ?thesis
    using uint_word_of_int[of "- sint v", where 'a=64] by simp
qed

lemma fmt_020d_neg: "sint v < 0 \<Longrightarrow> fmt_020d v = CHR ''-'' # fixed 19 (- sint v)"
proof -
  assume neg: "sint v < 0"
  have "- (2 ^ 63) \<le> sint v" using sint_ge[of v] by simp
  then have "- sint v < 10 ^ 19" by simp
  then show ?thesis
    using neg pad_fixed[of "- sint v" 19] by (simp add: fmt_020d_def Let_def uint_neg_of_negative)
qed

lemma length_fmt_020d: "length (fmt_020d v) = 20"
  by (cases "sint v < 0") (simp_all add: fmt_020d_neg fmt_020d_nonneg)

lemma snoc_less_iff:
  fixes xs ys :: "'a::linorder list"
  assumes "length xs = length ys"
  shows "xs @ [x] < ys @ [y] \<longleftrightarrow> xs < ys \<or> (xs = ys \<and> x < y)"
  using assms by (induction xs ys rule: list_induct2) auto

lemma digits_nth_char_of:
  assumes "0 \<le> x" "x < 10"
  shows "digits ! nat x = char_of (48 + nat x)"
proof -
  have "48 + x = int (48 + nat x)" using assms by simp
  then have "char_of (48 + x) = char_of (48 + nat x)"
    by (simp only: char_of_nat)
  then show ?thesis using digit_char[OF assms] by simp
qed

lemma of_char_digit:
  assumes "0 \<le> x" "x < 10"
  shows "of_char (digits ! nat x) = 48 + nat x"
proof -
  have "(48 + nat x) mod 256 = 48 + nat x" using assms by simp
  then show ?thesis by (simp add: digits_nth_char_of[OF assms])
qed

lemma digits_nth_less:
  assumes "0 \<le> x" "x < 10" "0 \<le> y" "y < 10"
  shows "digits ! nat x < digits ! nat y \<longleftrightarrow> x < y"
  using assms by (auto simp add: less_char_def of_char_digit)

lemma digits_nth_eq:
  assumes "0 \<le> x" "x < 10" "0 \<le> y" "y < 10"
  shows "digits ! nat x = digits ! nat y \<longleftrightarrow> x = y"
proof
  assume "digits ! nat x = digits ! nat y"
  then have "(of_char (digits ! nat x) :: nat) = of_char (digits ! nat y)" by simp
  then show "x = y" using assms by (simp add: of_char_digit)
qed simp

lemma fixed_less_iff:
  "0 \<le> a \<Longrightarrow> a < 10 ^ p \<Longrightarrow> 0 \<le> b \<Longrightarrow> b < 10 ^ p \<Longrightarrow>
     (fixed p a < fixed p b \<longleftrightarrow> a < b) \<and> (fixed p a = fixed p b \<longleftrightarrow> a = b)"
proof (induction p arbitrary: a b)
  case 0
  then show ?case by simp
next
  case (Suc p)
  have bounds: "0 \<le> a div 10" "a div 10 < 10 ^ p" "0 \<le> b div 10" "b div 10 < 10 ^ p"
    using Suc.prems by simp_all
  note IH = Suc.IH[OF bounds]
  have m: "0 \<le> a mod 10" "a mod 10 < 10" "0 \<le> b mod 10" "b mod 10 < 10"
    by simp_all
  have lt: "a < b \<longleftrightarrow> a div 10 < b div 10 \<or> (a div 10 = b div 10 \<and> a mod 10 < b mod 10)"
    using div_mult_mod_eq[of a 10] div_mult_mod_eq[of b 10] m by arith
  have eq: "a = b \<longleftrightarrow> a div 10 = b div 10 \<and> a mod 10 = b mod 10"
    using div_mult_mod_eq[of a 10] div_mult_mod_eq[of b 10] by metis
  show ?case
    using IH by (simp add: snoc_less_iff digits_nth_less[OF m] digits_nth_eq[OF m] lt eq)
qed

lemma fmt_020d_less_iff:
  assumes "0 \<le> sint a" "0 \<le> sint b"
  shows "fmt_020d a < fmt_020d b \<longleftrightarrow> sint a < sint b"
proof -
  have ua: "uint a = sint a" and ub: "uint b = sint b"
    using assms by (simp_all add: uint_of_nonneg)
  have "uint a < 2 ^ LENGTH(64)" "uint b < 2 ^ LENGTH(64)" by (rule uint_lt2p)+
  then have "uint a < 10 ^ 20" "uint b < 10 ^ 20" by simp_all
  then show ?thesis
    using fixed_less_iff[of "uint a" 20 "uint b"] assms
    by (simp add: fmt_020d_nonneg ua ub)
qed

lemma ParseUint_loop_append:
  "ParseUint_loop n (xs @ ys) =
     (case ParseUint_loop n xs of (m, None) \<Rightarrow> ParseUint_loop m ys | (m, Some e) \<Rightarrow> (m, Some e))"
  by (induction xs arbitrary: n) (simp_all add: Let_def)

lemma digit_is_decimal:
  assumes "0 \<le> d" "d < 10"
  shows "CHR ''0'' \<le> digits ! nat d \<and> digits ! nat d \<le> CHR ''9''"
  using assms by (simp add: less_eq_char_def of_char_digit)

lemma uint_word_of_int_small:
  "0 \<le> k \<Longrightarrow> k < 2 ^ 64 \<Longrightarrow> uint (word_of_int k :: uint64) = k"
  by (simp add: uint_word_of_int)

lemma ParseUint_loop_digit:
  assumes "0 \<le> N" "0 \<le> d" "d < 10" "N * 10 + d < 2 ^ 64"
  shows "ParseUint_loop (word_of_int N) [digits ! nat d] = (word_of_int (N * 10 + d), None)"
proof -
  let ?n = "word_of_int N :: uint64"
  have N: "N < 2 ^ 64" "N * 10 < 2 ^ 64" "0 \<le> N * 10" using assms by simp_all
  have un: "uint ?n = N" by (rule uint_word_of_int_small) (use assms N in simp_all)
  have c: "\<not> cutoff10 \<le> ?n"
    using assms by (simp add: word_le_def un cutoff10_def)
  have n': "?n * 10 = word_of_int (N * 10)" by simp
  have n1: "?n * 10 + of_nat (nat d) = word_of_int (N * 10 + d)"
    using assms by simp
  have u1: "uint (word_of_int (N * 10 + d) :: uint64) = N * 10 + d"
    by (rule uint_word_of_int_small) (use assms in simp_all)
  have u': "uint (word_of_int (N * 10) :: uint64) = N * 10"
    by (rule uint_word_of_int_small) (use N in simp_all)
  have w: "\<not> (word_of_int (N * 10 + d) :: uint64) < word_of_int (N * 10)"
    using assms unfolding word_less_def u1 u' by simp
  have m: "\<not> (word_of_int (N * 10 + d) :: uint64) > maxVal"
    using assms unfolding word_less_def u1 by (simp add: maxVal_def)
  show ?thesis
    using digit_is_decimal[OF assms(2,3)] c w m
    by (simp add: Let_def of_char_digit[OF assms(2,3)] n1 del: of_nat_nat)
qed

lemma ParseUint_loop_fixed:
  "0 \<le> N \<Longrightarrow> 0 \<le> u \<Longrightarrow> u < 10 ^ k \<Longrightarrow> N * 10 ^ k + u < 2 ^ 64 \<Longrightarrow>
     ParseUint_loop (word_of_int N) (fixed k u) = (word_of_int (N * 10 ^ k + u), None)"
proof (induction k arbitrary: u)
  case 0
  then have "u = 0" by simp
  then show ?case by simp
next
  case (Suc k)
  let ?M = "N * 10 ^ k + u div 10"
  have split: "u = u div 10 * 10 + u mod 10" by simp
  have total: "?M * 10 + u mod 10 = N * 10 ^ Suc k + u"
    using split by (simp add: algebra_simps)
  have b: "0 \<le> u div 10" "u div 10 < 10 ^ k" using Suc.prems by simp_all
  have "u mod 10 \<ge> 0" by simp
  then have "?M * 10 \<le> N * 10 ^ Suc k + u" using total by arith
  then have "?M * 10 < 2 ^ 64" using Suc.prems(4) by arith
  moreover have "0 \<le> ?M" using Suc.prems(1) b(1) by simp
  ultimately have M: "?M < 2 ^ 64" "0 \<le> ?M" by arith+
  have first: "ParseUint_loop (word_of_int N) (fixed k (u div 10)) = (word_of_int ?M, None)"
    using Suc.IH[OF Suc.prems(1) b M(1)] .
  have "?M * 10 + u mod 10 < 2 ^ 64" using total Suc.prems(4) by simp
  then have last: "ParseUint_loop (word_of_int ?M) [digits ! nat (u mod 10)] =
      (word_of_int (?M * 10 + u mod 10), None)"
    by (intro ParseUint_loop_digit M) simp_all
  show ?case
    unfolding fixed.simps ParseUint_loop_append first
    using last total by (simp del: ParseUint_loop.simps)
qed

lemma fixed_decimal: "0 \<le> u \<Longrightarrow> c \<in> set (fixed k u) \<Longrightarrow> CHR ''0'' \<le> c \<and> c \<le> CHR ''9''"
proof (induction k arbitrary: u)
  case 0
  then show ?case by simp
next
  case (Suc k)
  have "0 \<le> u div 10" using Suc.prems by simp
  then show ?case
    using Suc.prems Suc.IH[of "u div 10"] digit_is_decimal[of "u mod 10"]
    by auto
qed

lemma ParseInt_fmt_020d:
  assumes "0 \<le> sint v"
  shows "ParseInt (fmt_020d v) = (v, None)"
proof -
  let ?u = "uint v"
  have u: "?u = sint v" using assms by (rule uint_of_nonneg)
  have lt: "?u < 2 ^ 63" using sint_lt[of v] u by simp
  have nn: "0 \<le> ?u" by simp
  obtain c rest where cr: "fixed 20 ?u = c # rest"
    by (cases "fixed 20 ?u") (use length_fixed[of 20 ?u] in auto)
  then have "c \<in> set (fixed 20 ?u)" by simp
  then have "CHR ''0'' \<le> c" using fixed_decimal[OF nn] by blast
  then have sign: "c \<noteq> CHR ''+''" "c \<noteq> CHR ''-''"
    by (auto simp add: less_eq_char_def)
  have "ParseUint_loop (word_of_int 0) (fixed 20 ?u) = (word_of_int (0 * 10 ^ 20 + ?u), None)"
    using lt by (intro ParseUint_loop_fixed) simp_all
  then have pu: "ParseUint (c # rest) = (v, None)"
    by (simp add: ParseUint_def cr del: ParseUint_loop.simps)
  have ge: "\<not> (2 ^ 63 :: uint64) \<le> v"
    using lt by (simp add: word_le_def)
  show ?thesis
    using sign pu ge by (simp add: fmt_020d_nonneg[OF assms] cr ParseInt_def Let_def)
qed

lemma fmt_020d_nonneg_head:
  assumes "0 \<le> sint v"
  shows "\<exists>c rest. fmt_020d v = c # rest \<and> CHR ''-'' < c"
proof -
  have nn: "0 \<le> uint v" by simp
  obtain c rest where cr: "fixed 20 (uint v) = c # rest"
    by (cases "fixed 20 (uint v)") (use length_fixed[of 20 "uint v"] in auto)
  then have "c \<in> set (fixed 20 (uint v))" by simp
  then have "CHR ''0'' \<le> c" using fixed_decimal[OF nn] by blast
  then have "CHR ''-'' < c" by (simp add: less_eq_char_def less_char_def)
  then show ?thesis using cr by (simp add: fmt_020d_nonneg[OF assms])
qed

lemma fmt_020d_neg_less_nonneg:
  assumes "sint a < 0" "0 \<le> sint b"
  shows "fmt_020d a < fmt_020d b" "\<not> fmt_020d b < fmt_020d a"
proof -
  obtain c rest where cr: "fmt_020d b = c # rest" "CHR ''-'' < c"
    using fmt_020d_nonneg_head[OF assms(2)] by blast
  have n: "\<not> c < CHR ''-''" "c \<noteq> CHR ''-''" using cr(2) by auto
  show "fmt_020d a < fmt_020d b" "\<not> fmt_020d b < fmt_020d a"
    using cr n by (simp_all add: fmt_020d_neg[OF assms(1)])
qed

lemma fmt_020d_less_iff_negative:
  assumes "sint a < 0" "sint b < 0"
  shows "fmt_020d a < fmt_020d b \<longleftrightarrow> sint b < sint a"
proof -
  have "- (2 ^ 63) \<le> sint a" "- (2 ^ 63) \<le> sint b" using sint_ge[of a] sint_ge[of b] by simp_all
  then have "- sint a < 10 ^ 19" "- sint b < 10 ^ 19" by simp_all
  then show ?thesis
    using fixed_less_iff[of "- sint a" 19 "- sint b"] assms
    by (simp add: fmt_020d_neg)
qed

lemma fmt_020d_less_iff_mixed:
  assumes "0 \<le> sint a \<or> 0 \<le> sint b"
  shows "fmt_020d a < fmt_020d b \<longleftrightarrow> sint a < sint b"
proof (cases "0 \<le> sint a")
  case a: True
  show ?thesis
  proof (cases "0 \<le> sint b")
    case True
    show ?thesis using fmt_020d_less_iff[OF a True] .
  next
    case False
    then have b: "sint b < 0" by simp
    show ?thesis using fmt_020d_neg_less_nonneg(2)[OF b a] a b by simp
  qed
next
  case False
  then have a: "sint a < 0" by simp
  then have b: "0 \<le> sint b" using assms by simp
  show ?thesis using fmt_020d_neg_less_nonneg(1)[OF a b] a b by simp
qed

lemma ParseInt_fmt_020d_neg:
  assumes "sint v < 0"
  shows "ParseInt (fmt_020d v) = (v, None)"
proof -
  let ?u = "- sint v"
  have b: "- (2 ^ 63) \<le> sint v" using sint_ge[of v] by simp
  have u: "0 \<le> ?u" "?u \<le> 2 ^ 63" "?u < 10 ^ 19" using assms b by simp_all
  have ne: "fixed 19 ?u \<noteq> []"
  proof
    assume e: "fixed 19 ?u = []"
    have "length (fixed 19 ?u) = 19" by simp
    then show False unfolding e by simp
  qed
  have "ParseUint_loop (word_of_int 0) (fixed 19 ?u) = (word_of_int (0 * 10 ^ 19 + ?u), None)"
    using u by (intro ParseUint_loop_fixed) simp_all
  then have pu: "ParseUint (fixed 19 ?u) = (- v, None)"
    using ne by (simp add: ParseUint_def del: ParseUint_loop.simps)
  have un: "uint (- v) = ?u" using assms by (rule uint_neg_of_negative)
  have gt: "\<not> (2 ^ 63 :: uint64) < - v"
    using u(2) by (simp add: word_less_def un)
  show ?thesis
    using pu gt by (simp add: fmt_020d_neg[OF assms] ParseInt_def Let_def)
qed

lemma ParseInt_fmt_020d_all: "ParseInt (fmt_020d v) = (v, None)"
  by (cases "sint v < 0") (simp_all add: ParseInt_fmt_020d_neg ParseInt_fmt_020d)

text \<open>
  C5 (amended). The key \<^verbatim>\<open>Add\<close>, \<^verbatim>\<open>Set\<close> and \<^verbatim>\<open>Delete\<close> build has 20 bytes for every \<^verbatim>\<open>int64\<close>
  height. For every pair of heights of which at least one is not negative, the byte order
  of the keys is the numeric order of the heights; between two negative heights it is the
  reverse of the numeric order. For heights from 0 to \<open>2^63 - 1\<close>, decoding a key with
  \<^verbatim>\<open>ParseInt\<close> gives the height back without an error, so that encoding it again gives the
  same key. The key is the one the methods use: on an open store \<^verbatim>\<open>Add\<close> and \<^verbatim>\<open>Set\<close> put the
  hash under it, \<^verbatim>\<open>Delete\<close> deletes it, and \<^verbatim>\<open>GetMaxCheckpointHeight\<close> returns the height when
  it is the last key.
\<close>

theorem key_encoding_width_order_roundtrip:
  "length (fmt_020d h) = 20 \<and>
   (0 \<le> sint a \<or> 0 \<le> sint b \<longrightarrow> (fmt_020d a < fmt_020d b \<longleftrightarrow> sint a < sint b)) \<and>
   (sint c < 0 \<and> sint d < 0 \<longrightarrow> (fmt_020d c < fmt_020d d \<longleftrightarrow> sint d < sint c)) \<and>
   (0 \<le> sint k \<longrightarrow>
      ParseInt (fmt_020d k) = (k, None) \<and> fmt_020d (fst (ParseInt (fmt_020d k))) = fmt_020d k) \<and>
   checkpoint_UserCheckpoint_Add h hash \<lparr>Ucdb = Some db\<rparr> =
     Inr \<lparr>Ucdb = Some (db\<lparr>db_data := kv_put (fmt_020d h) hash (db_data db)\<rparr>)\<rparr> \<and>
   checkpoint_UserCheckpoint_Delete h \<lparr>Ucdb = Some db\<rparr> =
     Inr \<lparr>Ucdb = Some (db\<lparr>db_data := kv_delete (fmt_020d h) (db_data db)\<rparr>)\<rparr> \<and>
   checkpoint_VolatileCheckpoint_Set h hash \<lparr>Vcdb = Some db\<rparr> =
     Inr \<lparr>Vcdb = Some (db\<lparr>db_data := kv_put (fmt_020d h) hash (db_data db)\<rparr>)\<rparr> \<and>
   (0 \<le> sint k \<and> db_data db \<noteq> [] \<and> fst (last (db_data db)) = fmt_020d k \<longrightarrow>
      checkpoint_UserCheckpoint_GetMaxCheckpointHeight \<lparr>Ucdb = Some db\<rparr> = Inr k)"
  by (simp add: length_fmt_020d fmt_020d_less_iff_mixed fmt_020d_less_iff_negative
      ParseInt_fmt_020d checkpoint_UserCheckpoint_Add_def checkpoint_UserCheckpoint_Delete_def
      checkpoint_VolatileCheckpoint_Set_def checkpoint_UserCheckpoint_GetMaxCheckpointHeight_def
      leveldb_Put_def leveldb_Delete_def leveldb_NewIterator_def)

theorem key_encoding_witness:
  "length (fmt_020d (- 5)) = 20 \<and>
   fmt_020d 50 < fmt_020d 100 \<and>
   fmt_020d (- 5) < fmt_020d 50 \<and>
   \<not> fmt_020d 50 < fmt_020d (- 5) \<and>
   fmt_020d (- 3) < fmt_020d (- 5) \<and>
   ParseInt (fmt_020d 50) = (50, None) \<and> fmt_020d (fst (ParseInt (fmt_020d 50))) = fmt_020d 50 \<and>
   checkpoint_UserCheckpoint_GetMaxCheckpointHeight
     \<lparr>Ucdb = Some \<lparr>db_path = ''p'', db_data = [(fmt_020d 50, ''a'')]\<rparr>\<rparr> = Inr 50"
proof -
  have s: "sint (50 :: int64) = 50" "sint (100 :: int64) = 100"
    "sint (- 5 :: int64) = - 5" "sint (- 3 :: int64) = - 3"
    by simp_all
  show ?thesis
    using key_encoding_width_order_roundtrip
        [where h = "- 5" and a = 50 and b = 100 and c = "- 3" and d = "- 5" and k = 50
           and db = "\<lparr>db_path = ''p'', db_data = [(fmt_020d 50, ''a'')]\<rparr>"]
      key_encoding_width_order_roundtrip
        [where a = "- 5" and b = 50 and c = "- 3" and d = "- 5" and k = 50
           and db = "\<lparr>db_path = ''p'', db_data = [(fmt_020d 50, ''a'')]\<rparr>",
         THEN conjunct2, THEN conjunct1]
      key_encoding_width_order_roundtrip
        [where a = 50 and b = "- 5" and c = "- 3" and d = "- 5" and k = 50
           and db = "\<lparr>db_path = ''p'', db_data = [(fmt_020d 50, ''a'')]\<rparr>",
         THEN conjunct2, THEN conjunct1]
    by (simp add: s)
qed

text \<open>
  The claim as stated takes the order over every \<^verbatim>\<open>int64\<close> height. Two negative heights are
  encoded with a sign and the digits of their magnitudes, so their keys are in the opposite
  order: \<open>-5 < -3\<close>, and the key of \<open>-3\<close> comes first.
\<close>

theorem key_order_negative_counterexample:
  "sint (- 5 :: int64) < sint (- 3 :: int64) \<and> \<not> fmt_020d (- 5) < fmt_020d (- 3)"
  by code_simp

section \<open>The greatest stored height\<close>

lemma keys_kv_put: "set (map fst (kv_put k v d)) = insert k (set (map fst d))"
  by (induction k v d rule: kv_put.induct) auto

lemma keys_kv_delete: "set (map fst (kv_delete k d)) = set (map fst d) - {k}"
  by (induction k d rule: kv_delete.induct) auto

lemma sorted_kv_put:
  "sorted_wrt (<) (map fst d) \<Longrightarrow> sorted_wrt (<) (map fst (kv_put k v d))"
proof (induction d)
  case Nil
  then show ?case by simp
next
  case (Cons e d)
  obtain k' v' where e: "e = (k', v')" by (cases e)
  have "\<forall>x \<in> set (map fst (kv_put k v d)). k' < x" if "k' < k"
    using Cons.prems that unfolding keys_kv_put by (auto simp add: e)
  then show ?case
    using Cons by (auto simp add: e)
qed

lemma sorted_kv_delete:
  "sorted_wrt (<) (map fst d) \<Longrightarrow> sorted_wrt (<) (map fst (kv_delete k d))"
proof (induction d)
  case Nil
  then show ?case by simp
next
  case (Cons e d)
  obtain k' v' where e: "e = (k', v')" by (cases e)
  have "\<forall>x \<in> set (map fst (kv_delete k d)). k' < x"
    using Cons.prems unfolding keys_kv_delete by (auto simp add: e)
  then show ?case
    using Cons by (auto simp add: e)
qed

lemma last_key_greatest:
  fixes d :: kv
  shows "sorted_wrt (<) (map fst d) \<Longrightarrow> d \<noteq> [] \<Longrightarrow> x \<in> set (map fst d) \<Longrightarrow> x \<le> fst (last d)"
proof (induction d)
  case Nil
  then show ?case by simp
next
  case (Cons e d)
  show ?case
  proof (cases "d = []")
    case True
    then show ?thesis using Cons.prems by simp
  next
    case False
    have lt: "fst e < fst (last d)"
      using Cons.prems(1) False last_in_set[OF False] by auto
    show ?thesis
    proof (cases "x = fst e")
      case True
      then show ?thesis using lt False by simp
    next
      case ne: False
      then have "x \<in> set (map fst d)" using Cons.prems(3) by auto
      then have "x \<le> fst (last d)" using Cons.IH Cons.prems(1) False by simp
      then show ?thesis using False by simp
    qed
  qed
qed

lemma fmt_020d_inj:
  assumes "fmt_020d a = fmt_020d b"
  shows "a = b"
proof -
  have "(a, None :: go_error option) = ParseInt (fmt_020d a)" by (simp only: ParseInt_fmt_020d_all)
  also have "\<dots> = ParseInt (fmt_020d b)" by (simp only: assms)
  also have "\<dots> = (b, None)" by (simp only: ParseInt_fmt_020d_all)
  finally show ?thesis by simp
qed

lemma checkpoint_writes_invariant:
  assumes "sorted_wrt (<) (map fst (db_data d))"
    and "set (map fst (db_data d)) = fmt_020d ` S"
  shows "\<exists>d'. checkpoint_writes ws \<lparr>Ucdb = Some d\<rparr> = Inr \<lparr>Ucdb = Some d'\<rparr> \<and>
           sorted_wrt (<) (map fst (db_data d')) \<and>
           set (map fst (db_data d')) = fmt_020d ` heights_stored ws S"
  using assms
proof (induction ws arbitrary: d S)
  case Nil
  then show ?case by simp
next
  case (Cons w ws)
  show ?case
  proof (cases w)
    case (Write_Add h hash)
    let ?d = "d\<lparr>db_data := kv_put (fmt_020d h) hash (db_data d)\<rparr>"
    have "\<exists>d'. checkpoint_writes ws \<lparr>Ucdb = Some ?d\<rparr> = Inr \<lparr>Ucdb = Some d'\<rparr> \<and>
           sorted_wrt (<) (map fst (db_data d')) \<and>
           set (map fst (db_data d')) = fmt_020d ` heights_stored ws (insert h S)"
    proof (rule Cons.IH)
      show "sorted_wrt (<) (map fst (db_data ?d))"
        using Cons.prems(1) by (simp add: sorted_kv_put)
      show "set (map fst (db_data ?d)) = fmt_020d ` insert h S"
        using Cons.prems(2) by (simp add: keys_kv_put del: set_map)
    qed
    then show ?thesis
      by (simp add: Write_Add checkpoint_UserCheckpoint_Add_def leveldb_Put_def)
  next
    case (Write_Delete h)
    let ?d = "d\<lparr>db_data := kv_delete (fmt_020d h) (db_data d)\<rparr>"
    have img: "fmt_020d ` S - {fmt_020d h} = fmt_020d ` (S - {h})"
      by (auto dest: fmt_020d_inj)
    have "\<exists>d'. checkpoint_writes ws \<lparr>Ucdb = Some ?d\<rparr> = Inr \<lparr>Ucdb = Some d'\<rparr> \<and>
           sorted_wrt (<) (map fst (db_data d')) \<and>
           set (map fst (db_data d')) = fmt_020d ` heights_stored ws (S - {h})"
    proof (rule Cons.IH)
      show "sorted_wrt (<) (map fst (db_data ?d))"
        using Cons.prems(1) by (simp add: sorted_kv_delete)
      show "set (map fst (db_data ?d)) = fmt_020d ` (S - {h})"
        using Cons.prems(2) img by (simp add: keys_kv_delete del: set_map)
    qed
    then show ?thesis
      by (simp add: Write_Delete checkpoint_UserCheckpoint_Delete_def leveldb_Delete_def)
  qed
qed

lemma GetMax_of_sorted:
  assumes "sorted_wrt (<) (map fst (db_data d))"
    and "set (map fst (db_data d)) = fmt_020d ` S"
  shows "\<exists>m. checkpoint_UserCheckpoint_GetMaxCheckpointHeight \<lparr>Ucdb = Some d\<rparr> = Inr m \<and>
           (if S = {} then m = 0
            else m \<in> S \<and>
              (if \<exists>h \<in> S. 0 \<le> sint h then \<forall>h \<in> S. sint h \<le> sint m
               else \<forall>h \<in> S. sint m \<le> sint h))"
proof (cases "db_data d = []")
  case True
  then have "S = {}" using assms(2) by simp
  then show ?thesis
    using True by (simp add: checkpoint_UserCheckpoint_GetMaxCheckpointHeight_def leveldb_NewIterator_def)
next
  case False
  then have "fst (last (db_data d)) \<in> set (map fst (db_data d))"
    using last_in_set[OF False] by simp
  then obtain m where m: "m \<in> S" "fst (last (db_data d)) = fmt_020d m"
    using assms(2) by auto
  have le: "fmt_020d h \<le> fmt_020d m" if "h \<in> S" for h
  proof -
    have "fmt_020d h \<in> set (map fst (db_data d))" using that assms(2) by simp
    then have "fmt_020d h \<le> fst (last (db_data d))"
      using last_key_greatest[OF assms(1) False] by blast
    then show ?thesis using m(2) by simp
  qed
  have nlt: "\<not> fmt_020d m < fmt_020d h" if "h \<in> S" for h
    using le[OF that] by simp
  have top: "sint h \<le> sint m" if "h \<in> S" "0 \<le> sint g" "g \<in> S" for h g
  proof -
    have mnn: "0 \<le> sint m"
    proof (rule ccontr)
      assume "\<not> 0 \<le> sint m"
      then have "sint m < sint g" using that(2) by simp
      then have "fmt_020d m < fmt_020d g"
        using that(2) fmt_020d_less_iff_mixed[of m g] by simp
      then show False using nlt[OF that(3)] by simp
    qed
    show ?thesis
    proof (rule ccontr)
      assume "\<not> sint h \<le> sint m"
      then have "sint m < sint h" by simp
      then have "fmt_020d m < fmt_020d h"
        using mnn fmt_020d_less_iff_mixed[of m h] by simp
      then show False using nlt[OF that(1)] by simp
    qed
  qed
  have bottom: "sint m \<le> sint h" if "h \<in> S" "\<forall>g \<in> S. sint g < 0" for h
  proof (rule ccontr)
    assume "\<not> sint m \<le> sint h"
    then have "sint h < sint m" by simp
    moreover have "sint m < 0" "sint h < 0" using that m(1) by simp_all
    ultimately have "fmt_020d m < fmt_020d h"
      using fmt_020d_less_iff_negative[of m h] by simp
    then show False using nlt[OF that(1)] by simp
  qed
  have "S \<noteq> {}" using m(1) by auto
  moreover have "checkpoint_UserCheckpoint_GetMaxCheckpointHeight \<lparr>Ucdb = Some d\<rparr> = Inr m"
    using False m(2)
    by (simp add: checkpoint_UserCheckpoint_GetMaxCheckpointHeight_def leveldb_NewIterator_def
        ParseInt_fmt_020d_all)
  moreover have "if \<exists>h \<in> S. 0 \<le> sint h then \<forall>h \<in> S. sint h \<le> sint m
               else \<forall>h \<in> S. sint m \<le> sint h"
  proof (cases "\<exists>h \<in> S. 0 \<le> sint h")
    case True
    then obtain g where "g \<in> S" "0 \<le> sint g" by blast
    then have "\<forall>h \<in> S. sint h \<le> sint m" using top by blast
    then show ?thesis using True by simp
  next
    case False
    then have "\<forall>g \<in> S. sint g < 0" by auto
    then have "\<forall>h \<in> S. sint m \<le> sint h" using bottom by blast
    then show ?thesis using False by simp
  qed
  ultimately show ?thesis using m(1) by simp
qed

text \<open>
  C3 (amended). After any sequence of \<^verbatim>\<open>Add\<close> and \<^verbatim>\<open>Delete\<close> calls on an open, empty
  \<^verbatim>\<open>UserCheckpoint\<close> store, \<^verbatim>\<open>GetMaxCheckpointHeight\<close> returns 0 when no height is stored;
  otherwise it returns a stored height, which is the greatest one when some stored height
  is not negative, and the least one when every stored height is negative.
\<close>

theorem max_height_of_writes:
  "\<exists>uc m. checkpoint_writes ws \<lparr>Ucdb = Some \<lparr>db_path = p, db_data = []\<rparr>\<rparr> = Inr uc \<and>
           checkpoint_UserCheckpoint_GetMaxCheckpointHeight uc = Inr m \<and>
           (if heights_stored ws {} = {} then m = 0
            else m \<in> heights_stored ws {} \<and>
              (if \<exists>h \<in> heights_stored ws {}. 0 \<le> sint h
               then \<forall>h \<in> heights_stored ws {}. sint h \<le> sint m
               else \<forall>h \<in> heights_stored ws {}. sint m \<le> sint h))"
proof -
  let ?d = "\<lparr>db_path = p, db_data = []\<rparr>"
  have "\<exists>d'. checkpoint_writes ws \<lparr>Ucdb = Some ?d\<rparr> = Inr \<lparr>Ucdb = Some d'\<rparr> \<and>
           sorted_wrt (<) (map fst (db_data d')) \<and>
           set (map fst (db_data d')) = fmt_020d ` heights_stored ws {}"
    by (rule checkpoint_writes_invariant) simp_all
  then obtain d' where d': "checkpoint_writes ws \<lparr>Ucdb = Some ?d\<rparr> = Inr \<lparr>Ucdb = Some d'\<rparr>"
      "sorted_wrt (<) (map fst (db_data d'))"
      "set (map fst (db_data d')) = fmt_020d ` heights_stored ws {}"
    by blast
  show ?thesis
    using GetMax_of_sorted[OF d'(2,3)] d'(1) by blast
qed

theorem max_height_witness:
  "(\<exists>uc. checkpoint_writes [Write_Add 100 ''a'', Write_Add 50 ''b'', Write_Add 200 ''c'']
            \<lparr>Ucdb = Some \<lparr>db_path = ''p'', db_data = []\<rparr>\<rparr> = Inr uc \<and>
          checkpoint_UserCheckpoint_GetMaxCheckpointHeight uc = Inr 200) \<and>
   (\<exists>uc. checkpoint_writes [Write_Add 100 ''a'', Write_Add 50 ''b'', Write_Add 200 ''c'', Write_Delete 200]
            \<lparr>Ucdb = Some \<lparr>db_path = ''p'', db_data = []\<rparr>\<rparr> = Inr uc \<and>
          checkpoint_UserCheckpoint_GetMaxCheckpointHeight uc = Inr 100) \<and>
   (\<exists>uc. checkpoint_writes [Write_Add (- 7) ''a'', Write_Add 3 ''b'']
            \<lparr>Ucdb = Some \<lparr>db_path = ''p'', db_data = []\<rparr>\<rparr> = Inr uc \<and>
          checkpoint_UserCheckpoint_GetMaxCheckpointHeight uc = Inr 3) \<and>
   checkpoint_UserCheckpoint_GetMaxCheckpointHeight \<lparr>Ucdb = Some \<lparr>db_path = ''p'', db_data = []\<rparr>\<rparr> = Inr 0"
proof -
  have s: "sint (100 :: int64) = 100" "sint (50 :: int64) = 50" "sint (200 :: int64) = 200"
    "sint (- 7 :: int64) = - 7" "sint (3 :: int64) = 3"
    by simp_all
  have ne: "(100 :: int64) \<noteq> 200" "(50 :: int64) \<noteq> 200"
    by simp_all
  have a: "\<exists>uc. checkpoint_writes [Write_Add 100 ''a'', Write_Add 50 ''b'', Write_Add 200 ''c'']
            \<lparr>Ucdb = Some \<lparr>db_path = ''p'', db_data = []\<rparr>\<rparr> = Inr uc \<and>
          checkpoint_UserCheckpoint_GetMaxCheckpointHeight uc = Inr 200"
    using max_height_of_writes
      [of "[Write_Add 100 ''a'', Write_Add 50 ''b'', Write_Add 200 ''c'']" "''p''"]
    by (auto simp add: s)
  have b: "\<exists>uc. checkpoint_writes [Write_Add 100 ''a'', Write_Add 50 ''b'', Write_Add 200 ''c'', Write_Delete 200]
            \<lparr>Ucdb = Some \<lparr>db_path = ''p'', db_data = []\<rparr>\<rparr> = Inr uc \<and>
          checkpoint_UserCheckpoint_GetMaxCheckpointHeight uc = Inr 100"
    using max_height_of_writes
      [of "[Write_Add 100 ''a'', Write_Add 50 ''b'', Write_Add 200 ''c'', Write_Delete 200]" "''p''"]
    by (auto simp add: s ne)
  have c: "\<exists>uc. checkpoint_writes [Write_Add (- 7) ''a'', Write_Add 3 ''b'']
            \<lparr>Ucdb = Some \<lparr>db_path = ''p'', db_data = []\<rparr>\<rparr> = Inr uc \<and>
          checkpoint_UserCheckpoint_GetMaxCheckpointHeight uc = Inr 3"
    using max_height_of_writes [of "[Write_Add (- 7) ''a'', Write_Add 3 ''b'']" "''p''"]
    by (auto simp add: s)
  have d: "checkpoint_UserCheckpoint_GetMaxCheckpointHeight \<lparr>Ucdb = Some \<lparr>db_path = ''p'', db_data = []\<rparr>\<rparr> = Inr 0"
    using max_height_of_writes[of "[]" "''p''"] by simp
  show ?thesis using a b c d by blast
qed

text \<open>
  With the heights \<open>-5\<close> and \<open>-3\<close> stored, the last key is the one of \<open>-5\<close>, and
  \<^verbatim>\<open>GetMaxCheckpointHeight\<close> returns \<open>-5\<close>, which is not the greatest stored height.
\<close>

theorem max_height_negative_counterexample:
  "checkpoint_writes [Write_Add (- 5) ''a'', Write_Add (- 3) ''b'']
      \<lparr>Ucdb = Some \<lparr>db_path = ''p'', db_data = []\<rparr>\<rparr> =
     Inr \<lparr>Ucdb = Some \<lparr>db_path = ''p'',
            db_data = [(''-0000000000000000003'', ''b''), (''-0000000000000000005'', ''a'')]\<rparr>\<rparr> \<and>
   checkpoint_UserCheckpoint_GetMaxCheckpointHeight
     \<lparr>Ucdb = Some \<lparr>db_path = ''p'',
            db_data = [(''-0000000000000000003'', ''b''), (''-0000000000000000005'', ''a'')]\<rparr>\<rparr> = Inr (- 5) \<and>
   heights_stored [Write_Add (- 5) ''a'', Write_Add (- 3) ''b''] {} = {- 3, - 5} \<and>
   sint (- 5 :: int64) < sint (- 3 :: int64)"
proof -
  have k: "fmt_020d (- 5) = ''-0000000000000000005''" "fmt_020d (- 3) = ''-0000000000000000003''"
    by code_simp+
  have p: "ParseInt ''-0000000000000000005'' = (- 5, None)"
    by code_simp
  have lt: "(''-0000000000000000003'' :: string) < ''-0000000000000000005''"
    by simp
  show ?thesis
    using lt
    by (simp add: checkpoint_UserCheckpoint_Add_def leveldb_Put_def k p
        checkpoint_UserCheckpoint_GetMaxCheckpointHeight_def leveldb_NewIterator_def insert_commute)
qed

section \<open>A last key that does not decode\<close>

lemma ParseUint_loop_error:
  "ParseUint_loop n s = (m, Some e) \<Longrightarrow> (e = ErrSyntax \<and> m = 0) \<or> (e = ErrRange \<and> m = maxVal)"
  by (induction s arbitrary: n) (auto simp add: Let_def split: if_splits)

lemma ParseUint_error:
  "ParseUint s = (m, Some e) \<Longrightarrow> (e = ErrSyntax \<and> m = 0) \<or> (e = ErrRange \<and> m = maxVal)"
  using ParseUint_loop_error[of 0 s m e] by (auto simp add: ParseUint_def split: if_splits)

lemma ParseInt_error:
  assumes "ParseInt s = (v, Some e)"
  shows "(e = ErrSyntax \<and> v = 0) \<or>
         (e = ErrRange \<and>
          v = (if hd s = CHR ''-'' then - 9223372036854775808 else 9223372036854775807))"
proof (cases s)
  case Nil
  then show ?thesis using assms by (simp add: ParseInt_def)
next
  case (Cons c rest)
  obtain un err where pu: "ParseUint (if c = CHR ''+'' \<or> c = CHR ''-'' then rest else c # rest) = (un, err)"
    by (cases "ParseUint (if c = CHR ''+'' \<or> c = CHR ''-'' then rest else c # rest)")
  show ?thesis
  proof (cases "err \<noteq> None \<and> err \<noteq> Some ErrRange")
    case True
    then obtain e' where e': "err = Some e'" "e' \<noteq> ErrRange" by auto
    then have "e' = ErrSyntax" using ParseUint_error pu by blast
    then show ?thesis
      using assms True e' pu Cons by (simp add: ParseInt_def Let_def)
  next
    case False
    then show ?thesis
      using assms pu Cons by (auto simp add: ParseInt_def Let_def split: if_splits)
  qed
qed

text \<open>
  C4 (amended). When the last key of the store does not decode, \<^verbatim>\<open>GetMaxCheckpointHeight\<close>
  of either package returns no error but the value \<^verbatim>\<open>ParseInt\<close> gives with its error: 0 when
  \<^verbatim>\<open>ParseInt\<close> reports a syntax error, and when it reports a range error the bound that the
  digits passed, \<open>2^63 - 1\<close>, or \<open>-2^63\<close> for a key with a leading minus sign.
\<close>

theorem malformed_last_key:
  assumes "Ucdb uc = Some d" and "db_data d \<noteq> []"
    and "ParseInt (fst (last (db_data d))) = (v, Some err)"
  shows "checkpoint_UserCheckpoint_GetMaxCheckpointHeight uc = Inr v \<and>
         database_UserCheckpoint_GetMaxCheckpointHeight uc = Inr v \<and>
         (err = ErrSyntax \<and> v = 0 \<or>
          err = ErrRange \<and>
          v = (if hd (fst (last (db_data d))) = CHR ''-''
               then - 9223372036854775808 else 9223372036854775807))"
  using assms ParseInt_error[OF assms(3)]
  by (simp add: checkpoint_UserCheckpoint_GetMaxCheckpointHeight_def
      database_UserCheckpoint_GetMaxCheckpointHeight_def leveldb_NewIterator_def)

theorem malformed_last_key_witness:
  "checkpoint_UserCheckpoint_GetMaxCheckpointHeight
     \<lparr>Ucdb = Some \<lparr>db_path = ''p'', db_data = [(''00000000000000000007'', ''a''), (''height'', ''b'')]\<rparr>\<rparr> = Inr 0 \<and>
   database_UserCheckpoint_GetMaxCheckpointHeight
     \<lparr>Ucdb = Some \<lparr>db_path = ''p'', db_data = [(''00000000000000000007'', ''a''), (''height'', ''b'')]\<rparr>\<rparr> = Inr 0"
proof -
  have p: "ParseInt ''height'' = (0, Some ErrSyntax)" by code_simp
  show ?thesis
    using malformed_last_key
      [of "\<lparr>Ucdb = Some \<lparr>db_path = ''p'', db_data = [(''00000000000000000007'', ''a''), (''height'', ''b'')]\<rparr>\<rparr>"
          "\<lparr>db_path = ''p'', db_data = [(''00000000000000000007'', ''a''), (''height'', ''b'')]\<rparr>"
          0 ErrSyntax]
    by (simp add: p)
qed

text \<open>
  A last key of twenty nines is a decimal numeral that does not fit \<^verbatim>\<open>int64\<close>: the value
  returned is \<open>2^63 - 1\<close>, not 0.
\<close>

theorem out_of_range_last_key_counterexample:
  "ParseInt ''99999999999999999999'' = (9223372036854775807, Some ErrRange) \<and>
   checkpoint_UserCheckpoint_GetMaxCheckpointHeight
     \<lparr>Ucdb = Some \<lparr>db_path = ''p'', db_data = [(''99999999999999999999'', ''a'')]\<rparr>\<rparr> =
     Inr 9223372036854775807 \<and>
   database_UserCheckpoint_GetMaxCheckpointHeight
     \<lparr>Ucdb = Some \<lparr>db_path = ''p'', db_data = [(''99999999999999999999'', ''a'')]\<rparr>\<rparr> =
     Inr 9223372036854775807 \<and>
   (9223372036854775807 :: int64) \<noteq> 0"
proof -
  have p: "ParseInt ''99999999999999999999'' = (9223372036854775807, Some ErrRange)" by code_simp
  show ?thesis
    by (simp add: p checkpoint_UserCheckpoint_GetMaxCheckpointHeight_def
      database_UserCheckpoint_GetMaxCheckpointHeight_def leveldb_NewIterator_def)
qed

section \<open>Operations on a store that is not open\<close>

lemma checkpoint_path_not_panic:
  "checkpoint_GetUserCheckpointDbPath ce a \<noteq> Inl NilPointerDereference"
  "checkpoint_GetVolatileCheckpointDbPath ce a \<noteq> Inl NilPointerDereference"
  "checkpoint_GetAlertKeyDbPath ce a \<noteq> Inl NilPointerDereference"
  by (simp_all add: checkpoint_GetUserCheckpointDbPath_def checkpoint_GetVolatileCheckpointDbPath_def
      checkpoint_GetAlertKeyDbPath_def Let_def split: sum.splits prod.splits)

lemma database_path_not_panic:
  "database_GetUserCheckpointDbPath de a \<noteq> Inl NilPointerDereference"
  "database_GetVolatileCheckpointDbPath de a \<noteq> Inl NilPointerDereference"
  "database_GetAlertKeyDbPath de a \<noteq> Inl NilPointerDereference"
  "database_GetDenyAddressDbPath de a \<noteq> Inl NilPointerDereference"
  by (simp_all add: database_GetUserCheckpointDbPath_def database_GetVolatileCheckpointDbPath_def
      database_GetAlertKeyDbPath_def database_GetDenyAddressDbPath_def Let_def split: sum.splits)

lemma OpenDB_not_panic:
  "checkpoint_UserCheckpoint_OpenDB ce (a, w, uc) \<noteq> Inl NilPointerDereference"
  "checkpoint_VolatileCheckpoint_OpenDB ce (a, w, vc) \<noteq> Inl NilPointerDereference"
  "checkpoint_AlertKey_OpenDB ce (a, w, ak) \<noteq> Inl NilPointerDereference"
  "database_UserCheckpoint_OpenDB de (a, w, uc) \<noteq> Inl NilPointerDereference"
  "database_VolatileCheckpoint_OpenDB de (a, w, vc) \<noteq> Inl NilPointerDereference"
  "database_AlertKey_OpenDB de (a, w, ak) \<noteq> Inl NilPointerDereference"
  "database_DenyAddress_OpenDB de (a, w, da) \<noteq> Inl NilPointerDereference"
  using checkpoint_path_not_panic[of ce a] database_path_not_panic[of de a]
  by (auto simp add: checkpoint_UserCheckpoint_OpenDB_def checkpoint_VolatileCheckpoint_OpenDB_def
      checkpoint_AlertKey_OpenDB_def database_UserCheckpoint_OpenDB_def
      database_VolatileCheckpoint_OpenDB_def database_AlertKey_OpenDB_def
      database_DenyAddress_OpenDB_def split: sum.splits prod.splits)

text \<open>
  C9. On a store whose handle is nil, every data operation of the two packages ends in a
  nil pointer dereference: \<^verbatim>\<open>Add\<close>, \<^verbatim>\<open>Delete\<close> and \<^verbatim>\<open>GetMaxCheckpointHeight\<close> of
  \<^verbatim>\<open>UserCheckpoint\<close>, \<^verbatim>\<open>Set\<close> and \<^verbatim>\<open>ClearDB\<close> of \<^verbatim>\<open>VolatileCheckpoint\<close>, \<^verbatim>\<open>Set\<close> and \<^verbatim>\<open>IsValid\<close> of
  \<^verbatim>\<open>AlertKey\<close>, and \<^verbatim>\<open>Set\<close> of \<^verbatim>\<open>DenyAddress\<close>. \<^verbatim>\<open>CloseDB\<close> on such a store returns and changes
  nothing, and \<^verbatim>\<open>OpenDB\<close> never ends in a nil pointer dereference.
\<close>

theorem nil_handle_dereference:
  "(Ucdb uc = None \<longrightarrow>
      checkpoint_UserCheckpoint_Add h hash uc = Inl NilPointerDereference \<and>
      checkpoint_UserCheckpoint_Delete h uc = Inl NilPointerDereference \<and>
      checkpoint_UserCheckpoint_GetMaxCheckpointHeight uc = Inl NilPointerDereference \<and>
      database_UserCheckpoint_Add h hash uc = Inl NilPointerDereference \<and>
      database_UserCheckpoint_Delete h uc = Inl NilPointerDereference \<and>
      database_UserCheckpoint_GetMaxCheckpointHeight uc = Inl NilPointerDereference \<and>
      checkpoint_UserCheckpoint_CloseDB (w, uc) = (w, uc) \<and>
      database_UserCheckpoint_CloseDB (w, uc) = (w, uc) \<and>
      checkpoint_UserCheckpoint_OpenDB ce (a, w, uc) \<noteq> Inl NilPointerDereference \<and>
      database_UserCheckpoint_OpenDB de (a, w, uc) \<noteq> Inl NilPointerDereference) \<and>
   (Vcdb vc = None \<longrightarrow>
      checkpoint_VolatileCheckpoint_Set h hash vc = Inl NilPointerDereference \<and>
      checkpoint_VolatileCheckpoint_ClearDB vc = Inl NilPointerDereference \<and>
      database_VolatileCheckpoint_Set h hash vc = Inl NilPointerDereference \<and>
      database_VolatileCheckpoint_ClearDB vc = Inl NilPointerDereference \<and>
      checkpoint_VolatileCheckpoint_CloseDB (w, vc) = (w, vc) \<and>
      database_VolatileCheckpoint_CloseDB (w, vc) = (w, vc) \<and>
      checkpoint_VolatileCheckpoint_OpenDB ce (a, w, vc) \<noteq> Inl NilPointerDereference \<and>
      database_VolatileCheckpoint_OpenDB de (a, w, vc) \<noteq> Inl NilPointerDereference) \<and>
   (Akdb ak = None \<longrightarrow>
      checkpoint_AlertKey_Set key ak = Inl NilPointerDereference \<and>
      checkpoint_AlertKey_IsValid a ak = Inl NilPointerDereference \<and>
      database_AlertKey_Set key ak = Inl NilPointerDereference \<and>
      database_AlertKey_IsValid a ak = Inl NilPointerDereference \<and>
      checkpoint_AlertKey_CloseDB (w, ak) = (w, ak) \<and>
      database_AlertKey_CloseDB (w, ak) = (w, ak) \<and>
      checkpoint_AlertKey_OpenDB ce (a, w, ak) \<noteq> Inl NilPointerDereference \<and>
      database_AlertKey_OpenDB de (a, w, ak) \<noteq> Inl NilPointerDereference) \<and>
   (Dadb da = None \<longrightarrow>
      database_DenyAddress_Set address da = Inl NilPointerDereference \<and>
      database_DenyAddress_CloseDB (w, da) = (w, da) \<and>
      database_DenyAddress_OpenDB de (a, w, da) \<noteq> Inl NilPointerDereference)"
proof (intro conjI impI)
  assume "Ucdb uc = None"
  then show "checkpoint_UserCheckpoint_Add h hash uc = Inl NilPointerDereference"
    "checkpoint_UserCheckpoint_Delete h uc = Inl NilPointerDereference"
    "checkpoint_UserCheckpoint_GetMaxCheckpointHeight uc = Inl NilPointerDereference"
    "database_UserCheckpoint_Add h hash uc = Inl NilPointerDereference"
    "database_UserCheckpoint_Delete h uc = Inl NilPointerDereference"
    "database_UserCheckpoint_GetMaxCheckpointHeight uc = Inl NilPointerDereference"
    "checkpoint_UserCheckpoint_CloseDB (w, uc) = (w, uc)"
    "database_UserCheckpoint_CloseDB (w, uc) = (w, uc)"
    by (simp_all add: checkpoint_UserCheckpoint_Add_def checkpoint_UserCheckpoint_Delete_def
        checkpoint_UserCheckpoint_GetMaxCheckpointHeight_def database_UserCheckpoint_Add_def
        database_UserCheckpoint_Delete_def database_UserCheckpoint_GetMaxCheckpointHeight_def
        checkpoint_UserCheckpoint_CloseDB_def database_UserCheckpoint_CloseDB_def
        leveldb_Put_def leveldb_Delete_def leveldb_NewIterator_def)
next
  assume "Vcdb vc = None"
  then show "checkpoint_VolatileCheckpoint_Set h hash vc = Inl NilPointerDereference"
    "checkpoint_VolatileCheckpoint_ClearDB vc = Inl NilPointerDereference"
    "database_VolatileCheckpoint_Set h hash vc = Inl NilPointerDereference"
    "database_VolatileCheckpoint_ClearDB vc = Inl NilPointerDereference"
    "checkpoint_VolatileCheckpoint_CloseDB (w, vc) = (w, vc)"
    "database_VolatileCheckpoint_CloseDB (w, vc) = (w, vc)"
    by (simp_all add: checkpoint_VolatileCheckpoint_Set_def checkpoint_VolatileCheckpoint_ClearDB_def
        database_VolatileCheckpoint_Set_def database_VolatileCheckpoint_ClearDB_def
        checkpoint_VolatileCheckpoint_CloseDB_def database_VolatileCheckpoint_CloseDB_def
        leveldb_Put_def leveldb_NewIterator_def)
next
  assume "Akdb ak = None"
  then show "checkpoint_AlertKey_Set key ak = Inl NilPointerDereference"
    "checkpoint_AlertKey_IsValid a ak = Inl NilPointerDereference"
    "database_AlertKey_Set key ak = Inl NilPointerDereference"
    "database_AlertKey_IsValid a ak = Inl NilPointerDereference"
    "checkpoint_AlertKey_CloseDB (w, ak) = (w, ak)"
    "database_AlertKey_CloseDB (w, ak) = (w, ak)"
    by (simp_all add: checkpoint_AlertKey_Set_def checkpoint_AlertKey_IsValid_def
        database_AlertKey_Set_def database_AlertKey_IsValid_def
        checkpoint_AlertKey_CloseDB_def database_AlertKey_CloseDB_def
        leveldb_Put_def leveldb_Get_def)
next
  assume "Dadb da = None"
  then show "database_DenyAddress_Set address da = Inl NilPointerDereference"
    "database_DenyAddress_CloseDB (w, da) = (w, da)"
    by (simp_all add: database_DenyAddress_Set_def database_DenyAddress_CloseDB_def leveldb_Put_def)
qed (rule OpenDB_not_panic)+

theorem nil_handle_witness:
  "checkpoint_UserCheckpoint_Add 7 ''h'' \<lparr>Ucdb = None\<rparr> = Inl NilPointerDereference \<and>
   checkpoint_UserCheckpoint_GetMaxCheckpointHeight \<lparr>Ucdb = None\<rparr> = Inl NilPointerDereference \<and>
   database_VolatileCheckpoint_ClearDB \<lparr>Vcdb = None\<rparr> = Inl NilPointerDereference \<and>
   checkpoint_AlertKey_IsValid
     \<lparr>Name = ''mainnet'', Net = wire_MainNet, AlertPubMainKey = ''m'', AlertPubSubKey = ''s''\<rparr>
     \<lparr>Akdb = None\<rparr> = Inl NilPointerDereference \<and>
   database_DenyAddress_Set ''addr'' \<lparr>Dadb = None\<rparr> = Inl NilPointerDereference \<and>
   checkpoint_UserCheckpoint_CloseDB (\<lparr>files = Map.empty, locks = {}\<rparr>, \<lparr>Ucdb = None\<rparr>) =
     (\<lparr>files = Map.empty, locks = {}\<rparr>, \<lparr>Ucdb = None\<rparr>)"
  using nil_handle_dereference
    [where uc = "\<lparr>Ucdb = None\<rparr>" and vc = "\<lparr>Vcdb = None\<rparr>" and ak = "\<lparr>Akdb = None\<rparr>"
       and da = "\<lparr>Dadb = None\<rparr>" and h = 7 and hash = "''h''" and address = "''addr''"
       and w = "\<lparr>files = Map.empty, locks = {}\<rparr>"
       and a = "\<lparr>Name = ''mainnet'', Net = wire_MainNet, AlertPubMainKey = ''m'', AlertPubSubKey = ''s''\<rparr>"]
  by simp

section \<open>The alert keys\<close>

lemma map_of_kv_put: "map_of (kv_put k v d) = (map_of d)(k \<mapsto> v)"
  by (induction k v d rule: kv_put.induct) (auto simp add: fun_eq_iff)

text \<open>
  What \<^verbatim>\<open>IsValid\<close> returns on an open store is decided by the two values it reads, that is by
  the entries before the call; the entries it writes for missing keys do not enter the
  comparison.
\<close>

lemma checkpoint_IsValid_result:
  assumes "Akdb ak = Some d"
  shows "\<exists>d'. checkpoint_AlertKey_IsValid a ak =
            Inr (map_of (db_data d) (AlertPubMainKey a) = Some ''false'' \<and>
                 map_of (db_data d) (AlertPubSubKey a) = Some ''false'', ak\<lparr>Akdb := Some d'\<rparr>) \<and>
          map_of (db_data d') =
            (\<lambda>k. if (k = AlertPubMainKey a \<or> k = AlertPubSubKey a) \<and> map_of (db_data d) k = None
                 then Some ''false'' else map_of (db_data d) k)"
proof -
  let ?k1 = "AlertPubMainKey a" and ?k2 = "AlertPubSubKey a"
  let ?d1 = "if map_of (db_data d) ?k1 = None
             then d\<lparr>db_data := kv_put ?k1 ''false'' (db_data d)\<rparr> else d"
  let ?d2 = "if map_of (db_data ?d1) ?k2 = None
             then ?d1\<lparr>db_data := kv_put ?k2 ''false'' (db_data ?d1)\<rparr> else ?d1"
  obtain m where ak: "ak = \<lparr>Akdb = Some d, \<dots> = m\<rparr>"
    using assms by (cases ak) simp
  have r: "checkpoint_AlertKey_IsValid a ak =
            Inr (map_of (db_data d) ?k1 = Some ''false'' \<and>
                 map_of (db_data d) ?k2 = Some ''false'', ak\<lparr>Akdb := Some ?d2\<rparr>)"
    unfolding ak
    by (cases "map_of (db_data d) ?k1"; cases "map_of (db_data d) ?k2"; cases "?k1 = ?k2")
       (simp_all add: checkpoint_AlertKey_IsValid_def leveldb_Get_def leveldb_Put_def
          map_of_kv_put)
  have m: "map_of (db_data ?d2) =
            (\<lambda>k. if (k = ?k1 \<or> k = ?k2) \<and> map_of (db_data d) k = None
                 then Some ''false'' else map_of (db_data d) k)"
    by (cases "map_of (db_data d) ?k1"; cases "map_of (db_data d) ?k2"; cases "?k1 = ?k2")
       (auto simp add: map_of_kv_put fun_eq_iff)
  show ?thesis by (intro exI[of _ ?d2] conjI r m)
qed

lemma database_IsValid_eq: "database_AlertKey_IsValid = checkpoint_AlertKey_IsValid"
  by (simp add: fun_eq_iff database_AlertKey_IsValid_def checkpoint_AlertKey_IsValid_def)

text \<open>
  C1. On an open store that holds neither alert key, \<^verbatim>\<open>IsValid\<close> (of either package)
  returns false, although it leaves both keys written as \<^verbatim>\<open>"false"\<close>; called again on the
  store it left, it returns true.
\<close>

theorem IsValid_on_absent_keys:
  assumes "Akdb ak = Some d"
    and "map_of (db_data d) (AlertPubMainKey a) = None"
    and "map_of (db_data d) (AlertPubSubKey a) = None"
  shows "\<exists>d'. checkpoint_AlertKey_IsValid a ak = Inr (False, ak\<lparr>Akdb := Some d'\<rparr>) \<and>
           database_AlertKey_IsValid a ak = Inr (False, ak\<lparr>Akdb := Some d'\<rparr>) \<and>
           map_of (db_data d') (AlertPubMainKey a) = Some ''false'' \<and>
           map_of (db_data d') (AlertPubSubKey a) = Some ''false'' \<and>
           (\<exists>ak'. checkpoint_AlertKey_IsValid a (ak\<lparr>Akdb := Some d'\<rparr>) = Inr (True, ak'))"
proof -
  obtain d' where d': "checkpoint_AlertKey_IsValid a ak = Inr (False, ak\<lparr>Akdb := Some d'\<rparr>)"
      "map_of (db_data d') =
         (\<lambda>k. if (k = AlertPubMainKey a \<or> k = AlertPubSubKey a) \<and> map_of (db_data d) k = None
              then Some ''false'' else map_of (db_data d) k)"
    using checkpoint_IsValid_result[OF assms(1), of a] assms(2,3) by auto
  have m: "map_of (db_data d') (AlertPubMainKey a) = Some ''false''"
      "map_of (db_data d') (AlertPubSubKey a) = Some ''false''"
    using assms(2,3) by (simp_all add: d'(2))
  have "Akdb (ak\<lparr>Akdb := Some d'\<rparr>) = Some d'" by simp
  then obtain d'' where
      "checkpoint_AlertKey_IsValid a (ak\<lparr>Akdb := Some d'\<rparr>) =
         Inr (map_of (db_data d') (AlertPubMainKey a) = Some ''false'' \<and>
              map_of (db_data d') (AlertPubSubKey a) = Some ''false'', ak\<lparr>Akdb := Some d', Akdb := Some d''\<rparr>)"
    using checkpoint_IsValid_result[of "ak\<lparr>Akdb := Some d'\<rparr>" d' a] by blast
  then have "\<exists>ak'. checkpoint_AlertKey_IsValid a (ak\<lparr>Akdb := Some d'\<rparr>) = Inr (True, ak')"
    using m by simp
  then show ?thesis using d'(1) m by (auto simp add: database_IsValid_eq)
qed

theorem IsValid_on_absent_keys_witness:
  "checkpoint_AlertKey_IsValid
     \<lparr>Name = ''mainnet'', Net = wire_MainNet, AlertPubMainKey = ''m'', AlertPubSubKey = ''s''\<rparr>
     \<lparr>Akdb = Some \<lparr>db_path = ''p'', db_data = []\<rparr>\<rparr> =
     Inr (False, \<lparr>Akdb = Some \<lparr>db_path = ''p'', db_data = [(''m'', ''false''), (''s'', ''false'')]\<rparr>\<rparr>) \<and>
   checkpoint_AlertKey_IsValid
     \<lparr>Name = ''mainnet'', Net = wire_MainNet, AlertPubMainKey = ''m'', AlertPubSubKey = ''s''\<rparr>
     \<lparr>Akdb = Some \<lparr>db_path = ''p'', db_data = [(''m'', ''false''), (''s'', ''false'')]\<rparr>\<rparr> =
     Inr (True, \<lparr>Akdb = Some \<lparr>db_path = ''p'', db_data = [(''m'', ''false''), (''s'', ''false'')]\<rparr>\<rparr>)"
  using IsValid_on_absent_keys
    [of "\<lparr>Akdb = Some \<lparr>db_path = ''p'', db_data = []\<rparr>\<rparr>" "\<lparr>db_path = ''p'', db_data = []\<rparr>"
        "\<lparr>Name = ''mainnet'', Net = wire_MainNet, AlertPubMainKey = ''m'', AlertPubSubKey = ''s''\<rparr>"]
  by (simp add: checkpoint_AlertKey_IsValid_def leveldb_Get_def leveldb_Put_def)

section \<open>More than one network\<close>

text \<open>
  C2 (amended). In package \<^verbatim>\<open>checkpoint\<close>, a configuration with both \<^verbatim>\<open>testnet\<close> and \<^verbatim>\<open>simnet\<close>
  set makes \<^verbatim>\<open>loadConfig\<close> return its error; every path function then ends the process with
  status 1, and \<^verbatim>\<open>OpenDB\<close> on a store that is not open ends with it, before a path exists.
  Package \<^verbatim>\<open>database\<close> has no such check: once \<^verbatim>\<open>flag.Parse\<close> has returned, every path function
  returns a path, for the network of the last flag set among \<^verbatim>\<open>testnet\<close>, \<^verbatim>\<open>regtest\<close> and
  \<^verbatim>\<open>simnet\<close>, or the network in force when none is set.
\<close>

theorem network_flags_checked_in_checkpoint_only:
  "(parsed ce = Inr (cfg, args) \<and> TestNet4 cfg \<and> SimNet cfg \<longrightarrow>
      checkpoint_loadConfig (parsed ce) = Inl ErrNetworks \<and>
      checkpoint_GetUserCheckpointDbPath ce a = Inl (Exit 1) \<and>
      checkpoint_GetVolatileCheckpointDbPath ce a = Inl (Exit 1) \<and>
      checkpoint_GetAlertKeyDbPath ce a = Inl (Exit 1) \<and>
      checkpoint_UserCheckpoint_OpenDB ce (a, w, \<lparr>Ucdb = None\<rparr>) = Inl (Exit 1) \<and>
      checkpoint_VolatileCheckpoint_OpenDB ce (a, w, \<lparr>Vcdb = None\<rparr>) = Inl (Exit 1) \<and>
      checkpoint_AlertKey_OpenDB ce (a, w, \<lparr>Akdb = None\<rparr>) = Inl (Exit 1)) \<and>
   (flag_Parse de = Inr fl \<and>
    sel = (if simnet fl then SimNetParams (chain de)
           else if regtest fl then RegressionNetParams (chain de)
           else if testnet fl then TestNet4Params (chain de) else a) \<longrightarrow>
      database_GetUserCheckpointDbPath de a =
        Inr (filepath_Join [defaultDataDir de, database_netName sel, ''usercheckpoints_leveldb''], sel) \<and>
      database_GetVolatileCheckpointDbPath de a =
        Inr (filepath_Join [defaultDataDir de, database_netName sel, ''volatilecheckpoints_leveldb''], sel) \<and>
      database_GetAlertKeyDbPath de a =
        Inr (filepath_Join [defaultDataDir de, database_netName sel, ''alertkey_leveldb''], sel) \<and>
      database_GetDenyAddressDbPath de a =
        Inr (filepath_Join [defaultDataDir de, database_netName sel, ''denyaddress_leveldb''], sel))"
  by (simp add: checkpoint_loadConfig_def checkpoint_GetUserCheckpointDbPath_def
      checkpoint_GetVolatileCheckpointDbPath_def checkpoint_GetAlertKeyDbPath_def
      checkpoint_UserCheckpoint_OpenDB_def checkpoint_VolatileCheckpoint_OpenDB_def
      checkpoint_AlertKey_OpenDB_def
      database_GetUserCheckpointDbPath_def database_GetVolatileCheckpointDbPath_def
      database_GetAlertKeyDbPath_def database_GetDenyAddressDbPath_def Let_def
      userCheckpointDbNamePrefix_def volatileCheckpointDbNamePrefix_def alertKeyDbNamePrefix_def
      denyAddressDbNamePrefix_def defaultDbType_def)

theorem network_flags_witness:
  "checkpoint_GetUserCheckpointDbPath
     \<lparr>monadHomeDir = ''/home/u/.monad'',
      chain = \<lparr>MainNetParams = \<lparr>Name = ''mainnet'', Net = wire_MainNet, AlertPubMainKey = ''m1'', AlertPubSubKey = ''s1''\<rparr>,
               TestNet4Params = \<lparr>Name = ''testnet4'', Net = wire_TestNet4, AlertPubMainKey = ''m2'', AlertPubSubKey = ''s2''\<rparr>,
               RegressionNetParams = \<lparr>Name = ''regtest'', Net = wire_TestNet, AlertPubMainKey = ''m3'', AlertPubSubKey = ''s3''\<rparr>,
               SimNetParams = \<lparr>Name = ''simnet'', Net = wire_SimNet, AlertPubMainKey = ''m4'', AlertPubSubKey = ''s4''\<rparr>\<rparr>,
      parsed = Inr (\<lparr>DataDir = [], ConfigFile = ''/home/u/.monad/monad.conf'',
                      TestNet4 = True, RegressionTest = False, SimNet = True\<rparr>, [])\<rparr>
     \<lparr>Name = ''mainnet'', Net = wire_MainNet, AlertPubMainKey = ''m1'', AlertPubSubKey = ''s1''\<rparr> =
     Inl (Exit 1) \<and>
   database_GetUserCheckpointDbPath
     \<lparr>monadHomeDir = ''/home/u/.monad'',
      chain = \<lparr>MainNetParams = \<lparr>Name = ''mainnet'', Net = wire_MainNet, AlertPubMainKey = ''m1'', AlertPubSubKey = ''s1''\<rparr>,
               TestNet4Params = \<lparr>Name = ''testnet4'', Net = wire_TestNet4, AlertPubMainKey = ''m2'', AlertPubSubKey = ''s2''\<rparr>,
               RegressionNetParams = \<lparr>Name = ''regtest'', Net = wire_TestNet, AlertPubMainKey = ''m3'', AlertPubSubKey = ''s3''\<rparr>,
               SimNetParams = \<lparr>Name = ''simnet'', Net = wire_SimNet, AlertPubMainKey = ''m4'', AlertPubSubKey = ''s4''\<rparr>\<rparr>,
      flag_Parse = Inr \<lparr>testnet = True, regtest = False, simnet = False\<rparr>\<rparr>
     \<lparr>Name = ''mainnet'', Net = wire_MainNet, AlertPubMainKey = ''m1'', AlertPubSubKey = ''s1''\<rparr> =
     Inr (''/home/u/.monad/data/testnet/usercheckpoints_leveldb'',
          \<lparr>Name = ''testnet4'', Net = wire_TestNet4, AlertPubMainKey = ''m2'', AlertPubSubKey = ''s2''\<rparr>)"
proof -
  have j: "filepath_Join [filepath_Join [''/home/u/.monad'', ''data''], ''testnet'', ''usercheckpoints_leveldb''] =
      ''/home/u/.monad/data/testnet/usercheckpoints_leveldb''"
    by code_simp
  show ?thesis
    using network_flags_checked_in_checkpoint_only
      [where ce = "\<lparr>monadHomeDir = ''/home/u/.monad'',
      chain = \<lparr>MainNetParams = \<lparr>Name = ''mainnet'', Net = wire_MainNet, AlertPubMainKey = ''m1'', AlertPubSubKey = ''s1''\<rparr>,
               TestNet4Params = \<lparr>Name = ''testnet4'', Net = wire_TestNet4, AlertPubMainKey = ''m2'', AlertPubSubKey = ''s2''\<rparr>,
               RegressionNetParams = \<lparr>Name = ''regtest'', Net = wire_TestNet, AlertPubMainKey = ''m3'', AlertPubSubKey = ''s3''\<rparr>,
               SimNetParams = \<lparr>Name = ''simnet'', Net = wire_SimNet, AlertPubMainKey = ''m4'', AlertPubSubKey = ''s4''\<rparr>\<rparr>,
      parsed = Inr (\<lparr>DataDir = [], ConfigFile = ''/home/u/.monad/monad.conf'',
                      TestNet4 = True, RegressionTest = False, SimNet = True\<rparr>, [])\<rparr>"
        and cfg = "\<lparr>DataDir = [], ConfigFile = ''/home/u/.monad/monad.conf'',
                      TestNet4 = True, RegressionTest = False, SimNet = True\<rparr>"
        and args = "[]"
        and de = "\<lparr>monadHomeDir = ''/home/u/.monad'',
      chain = \<lparr>MainNetParams = \<lparr>Name = ''mainnet'', Net = wire_MainNet, AlertPubMainKey = ''m1'', AlertPubSubKey = ''s1''\<rparr>,
               TestNet4Params = \<lparr>Name = ''testnet4'', Net = wire_TestNet4, AlertPubMainKey = ''m2'', AlertPubSubKey = ''s2''\<rparr>,
               RegressionNetParams = \<lparr>Name = ''regtest'', Net = wire_TestNet, AlertPubMainKey = ''m3'', AlertPubSubKey = ''s3''\<rparr>,
               SimNetParams = \<lparr>Name = ''simnet'', Net = wire_SimNet, AlertPubMainKey = ''m4'', AlertPubSubKey = ''s4''\<rparr>\<rparr>,
      flag_Parse = Inr \<lparr>testnet = True, regtest = False, simnet = False\<rparr>\<rparr>"
        and fl = "\<lparr>testnet = True, regtest = False, simnet = False\<rparr>"
        and a = "\<lparr>Name = ''mainnet'', Net = wire_MainNet, AlertPubMainKey = ''m1'', AlertPubSubKey = ''s1''\<rparr>"
        and sel = "\<lparr>Name = ''testnet4'', Net = wire_TestNet4, AlertPubMainKey = ''m2'', AlertPubSubKey = ''s2''\<rparr>"]
    by (simp add: j defaultDataDir_def database_netName_def)
qed

text \<open>
  Package \<^verbatim>\<open>database\<close> with \<^verbatim>\<open>testnet\<close> and \<^verbatim>\<open>simnet\<close> both set: no failure, and a path for the
  simulation network. Package \<^verbatim>\<open>checkpoint\<close> with \<^verbatim>\<open>testnet\<close> and \<^verbatim>\<open>regtest\<close> both set:
  \<^verbatim>\<open>loadConfig\<close> counts one network, and the path is the one of the regression test network.
\<close>

theorem database_two_networks_counterexample:
  "database_GetUserCheckpointDbPath
     \<lparr>monadHomeDir = ''/home/u/.monad'',
      chain = \<lparr>MainNetParams = \<lparr>Name = ''mainnet'', Net = wire_MainNet, AlertPubMainKey = ''m1'', AlertPubSubKey = ''s1''\<rparr>,
               TestNet4Params = \<lparr>Name = ''testnet4'', Net = wire_TestNet4, AlertPubMainKey = ''m2'', AlertPubSubKey = ''s2''\<rparr>,
               RegressionNetParams = \<lparr>Name = ''regtest'', Net = wire_TestNet, AlertPubMainKey = ''m3'', AlertPubSubKey = ''s3''\<rparr>,
               SimNetParams = \<lparr>Name = ''simnet'', Net = wire_SimNet, AlertPubMainKey = ''m4'', AlertPubSubKey = ''s4''\<rparr>\<rparr>,
      flag_Parse = Inr \<lparr>testnet = True, regtest = False, simnet = True\<rparr>\<rparr>
     \<lparr>Name = ''mainnet'', Net = wire_MainNet, AlertPubMainKey = ''m1'', AlertPubSubKey = ''s1''\<rparr> =
     Inr (''/home/u/.monad/data/simnet/usercheckpoints_leveldb'',
          \<lparr>Name = ''simnet'', Net = wire_SimNet, AlertPubMainKey = ''m4'', AlertPubSubKey = ''s4''\<rparr>) \<and>
   checkpoint_GetUserCheckpointDbPath
     \<lparr>monadHomeDir = ''/home/u/.monad'',
      chain = \<lparr>MainNetParams = \<lparr>Name = ''mainnet'', Net = wire_MainNet, AlertPubMainKey = ''m1'', AlertPubSubKey = ''s1''\<rparr>,
               TestNet4Params = \<lparr>Name = ''testnet4'', Net = wire_TestNet4, AlertPubMainKey = ''m2'', AlertPubSubKey = ''s2''\<rparr>,
               RegressionNetParams = \<lparr>Name = ''regtest'', Net = wire_TestNet, AlertPubMainKey = ''m3'', AlertPubSubKey = ''s3''\<rparr>,
               SimNetParams = \<lparr>Name = ''simnet'', Net = wire_SimNet, AlertPubMainKey = ''m4'', AlertPubSubKey = ''s4''\<rparr>\<rparr>,
      parsed = Inr (\<lparr>DataDir = [], ConfigFile = ''/home/u/.monad/monad.conf'',
                      TestNet4 = True, RegressionTest = True, SimNet = False\<rparr>, [])\<rparr>
     \<lparr>Name = ''mainnet'', Net = wire_MainNet, AlertPubMainKey = ''m1'', AlertPubSubKey = ''s1''\<rparr> =
     Inr (''/home/u/.monad/data/regtest/usercheckpoints_leveldb'',
          \<lparr>Name = ''regtest'', Net = wire_TestNet, AlertPubMainKey = ''m3'', AlertPubSubKey = ''s3''\<rparr>)"
proof -
  have j: "filepath_Join [filepath_Join [''/home/u/.monad'', ''data''], ''simnet'', ''usercheckpoints_leveldb''] =
      ''/home/u/.monad/data/simnet/usercheckpoints_leveldb''"
    by code_simp
  have k: "filepath_Join [filepath_Join [''/home/u/.monad'', ''data''], ''regtest'', ''usercheckpoints_leveldb''] =
      ''/home/u/.monad/data/regtest/usercheckpoints_leveldb''"
    by code_simp
  show ?thesis
    by (simp add: database_GetUserCheckpointDbPath_def checkpoint_GetUserCheckpointDbPath_def
        checkpoint_loadConfig_def Let_def j k defaultDataDir_def
        database_netName_def checkpoint_netName_def userCheckpointDbNamePrefix_def defaultDbType_def)
qed

section \<open>Opening and closing a store\<close>

lemma OpenFile_after_Close:
  "leveldb_OpenFile (db_path d) (leveldb_Close d w) = ((Some d, None), reopened d w)"
  by (simp add: leveldb_OpenFile_def leveldb_Close_def reopened_def Let_def)

lemma checkpoint_UserCheckpoint_open_close:
  "(Ucdb uc \<noteq> None \<longrightarrow> checkpoint_UserCheckpoint_OpenDB ce (a, w, uc) = Inr (None, a, w, uc)) \<and>
   (checkpoint_UserCheckpoint_OpenDB ce (a, w, uc) = Inr (None, a', w', uc') \<longrightarrow>
      Ucdb uc' \<noteq> None \<and> checkpoint_UserCheckpoint_OpenDB ce (a', w', uc') = Inr (None, a', w', uc')) \<and>
   (Ucdb uc = None \<longrightarrow> checkpoint_UserCheckpoint_CloseDB (w, uc) = (w, uc)) \<and>
   Ucdb (snd (checkpoint_UserCheckpoint_CloseDB (w, uc))) = None \<and>
   checkpoint_UserCheckpoint_CloseDB (checkpoint_UserCheckpoint_CloseDB (w, uc)) = checkpoint_UserCheckpoint_CloseDB (w, uc) \<and>
   (Ucdb uc = Some d \<and> checkpoint_GetUserCheckpointDbPath ce a = Inr (db_path d, b) \<longrightarrow>
      checkpoint_UserCheckpoint_OpenDB ce (a, checkpoint_UserCheckpoint_CloseDB (w, uc)) = Inr (None, b, reopened d w, uc))"
proof (intro conjI impI)
  assume "Ucdb uc \<noteq> None"
  then show "checkpoint_UserCheckpoint_OpenDB ce (a, w, uc) = Inr (None, a, w, uc)"
    by (simp add: checkpoint_UserCheckpoint_OpenDB_def)
next
  assume o: "checkpoint_UserCheckpoint_OpenDB ce (a, w, uc) = Inr (None, a', w', uc')"
  show h: "Ucdb uc' \<noteq> None"
    using o
    by (auto simp add: checkpoint_UserCheckpoint_OpenDB_def leveldb_OpenFile_def Let_def
        split: if_splits sum.splits prod.splits)
  show "checkpoint_UserCheckpoint_OpenDB ce (a', w', uc') = Inr (None, a', w', uc')"
    using h by (simp add: checkpoint_UserCheckpoint_OpenDB_def)
next
  assume "Ucdb uc = None"
  then show "checkpoint_UserCheckpoint_CloseDB (w, uc) = (w, uc)" by (simp add: checkpoint_UserCheckpoint_CloseDB_def)
next
  show "Ucdb (snd (checkpoint_UserCheckpoint_CloseDB (w, uc))) = None"
    by (simp add: checkpoint_UserCheckpoint_CloseDB_def split: option.splits)
  show "checkpoint_UserCheckpoint_CloseDB (checkpoint_UserCheckpoint_CloseDB (w, uc)) = checkpoint_UserCheckpoint_CloseDB (w, uc)"
    by (simp add: checkpoint_UserCheckpoint_CloseDB_def split: option.splits)
next
  assume r: "Ucdb uc = Some d \<and> checkpoint_GetUserCheckpointDbPath ce a = Inr (db_path d, b)"
  then obtain m where v: "uc = \<lparr>Ucdb = Some d, \<dots> = m\<rparr>" by (cases uc) simp
  show "checkpoint_UserCheckpoint_OpenDB ce (a, checkpoint_UserCheckpoint_CloseDB (w, uc)) = Inr (None, b, reopened d w, uc)"
    using r unfolding v
    by (simp add: checkpoint_UserCheckpoint_OpenDB_def checkpoint_UserCheckpoint_CloseDB_def OpenFile_after_Close)
qed

lemma checkpoint_VolatileCheckpoint_open_close:
  "(Vcdb vc \<noteq> None \<longrightarrow> checkpoint_VolatileCheckpoint_OpenDB ce (a, w, vc) = Inr (None, a, w, vc)) \<and>
   (checkpoint_VolatileCheckpoint_OpenDB ce (a, w, vc) = Inr (None, a', w', vc') \<longrightarrow>
      Vcdb vc' \<noteq> None \<and> checkpoint_VolatileCheckpoint_OpenDB ce (a', w', vc') = Inr (None, a', w', vc')) \<and>
   (Vcdb vc = None \<longrightarrow> checkpoint_VolatileCheckpoint_CloseDB (w, vc) = (w, vc)) \<and>
   Vcdb (snd (checkpoint_VolatileCheckpoint_CloseDB (w, vc))) = None \<and>
   checkpoint_VolatileCheckpoint_CloseDB (checkpoint_VolatileCheckpoint_CloseDB (w, vc)) = checkpoint_VolatileCheckpoint_CloseDB (w, vc) \<and>
   (Vcdb vc = Some d \<and> checkpoint_GetVolatileCheckpointDbPath ce a = Inr (db_path d, b) \<longrightarrow>
      checkpoint_VolatileCheckpoint_OpenDB ce (a, checkpoint_VolatileCheckpoint_CloseDB (w, vc)) = Inr (None, b, reopened d w, vc))"
proof (intro conjI impI)
  assume "Vcdb vc \<noteq> None"
  then show "checkpoint_VolatileCheckpoint_OpenDB ce (a, w, vc) = Inr (None, a, w, vc)"
    by (simp add: checkpoint_VolatileCheckpoint_OpenDB_def)
next
  assume o: "checkpoint_VolatileCheckpoint_OpenDB ce (a, w, vc) = Inr (None, a', w', vc')"
  show h: "Vcdb vc' \<noteq> None"
    using o
    by (auto simp add: checkpoint_VolatileCheckpoint_OpenDB_def leveldb_OpenFile_def Let_def
        split: if_splits sum.splits prod.splits)
  show "checkpoint_VolatileCheckpoint_OpenDB ce (a', w', vc') = Inr (None, a', w', vc')"
    using h by (simp add: checkpoint_VolatileCheckpoint_OpenDB_def)
next
  assume "Vcdb vc = None"
  then show "checkpoint_VolatileCheckpoint_CloseDB (w, vc) = (w, vc)" by (simp add: checkpoint_VolatileCheckpoint_CloseDB_def)
next
  show "Vcdb (snd (checkpoint_VolatileCheckpoint_CloseDB (w, vc))) = None"
    by (simp add: checkpoint_VolatileCheckpoint_CloseDB_def split: option.splits)
  show "checkpoint_VolatileCheckpoint_CloseDB (checkpoint_VolatileCheckpoint_CloseDB (w, vc)) = checkpoint_VolatileCheckpoint_CloseDB (w, vc)"
    by (simp add: checkpoint_VolatileCheckpoint_CloseDB_def split: option.splits)
next
  assume r: "Vcdb vc = Some d \<and> checkpoint_GetVolatileCheckpointDbPath ce a = Inr (db_path d, b)"
  then obtain m where v: "vc = \<lparr>Vcdb = Some d, \<dots> = m\<rparr>" by (cases vc) simp
  show "checkpoint_VolatileCheckpoint_OpenDB ce (a, checkpoint_VolatileCheckpoint_CloseDB (w, vc)) = Inr (None, b, reopened d w, vc)"
    using r unfolding v
    by (simp add: checkpoint_VolatileCheckpoint_OpenDB_def checkpoint_VolatileCheckpoint_CloseDB_def OpenFile_after_Close)
qed

lemma checkpoint_AlertKey_open_close:
  "(Akdb ak \<noteq> None \<longrightarrow> checkpoint_AlertKey_OpenDB ce (a, w, ak) = Inr (None, a, w, ak)) \<and>
   (checkpoint_AlertKey_OpenDB ce (a, w, ak) = Inr (None, a', w', ak') \<longrightarrow>
      Akdb ak' \<noteq> None \<and> checkpoint_AlertKey_OpenDB ce (a', w', ak') = Inr (None, a', w', ak')) \<and>
   (Akdb ak = None \<longrightarrow> checkpoint_AlertKey_CloseDB (w, ak) = (w, ak)) \<and>
   Akdb (snd (checkpoint_AlertKey_CloseDB (w, ak))) = None \<and>
   checkpoint_AlertKey_CloseDB (checkpoint_AlertKey_CloseDB (w, ak)) = checkpoint_AlertKey_CloseDB (w, ak) \<and>
   (Akdb ak = Some d \<and> checkpoint_GetAlertKeyDbPath ce a = Inr (db_path d, b) \<longrightarrow>
      checkpoint_AlertKey_OpenDB ce (a, checkpoint_AlertKey_CloseDB (w, ak)) = Inr (None, b, reopened d w, ak))"
proof (intro conjI impI)
  assume "Akdb ak \<noteq> None"
  then show "checkpoint_AlertKey_OpenDB ce (a, w, ak) = Inr (None, a, w, ak)"
    by (simp add: checkpoint_AlertKey_OpenDB_def)
next
  assume o: "checkpoint_AlertKey_OpenDB ce (a, w, ak) = Inr (None, a', w', ak')"
  show h: "Akdb ak' \<noteq> None"
    using o
    by (auto simp add: checkpoint_AlertKey_OpenDB_def leveldb_OpenFile_def Let_def
        split: if_splits sum.splits prod.splits)
  show "checkpoint_AlertKey_OpenDB ce (a', w', ak') = Inr (None, a', w', ak')"
    using h by (simp add: checkpoint_AlertKey_OpenDB_def)
next
  assume "Akdb ak = None"
  then show "checkpoint_AlertKey_CloseDB (w, ak) = (w, ak)" by (simp add: checkpoint_AlertKey_CloseDB_def)
next
  show "Akdb (snd (checkpoint_AlertKey_CloseDB (w, ak))) = None"
    by (simp add: checkpoint_AlertKey_CloseDB_def split: option.splits)
  show "checkpoint_AlertKey_CloseDB (checkpoint_AlertKey_CloseDB (w, ak)) = checkpoint_AlertKey_CloseDB (w, ak)"
    by (simp add: checkpoint_AlertKey_CloseDB_def split: option.splits)
next
  assume r: "Akdb ak = Some d \<and> checkpoint_GetAlertKeyDbPath ce a = Inr (db_path d, b)"
  then obtain m where v: "ak = \<lparr>Akdb = Some d, \<dots> = m\<rparr>" by (cases ak) simp
  show "checkpoint_AlertKey_OpenDB ce (a, checkpoint_AlertKey_CloseDB (w, ak)) = Inr (None, b, reopened d w, ak)"
    using r unfolding v
    by (simp add: checkpoint_AlertKey_OpenDB_def checkpoint_AlertKey_CloseDB_def OpenFile_after_Close)
qed

lemma database_UserCheckpoint_open_close:
  "(Ucdb uc \<noteq> None \<longrightarrow> database_UserCheckpoint_OpenDB de (a, w, uc) = Inr (None, a, w, uc)) \<and>
   (database_UserCheckpoint_OpenDB de (a, w, uc) = Inr (None, a', w', uc') \<longrightarrow>
      Ucdb uc' \<noteq> None \<and> database_UserCheckpoint_OpenDB de (a', w', uc') = Inr (None, a', w', uc')) \<and>
   (Ucdb uc = None \<longrightarrow> database_UserCheckpoint_CloseDB (w, uc) = (w, uc)) \<and>
   Ucdb (snd (database_UserCheckpoint_CloseDB (w, uc))) = None \<and>
   database_UserCheckpoint_CloseDB (database_UserCheckpoint_CloseDB (w, uc)) = database_UserCheckpoint_CloseDB (w, uc) \<and>
   (Ucdb uc = Some d \<and> database_GetUserCheckpointDbPath de a = Inr (db_path d, b) \<longrightarrow>
      database_UserCheckpoint_OpenDB de (a, database_UserCheckpoint_CloseDB (w, uc)) = Inr (None, b, reopened d w, uc))"
proof (intro conjI impI)
  assume "Ucdb uc \<noteq> None"
  then show "database_UserCheckpoint_OpenDB de (a, w, uc) = Inr (None, a, w, uc)"
    by (simp add: database_UserCheckpoint_OpenDB_def)
next
  assume o: "database_UserCheckpoint_OpenDB de (a, w, uc) = Inr (None, a', w', uc')"
  show h: "Ucdb uc' \<noteq> None"
    using o
    by (auto simp add: database_UserCheckpoint_OpenDB_def leveldb_OpenFile_def Let_def
        split: if_splits sum.splits prod.splits)
  show "database_UserCheckpoint_OpenDB de (a', w', uc') = Inr (None, a', w', uc')"
    using h by (simp add: database_UserCheckpoint_OpenDB_def)
next
  assume "Ucdb uc = None"
  then show "database_UserCheckpoint_CloseDB (w, uc) = (w, uc)" by (simp add: database_UserCheckpoint_CloseDB_def)
next
  show "Ucdb (snd (database_UserCheckpoint_CloseDB (w, uc))) = None"
    by (simp add: database_UserCheckpoint_CloseDB_def split: option.splits)
  show "database_UserCheckpoint_CloseDB (database_UserCheckpoint_CloseDB (w, uc)) = database_UserCheckpoint_CloseDB (w, uc)"
    by (simp add: database_UserCheckpoint_CloseDB_def split: option.splits)
next
  assume r: "Ucdb uc = Some d \<and> database_GetUserCheckpointDbPath de a = Inr (db_path d, b)"
  then obtain m where v: "uc = \<lparr>Ucdb = Some d, \<dots> = m\<rparr>" by (cases uc) simp
  show "database_UserCheckpoint_OpenDB de (a, database_UserCheckpoint_CloseDB (w, uc)) = Inr (None, b, reopened d w, uc)"
    using r unfolding v
    by (simp add: database_UserCheckpoint_OpenDB_def database_UserCheckpoint_CloseDB_def OpenFile_after_Close)
qed

lemma database_VolatileCheckpoint_open_close:
  "(Vcdb vc \<noteq> None \<longrightarrow> database_VolatileCheckpoint_OpenDB de (a, w, vc) = Inr (None, a, w, vc)) \<and>
   (database_VolatileCheckpoint_OpenDB de (a, w, vc) = Inr (None, a', w', vc') \<longrightarrow>
      Vcdb vc' \<noteq> None \<and> database_VolatileCheckpoint_OpenDB de (a', w', vc') = Inr (None, a', w', vc')) \<and>
   (Vcdb vc = None \<longrightarrow> database_VolatileCheckpoint_CloseDB (w, vc) = (w, vc)) \<and>
   Vcdb (snd (database_VolatileCheckpoint_CloseDB (w, vc))) = None \<and>
   database_VolatileCheckpoint_CloseDB (database_VolatileCheckpoint_CloseDB (w, vc)) = database_VolatileCheckpoint_CloseDB (w, vc) \<and>
   (Vcdb vc = Some d \<and> database_GetVolatileCheckpointDbPath de a = Inr (db_path d, b) \<longrightarrow>
      database_VolatileCheckpoint_OpenDB de (a, database_VolatileCheckpoint_CloseDB (w, vc)) = Inr (None, b, reopened d w, vc))"
proof (intro conjI impI)
  assume "Vcdb vc \<noteq> None"
  then show "database_VolatileCheckpoint_OpenDB de (a, w, vc) = Inr (None, a, w, vc)"
    by (simp add: database_VolatileCheckpoint_OpenDB_def)
next
  assume o: "database_VolatileCheckpoint_OpenDB de (a, w, vc) = Inr (None, a', w', vc')"
  show h: "Vcdb vc' \<noteq> None"
    using o
    by (auto simp add: database_VolatileCheckpoint_OpenDB_def leveldb_OpenFile_def Let_def
        split: if_splits sum.splits prod.splits)
  show "database_VolatileCheckpoint_OpenDB de (a', w', vc') = Inr (None, a', w', vc')"
    using h by (simp add: database_VolatileCheckpoint_OpenDB_def)
next
  assume "Vcdb vc = None"
  then show "database_VolatileCheckpoint_CloseDB (w, vc) = (w, vc)" by (simp add: database_VolatileCheckpoint_CloseDB_def)
next
  show "Vcdb (snd (database_VolatileCheckpoint_CloseDB (w, vc))) = None"
    by (simp add: database_VolatileCheckpoint_CloseDB_def split: option.splits)
  show "database_VolatileCheckpoint_CloseDB (database_VolatileCheckpoint_CloseDB (w, vc)) = database_VolatileCheckpoint_CloseDB (w, vc)"
    by (simp add: database_VolatileCheckpoint_CloseDB_def split: option.splits)
next
  assume r: "Vcdb vc = Some d \<and> database_GetVolatileCheckpointDbPath de a = Inr (db_path d, b)"
  then obtain m where v: "vc = \<lparr>Vcdb = Some d, \<dots> = m\<rparr>" by (cases vc) simp
  show "database_VolatileCheckpoint_OpenDB de (a, database_VolatileCheckpoint_CloseDB (w, vc)) = Inr (None, b, reopened d w, vc)"
    using r unfolding v
    by (simp add: database_VolatileCheckpoint_OpenDB_def database_VolatileCheckpoint_CloseDB_def OpenFile_after_Close)
qed

lemma database_AlertKey_open_close:
  "(Akdb ak \<noteq> None \<longrightarrow> database_AlertKey_OpenDB de (a, w, ak) = Inr (None, a, w, ak)) \<and>
   (database_AlertKey_OpenDB de (a, w, ak) = Inr (None, a', w', ak') \<longrightarrow>
      Akdb ak' \<noteq> None \<and> database_AlertKey_OpenDB de (a', w', ak') = Inr (None, a', w', ak')) \<and>
   (Akdb ak = None \<longrightarrow> database_AlertKey_CloseDB (w, ak) = (w, ak)) \<and>
   Akdb (snd (database_AlertKey_CloseDB (w, ak))) = None \<and>
   database_AlertKey_CloseDB (database_AlertKey_CloseDB (w, ak)) = database_AlertKey_CloseDB (w, ak) \<and>
   (Akdb ak = Some d \<and> database_GetAlertKeyDbPath de a = Inr (db_path d, b) \<longrightarrow>
      database_AlertKey_OpenDB de (a, database_AlertKey_CloseDB (w, ak)) = Inr (None, b, reopened d w, ak))"
proof (intro conjI impI)
  assume "Akdb ak \<noteq> None"
  then show "database_AlertKey_OpenDB de (a, w, ak) = Inr (None, a, w, ak)"
    by (simp add: database_AlertKey_OpenDB_def)
next
  assume o: "database_AlertKey_OpenDB de (a, w, ak) = Inr (None, a', w', ak')"
  show h: "Akdb ak' \<noteq> None"
    using o
    by (auto simp add: database_AlertKey_OpenDB_def leveldb_OpenFile_def Let_def
        split: if_splits sum.splits prod.splits)
  show "database_AlertKey_OpenDB de (a', w', ak') = Inr (None, a', w', ak')"
    using h by (simp add: database_AlertKey_OpenDB_def)
next
  assume "Akdb ak = None"
  then show "database_AlertKey_CloseDB (w, ak) = (w, ak)" by (simp add: database_AlertKey_CloseDB_def)
next
  show "Akdb (snd (database_AlertKey_CloseDB (w, ak))) = None"
    by (simp add: database_AlertKey_CloseDB_def split: option.splits)
  show "database_AlertKey_CloseDB (database_AlertKey_CloseDB (w, ak)) = database_AlertKey_CloseDB (w, ak)"
    by (simp add: database_AlertKey_CloseDB_def split: option.splits)
next
  assume r: "Akdb ak = Some d \<and> database_GetAlertKeyDbPath de a = Inr (db_path d, b)"
  then obtain m where v: "ak = \<lparr>Akdb = Some d, \<dots> = m\<rparr>" by (cases ak) simp
  show "database_AlertKey_OpenDB de (a, database_AlertKey_CloseDB (w, ak)) = Inr (None, b, reopened d w, ak)"
    using r unfolding v
    by (simp add: database_AlertKey_OpenDB_def database_AlertKey_CloseDB_def OpenFile_after_Close)
qed

lemma database_DenyAddress_open_close:
  "(Dadb da \<noteq> None \<longrightarrow> database_DenyAddress_OpenDB de (a, w, da) = Inr (None, a, w, da)) \<and>
   (database_DenyAddress_OpenDB de (a, w, da) = Inr (None, a', w', da') \<longrightarrow>
      Dadb da' \<noteq> None \<and> database_DenyAddress_OpenDB de (a', w', da') = Inr (None, a', w', da')) \<and>
   (Dadb da = None \<longrightarrow> database_DenyAddress_CloseDB (w, da) = (w, da)) \<and>
   Dadb (snd (database_DenyAddress_CloseDB (w, da))) = None \<and>
   database_DenyAddress_CloseDB (database_DenyAddress_CloseDB (w, da)) = database_DenyAddress_CloseDB (w, da) \<and>
   (Dadb da = Some d \<and> database_GetDenyAddressDbPath de a = Inr (db_path d, b) \<longrightarrow>
      database_DenyAddress_OpenDB de (a, database_DenyAddress_CloseDB (w, da)) = Inr (None, b, reopened d w, da))"
proof (intro conjI impI)
  assume "Dadb da \<noteq> None"
  then show "database_DenyAddress_OpenDB de (a, w, da) = Inr (None, a, w, da)"
    by (simp add: database_DenyAddress_OpenDB_def)
next
  assume o: "database_DenyAddress_OpenDB de (a, w, da) = Inr (None, a', w', da')"
  show h: "Dadb da' \<noteq> None"
    using o
    by (auto simp add: database_DenyAddress_OpenDB_def leveldb_OpenFile_def Let_def
        split: if_splits sum.splits prod.splits)
  show "database_DenyAddress_OpenDB de (a', w', da') = Inr (None, a', w', da')"
    using h by (simp add: database_DenyAddress_OpenDB_def)
next
  assume "Dadb da = None"
  then show "database_DenyAddress_CloseDB (w, da) = (w, da)" by (simp add: database_DenyAddress_CloseDB_def)
next
  show "Dadb (snd (database_DenyAddress_CloseDB (w, da))) = None"
    by (simp add: database_DenyAddress_CloseDB_def split: option.splits)
  show "database_DenyAddress_CloseDB (database_DenyAddress_CloseDB (w, da)) = database_DenyAddress_CloseDB (w, da)"
    by (simp add: database_DenyAddress_CloseDB_def split: option.splits)
next
  assume r: "Dadb da = Some d \<and> database_GetDenyAddressDbPath de a = Inr (db_path d, b)"
  then obtain m where v: "da = \<lparr>Dadb = Some d, \<dots> = m\<rparr>" by (cases da) simp
  show "database_DenyAddress_OpenDB de (a, database_DenyAddress_CloseDB (w, da)) = Inr (None, b, reopened d w, da)"
    using r unfolding v
    by (simp add: database_DenyAddress_OpenDB_def database_DenyAddress_CloseDB_def OpenFile_after_Close)
qed

text \<open>
  C6. On each of the seven stores of the two packages: \<^verbatim>\<open>OpenDB\<close> on an open handle returns
  no error and changes nothing; an \<^verbatim>\<open>OpenDB\<close> that returned no error left an open handle, so
  that a second \<^verbatim>\<open>OpenDB\<close> returns no error and changes nothing;
  \<^verbatim>\<open>CloseDB\<close> on a store that is not open changes nothing; after \<^verbatim>\<open>CloseDB\<close> the handle is nil,
  and a second \<^verbatim>\<open>CloseDB\<close> changes nothing more; and \<^verbatim>\<open>OpenDB\<close> after \<^verbatim>\<open>CloseDB\<close> of a handle that
  was opened at the store's path returns no error and gives the handle with the same entries.
\<close>

theorem OpenDB_idempotent_CloseDB_repeat_safe:
  "((Ucdb uc \<noteq> None \<longrightarrow> checkpoint_UserCheckpoint_OpenDB ce (a, w, uc) = Inr (None, a, w, uc)) \<and>
    (checkpoint_UserCheckpoint_OpenDB ce (a, w, uc) = Inr (None, a', w', uc') \<longrightarrow>
       Ucdb uc' \<noteq> None \<and> checkpoint_UserCheckpoint_OpenDB ce (a', w', uc') = Inr (None, a', w', uc')) \<and>
    (Ucdb uc = None \<longrightarrow> checkpoint_UserCheckpoint_CloseDB (w, uc) = (w, uc)) \<and>
    Ucdb (snd (checkpoint_UserCheckpoint_CloseDB (w, uc))) = None \<and>
    checkpoint_UserCheckpoint_CloseDB (checkpoint_UserCheckpoint_CloseDB (w, uc)) = checkpoint_UserCheckpoint_CloseDB (w, uc) \<and>
    (Ucdb uc = Some d \<and> checkpoint_GetUserCheckpointDbPath ce a = Inr (db_path d, b) \<longrightarrow>
       checkpoint_UserCheckpoint_OpenDB ce (a, checkpoint_UserCheckpoint_CloseDB (w, uc)) = Inr (None, b, reopened d w, uc))) \<and>
   ((Vcdb vc \<noteq> None \<longrightarrow> checkpoint_VolatileCheckpoint_OpenDB ce (a, w, vc) = Inr (None, a, w, vc)) \<and>
    (checkpoint_VolatileCheckpoint_OpenDB ce (a, w, vc) = Inr (None, a', w', vc') \<longrightarrow>
       Vcdb vc' \<noteq> None \<and> checkpoint_VolatileCheckpoint_OpenDB ce (a', w', vc') = Inr (None, a', w', vc')) \<and>
    (Vcdb vc = None \<longrightarrow> checkpoint_VolatileCheckpoint_CloseDB (w, vc) = (w, vc)) \<and>
    Vcdb (snd (checkpoint_VolatileCheckpoint_CloseDB (w, vc))) = None \<and>
    checkpoint_VolatileCheckpoint_CloseDB (checkpoint_VolatileCheckpoint_CloseDB (w, vc)) = checkpoint_VolatileCheckpoint_CloseDB (w, vc) \<and>
    (Vcdb vc = Some d \<and> checkpoint_GetVolatileCheckpointDbPath ce a = Inr (db_path d, b) \<longrightarrow>
       checkpoint_VolatileCheckpoint_OpenDB ce (a, checkpoint_VolatileCheckpoint_CloseDB (w, vc)) = Inr (None, b, reopened d w, vc))) \<and>
   ((Akdb ak \<noteq> None \<longrightarrow> checkpoint_AlertKey_OpenDB ce (a, w, ak) = Inr (None, a, w, ak)) \<and>
    (checkpoint_AlertKey_OpenDB ce (a, w, ak) = Inr (None, a', w', ak') \<longrightarrow>
       Akdb ak' \<noteq> None \<and> checkpoint_AlertKey_OpenDB ce (a', w', ak') = Inr (None, a', w', ak')) \<and>
    (Akdb ak = None \<longrightarrow> checkpoint_AlertKey_CloseDB (w, ak) = (w, ak)) \<and>
    Akdb (snd (checkpoint_AlertKey_CloseDB (w, ak))) = None \<and>
    checkpoint_AlertKey_CloseDB (checkpoint_AlertKey_CloseDB (w, ak)) = checkpoint_AlertKey_CloseDB (w, ak) \<and>
    (Akdb ak = Some d \<and> checkpoint_GetAlertKeyDbPath ce a = Inr (db_path d, b) \<longrightarrow>
       checkpoint_AlertKey_OpenDB ce (a, checkpoint_AlertKey_CloseDB (w, ak)) = Inr (None, b, reopened d w, ak))) \<and>
   ((Ucdb uc \<noteq> None \<longrightarrow> database_UserCheckpoint_OpenDB de (a, w, uc) = Inr (None, a, w, uc)) \<and>
    (database_UserCheckpoint_OpenDB de (a, w, uc) = Inr (None, a', w', uc') \<longrightarrow>
       Ucdb uc' \<noteq> None \<and> database_UserCheckpoint_OpenDB de (a', w', uc') = Inr (None, a', w', uc')) \<and>
    (Ucdb uc = None \<longrightarrow> database_UserCheckpoint_CloseDB (w, uc) = (w, uc)) \<and>
    Ucdb (snd (database_UserCheckpoint_CloseDB (w, uc))) = None \<and>
    database_UserCheckpoint_CloseDB (database_UserCheckpoint_CloseDB (w, uc)) = database_UserCheckpoint_CloseDB (w, uc) \<and>
    (Ucdb uc = Some d \<and> database_GetUserCheckpointDbPath de a = Inr (db_path d, b) \<longrightarrow>
       database_UserCheckpoint_OpenDB de (a, database_UserCheckpoint_CloseDB (w, uc)) = Inr (None, b, reopened d w, uc))) \<and>
   ((Vcdb vc \<noteq> None \<longrightarrow> database_VolatileCheckpoint_OpenDB de (a, w, vc) = Inr (None, a, w, vc)) \<and>
    (database_VolatileCheckpoint_OpenDB de (a, w, vc) = Inr (None, a', w', vc') \<longrightarrow>
       Vcdb vc' \<noteq> None \<and> database_VolatileCheckpoint_OpenDB de (a', w', vc') = Inr (None, a', w', vc')) \<and>
    (Vcdb vc = None \<longrightarrow> database_VolatileCheckpoint_CloseDB (w, vc) = (w, vc)) \<and>
    Vcdb (snd (database_VolatileCheckpoint_CloseDB (w, vc))) = None \<and>
    database_VolatileCheckpoint_CloseDB (database_VolatileCheckpoint_CloseDB (w, vc)) = database_VolatileCheckpoint_CloseDB (w, vc) \<and>
    (Vcdb vc = Some d \<and> database_GetVolatileCheckpointDbPath de a = Inr (db_path d, b) \<longrightarrow>
       database_VolatileCheckpoint_OpenDB de (a, database_VolatileCheckpoint_CloseDB (w, vc)) = Inr (None, b, reopened d w, vc))) \<and>
   ((Akdb ak \<noteq> None \<longrightarrow> database_AlertKey_OpenDB de (a, w, ak) = Inr (None, a, w, ak)) \<and>
    (database_AlertKey_OpenDB de (a, w, ak) = Inr (None, a', w', ak') \<longrightarrow>
       Akdb ak' \<noteq> None \<and> database_AlertKey_OpenDB de (a', w', ak') = Inr (None, a', w', ak')) \<and>
    (Akdb ak = None \<longrightarrow> database_AlertKey_CloseDB (w, ak) = (w, ak)) \<and>
    Akdb (snd (database_AlertKey_CloseDB (w, ak))) = None \<and>
    database_AlertKey_CloseDB (database_AlertKey_CloseDB (w, ak)) = database_AlertKey_CloseDB (w, ak) \<and>
    (Akdb ak = Some d \<and> database_GetAlertKeyDbPath de a = Inr (db_path d, b) \<longrightarrow>
       database_AlertKey_OpenDB de (a, database_AlertKey_CloseDB (w, ak)) = Inr (None, b, reopened d w, ak))) \<and>
   ((Dadb da \<noteq> None \<longrightarrow> database_DenyAddress_OpenDB de (a, w, da) = Inr (None, a, w, da)) \<and>
    (database_DenyAddress_OpenDB de (a, w, da) = Inr (None, a', w', da') \<longrightarrow>
       Dadb da' \<noteq> None \<and> database_DenyAddress_OpenDB de (a', w', da') = Inr (None, a', w', da')) \<and>
    (Dadb da = None \<longrightarrow> database_DenyAddress_CloseDB (w, da) = (w, da)) \<and>
    Dadb (snd (database_DenyAddress_CloseDB (w, da))) = None \<and>
    database_DenyAddress_CloseDB (database_DenyAddress_CloseDB (w, da)) = database_DenyAddress_CloseDB (w, da) \<and>
    (Dadb da = Some d \<and> database_GetDenyAddressDbPath de a = Inr (db_path d, b) \<longrightarrow>
       database_DenyAddress_OpenDB de (a, database_DenyAddress_CloseDB (w, da)) = Inr (None, b, reopened d w, da)))"
  by (rule conjI[OF checkpoint_UserCheckpoint_open_close conjI[OF checkpoint_VolatileCheckpoint_open_close conjI[OF checkpoint_AlertKey_open_close conjI[OF database_UserCheckpoint_open_close conjI[OF database_VolatileCheckpoint_open_close conjI[OF database_AlertKey_open_close database_DenyAddress_open_close]]]]]])

theorem OpenDB_CloseDB_witness:
  "checkpoint_UserCheckpoint_OpenDB
     \<lparr>monadHomeDir = ''/home/u/.monad'',
      chain = \<lparr>MainNetParams = \<lparr>Name = ''mainnet'', Net = wire_MainNet, AlertPubMainKey = ''m1'', AlertPubSubKey = ''s1''\<rparr>,
               TestNet4Params = \<lparr>Name = ''testnet4'', Net = wire_TestNet4, AlertPubMainKey = ''m2'', AlertPubSubKey = ''s2''\<rparr>,
               RegressionNetParams = \<lparr>Name = ''regtest'', Net = wire_TestNet, AlertPubMainKey = ''m3'', AlertPubSubKey = ''s3''\<rparr>,
               SimNetParams = \<lparr>Name = ''simnet'', Net = wire_SimNet, AlertPubMainKey = ''m4'', AlertPubSubKey = ''s4''\<rparr>\<rparr>,
      parsed = Inr (\<lparr>DataDir = [], ConfigFile = ''/home/u/.monad/monad.conf'',
                      TestNet4 = False, RegressionTest = False, SimNet = False\<rparr>, [])\<rparr>
     (\<lparr>Name = ''mainnet'', Net = wire_MainNet, AlertPubMainKey = ''m1'', AlertPubSubKey = ''s1''\<rparr>,
      \<lparr>files = Map.empty, locks = {}\<rparr>, \<lparr>Ucdb = None\<rparr>) =
     Inr (None, \<lparr>Name = ''mainnet'', Net = wire_MainNet, AlertPubMainKey = ''m1'', AlertPubSubKey = ''s1''\<rparr>,
          \<lparr>files = [''/home/u/.monad/data/mainnet/usercheckpoints_leveldb'' \<mapsto> []],
             locks = {''/home/u/.monad/data/mainnet/usercheckpoints_leveldb''}\<rparr>,
          \<lparr>Ucdb = Some \<lparr>db_path = ''/home/u/.monad/data/mainnet/usercheckpoints_leveldb'', db_data = []\<rparr>\<rparr>) \<and>
   checkpoint_UserCheckpoint_OpenDB
     \<lparr>monadHomeDir = ''/home/u/.monad'',
      chain = \<lparr>MainNetParams = \<lparr>Name = ''mainnet'', Net = wire_MainNet, AlertPubMainKey = ''m1'', AlertPubSubKey = ''s1''\<rparr>,
               TestNet4Params = \<lparr>Name = ''testnet4'', Net = wire_TestNet4, AlertPubMainKey = ''m2'', AlertPubSubKey = ''s2''\<rparr>,
               RegressionNetParams = \<lparr>Name = ''regtest'', Net = wire_TestNet, AlertPubMainKey = ''m3'', AlertPubSubKey = ''s3''\<rparr>,
               SimNetParams = \<lparr>Name = ''simnet'', Net = wire_SimNet, AlertPubMainKey = ''m4'', AlertPubSubKey = ''s4''\<rparr>\<rparr>,
      parsed = Inr (\<lparr>DataDir = [], ConfigFile = ''/home/u/.monad/monad.conf'',
                      TestNet4 = False, RegressionTest = False, SimNet = False\<rparr>, [])\<rparr>
     (\<lparr>Name = ''mainnet'', Net = wire_MainNet, AlertPubMainKey = ''m1'', AlertPubSubKey = ''s1''\<rparr>,
      \<lparr>files = [''/home/u/.monad/data/mainnet/usercheckpoints_leveldb'' \<mapsto> []],
         locks = {''/home/u/.monad/data/mainnet/usercheckpoints_leveldb''}\<rparr>,
      \<lparr>Ucdb = Some \<lparr>db_path = ''/home/u/.monad/data/mainnet/usercheckpoints_leveldb'', db_data = []\<rparr>\<rparr>) =
     Inr (None, \<lparr>Name = ''mainnet'', Net = wire_MainNet, AlertPubMainKey = ''m1'', AlertPubSubKey = ''s1''\<rparr>,
          \<lparr>files = [''/home/u/.monad/data/mainnet/usercheckpoints_leveldb'' \<mapsto> []],
             locks = {''/home/u/.monad/data/mainnet/usercheckpoints_leveldb''}\<rparr>,
          \<lparr>Ucdb = Some \<lparr>db_path = ''/home/u/.monad/data/mainnet/usercheckpoints_leveldb'', db_data = []\<rparr>\<rparr>) \<and>
   checkpoint_UserCheckpoint_CloseDB (\<lparr>files = Map.empty, locks = {}\<rparr>, \<lparr>Ucdb = None\<rparr>) =
     (\<lparr>files = Map.empty, locks = {}\<rparr>, \<lparr>Ucdb = None\<rparr>) \<and>
   checkpoint_UserCheckpoint_CloseDB
     (\<lparr>files = [''/home/u/.monad/data/mainnet/usercheckpoints_leveldb'' \<mapsto> []],
         locks = {''/home/u/.monad/data/mainnet/usercheckpoints_leveldb''}\<rparr>,
      \<lparr>Ucdb = Some \<lparr>db_path = ''/home/u/.monad/data/mainnet/usercheckpoints_leveldb'',
                      db_data = [(''00000000000000000007'', ''h'')]\<rparr>\<rparr>) =
     (\<lparr>files = [''/home/u/.monad/data/mainnet/usercheckpoints_leveldb'' \<mapsto> [(''00000000000000000007'', ''h'')]],
         locks = {}\<rparr>, \<lparr>Ucdb = None\<rparr>) \<and>
   checkpoint_UserCheckpoint_OpenDB
     \<lparr>monadHomeDir = ''/home/u/.monad'',
      chain = \<lparr>MainNetParams = \<lparr>Name = ''mainnet'', Net = wire_MainNet, AlertPubMainKey = ''m1'', AlertPubSubKey = ''s1''\<rparr>,
               TestNet4Params = \<lparr>Name = ''testnet4'', Net = wire_TestNet4, AlertPubMainKey = ''m2'', AlertPubSubKey = ''s2''\<rparr>,
               RegressionNetParams = \<lparr>Name = ''regtest'', Net = wire_TestNet, AlertPubMainKey = ''m3'', AlertPubSubKey = ''s3''\<rparr>,
               SimNetParams = \<lparr>Name = ''simnet'', Net = wire_SimNet, AlertPubMainKey = ''m4'', AlertPubSubKey = ''s4''\<rparr>\<rparr>,
      parsed = Inr (\<lparr>DataDir = [], ConfigFile = ''/home/u/.monad/monad.conf'',
                      TestNet4 = False, RegressionTest = False, SimNet = False\<rparr>, [])\<rparr>
     (\<lparr>Name = ''mainnet'', Net = wire_MainNet, AlertPubMainKey = ''m1'', AlertPubSubKey = ''s1''\<rparr>,
      \<lparr>files = [''/home/u/.monad/data/mainnet/usercheckpoints_leveldb'' \<mapsto> [(''00000000000000000007'', ''h'')]],
         locks = {}\<rparr>, \<lparr>Ucdb = None\<rparr>) =
     Inr (None, \<lparr>Name = ''mainnet'', Net = wire_MainNet, AlertPubMainKey = ''m1'', AlertPubSubKey = ''s1''\<rparr>,
          \<lparr>files = [''/home/u/.monad/data/mainnet/usercheckpoints_leveldb'' \<mapsto> [(''00000000000000000007'', ''h'')]],
             locks = {''/home/u/.monad/data/mainnet/usercheckpoints_leveldb''}\<rparr>,
          \<lparr>Ucdb = Some \<lparr>db_path = ''/home/u/.monad/data/mainnet/usercheckpoints_leveldb'',
                          db_data = [(''00000000000000000007'', ''h'')]\<rparr>\<rparr>)"
proof -
  have j: "filepath_Join [filepath_Join [''/home/u/.monad'', ''data''], ''mainnet'', ''usercheckpoints_leveldb''] =
      ''/home/u/.monad/data/mainnet/usercheckpoints_leveldb''"
    by code_simp
  have p: "checkpoint_GetUserCheckpointDbPath
     \<lparr>monadHomeDir = ''/home/u/.monad'',
      chain = \<lparr>MainNetParams = \<lparr>Name = ''mainnet'', Net = wire_MainNet, AlertPubMainKey = ''m1'', AlertPubSubKey = ''s1''\<rparr>,
               TestNet4Params = \<lparr>Name = ''testnet4'', Net = wire_TestNet4, AlertPubMainKey = ''m2'', AlertPubSubKey = ''s2''\<rparr>,
               RegressionNetParams = \<lparr>Name = ''regtest'', Net = wire_TestNet, AlertPubMainKey = ''m3'', AlertPubSubKey = ''s3''\<rparr>,
               SimNetParams = \<lparr>Name = ''simnet'', Net = wire_SimNet, AlertPubMainKey = ''m4'', AlertPubSubKey = ''s4''\<rparr>\<rparr>,
      parsed = Inr (\<lparr>DataDir = [], ConfigFile = ''/home/u/.monad/monad.conf'',
                      TestNet4 = False, RegressionTest = False, SimNet = False\<rparr>, [])\<rparr>
     \<lparr>Name = ''mainnet'', Net = wire_MainNet, AlertPubMainKey = ''m1'', AlertPubSubKey = ''s1''\<rparr> =
     Inr (''/home/u/.monad/data/mainnet/usercheckpoints_leveldb'',
          \<lparr>Name = ''mainnet'', Net = wire_MainNet, AlertPubMainKey = ''m1'', AlertPubSubKey = ''s1''\<rparr>)"
    by (simp add: checkpoint_GetUserCheckpointDbPath_def checkpoint_loadConfig_def Let_def j
        defaultDataDir_def checkpoint_netName_def userCheckpointDbNamePrefix_def defaultDbType_def)
  show ?thesis
    using OpenDB_idempotent_CloseDB_repeat_safe
      [where ce = "\<lparr>monadHomeDir = ''/home/u/.monad'',
      chain = \<lparr>MainNetParams = \<lparr>Name = ''mainnet'', Net = wire_MainNet, AlertPubMainKey = ''m1'', AlertPubSubKey = ''s1''\<rparr>,
               TestNet4Params = \<lparr>Name = ''testnet4'', Net = wire_TestNet4, AlertPubMainKey = ''m2'', AlertPubSubKey = ''s2''\<rparr>,
               RegressionNetParams = \<lparr>Name = ''regtest'', Net = wire_TestNet, AlertPubMainKey = ''m3'', AlertPubSubKey = ''s3''\<rparr>,
               SimNetParams = \<lparr>Name = ''simnet'', Net = wire_SimNet, AlertPubMainKey = ''m4'', AlertPubSubKey = ''s4''\<rparr>\<rparr>,
      parsed = Inr (\<lparr>DataDir = [], ConfigFile = ''/home/u/.monad/monad.conf'',
                      TestNet4 = False, RegressionTest = False, SimNet = False\<rparr>, [])\<rparr>"
        and a = "\<lparr>Name = ''mainnet'', Net = wire_MainNet, AlertPubMainKey = ''m1'', AlertPubSubKey = ''s1''\<rparr>"
        and a' = "\<lparr>Name = ''mainnet'', Net = wire_MainNet, AlertPubMainKey = ''m1'', AlertPubSubKey = ''s1''\<rparr>"
        and b = "\<lparr>Name = ''mainnet'', Net = wire_MainNet, AlertPubMainKey = ''m1'', AlertPubSubKey = ''s1''\<rparr>"
        and w = "\<lparr>files = Map.empty, locks = {}\<rparr>"
        and uc = "\<lparr>Ucdb = None\<rparr>"
        and w' = "\<lparr>files = [''/home/u/.monad/data/mainnet/usercheckpoints_leveldb'' \<mapsto> []],
             locks = {''/home/u/.monad/data/mainnet/usercheckpoints_leveldb''}\<rparr>"
        and uc' = "\<lparr>Ucdb = Some \<lparr>db_path = ''/home/u/.monad/data/mainnet/usercheckpoints_leveldb'', db_data = []\<rparr>\<rparr>", THEN conjunct1]
      OpenDB_idempotent_CloseDB_repeat_safe
      [where ce = "\<lparr>monadHomeDir = ''/home/u/.monad'',
      chain = \<lparr>MainNetParams = \<lparr>Name = ''mainnet'', Net = wire_MainNet, AlertPubMainKey = ''m1'', AlertPubSubKey = ''s1''\<rparr>,
               TestNet4Params = \<lparr>Name = ''testnet4'', Net = wire_TestNet4, AlertPubMainKey = ''m2'', AlertPubSubKey = ''s2''\<rparr>,
               RegressionNetParams = \<lparr>Name = ''regtest'', Net = wire_TestNet, AlertPubMainKey = ''m3'', AlertPubSubKey = ''s3''\<rparr>,
               SimNetParams = \<lparr>Name = ''simnet'', Net = wire_SimNet, AlertPubMainKey = ''m4'', AlertPubSubKey = ''s4''\<rparr>\<rparr>,
      parsed = Inr (\<lparr>DataDir = [], ConfigFile = ''/home/u/.monad/monad.conf'',
                      TestNet4 = False, RegressionTest = False, SimNet = False\<rparr>, [])\<rparr>"
        and a = "\<lparr>Name = ''mainnet'', Net = wire_MainNet, AlertPubMainKey = ''m1'', AlertPubSubKey = ''s1''\<rparr>"
        and b = "\<lparr>Name = ''mainnet'', Net = wire_MainNet, AlertPubMainKey = ''m1'', AlertPubSubKey = ''s1''\<rparr>"
        and w = "\<lparr>files = [''/home/u/.monad/data/mainnet/usercheckpoints_leveldb'' \<mapsto> []],
             locks = {''/home/u/.monad/data/mainnet/usercheckpoints_leveldb''}\<rparr>"
        and uc = "\<lparr>Ucdb = Some \<lparr>db_path = ''/home/u/.monad/data/mainnet/usercheckpoints_leveldb'',
                      db_data = [(''00000000000000000007'', ''h'')]\<rparr>\<rparr>"
        and d = "\<lparr>db_path = ''/home/u/.monad/data/mainnet/usercheckpoints_leveldb'',
                      db_data = [(''00000000000000000007'', ''h'')]\<rparr>", THEN conjunct1]
    by (simp add: p checkpoint_UserCheckpoint_OpenDB_def checkpoint_UserCheckpoint_CloseDB_def
        leveldb_OpenFile_def leveldb_Close_def reopened_def Let_def)
qed

section \<open>The two packages side by side\<close>












section \<open>The layout of the database paths\<close>

lemma split_sep_not_Nil: "split_sep s \<noteq> []"
  by (induction s) (simp_all split: list.splits)

lemma split_sep_no_sep: "CHR ''/'' \<notin> set n \<Longrightarrow> split_sep n = [n]"
  by (induction n) auto

lemma split_sep_append: "split_sep (p @ CHR ''/'' # q) = split_sep p @ split_sep q"
proof (induction p)
  case Nil
  then show ?case by simp
next
  case (Cons c p)
  obtain x xs where x: "split_sep p = x # xs"
    using split_sep_not_Nil[of p] by (cases "split_sep p") simp_all
  show ?case using Cons by (simp add: x)
qed

lemma strings_Join_snoc:
  "xs \<noteq> [] \<Longrightarrow> strings_Join (xs @ [n]) sep = strings_Join xs sep @ sep @ n"
  by (induction xs sep rule: strings_Join.induct) simp_all

lemma filepath_Clean_extend:
  assumes c: "filepath_Clean p = p" and r: "p \<noteq> ''/''" and d: "p \<noteq> ''.''"
    and n: "simple_name n"
  shows "filepath_Clean (p @ ''/'' @ n) = p @ ''/'' @ n"
proof -
  let ?rooted = "hd p = CHR ''/''"
  let ?out = "foldl (clean_elem ?rooted) [] (split_sep p)"
  have ne: "p \<noteq> []"
  proof
    assume "p = []"
    then show False using c by (simp add: filepath_Clean_def)
  qed
  have p: "p = (if ?rooted then CHR ''/'' # strings_Join (rev ?out) ''/''
               else if ?out = [] then ''.'' else strings_Join (rev ?out) ''/'')"
    using c ne by (simp add: filepath_Clean_def Let_def)
  have out: "?out \<noteq> []"
  proof
    assume e: "?out = []"
    show False
    proof (cases ?rooted)
      case True
      then have "p = ''/''" using p e by simp
      then show False using r by simp
    next
      case False
      then have "p = ''.''" using p e by simp
      then show False using d by simp
    qed
  qed
  have ns: "CHR ''/'' \<notin> set n" using n by (simp add: simple_name_def)
  have sp: "split_sep (p @ ''/'' @ n) = split_sep p @ [n]"
    using split_sep_append[of p n] split_sep_no_sep[OF ns] by simp
  have st: "foldl (clean_elem ?rooted) [] (split_sep p @ [n]) = n # ?out"
    using n by (simp add: clean_elem_def simple_name_def)
  have hd: "hd (p @ ''/'' @ n) = hd p" using ne by simp
  have j: "strings_Join (rev ?out @ [n]) ''/'' = strings_Join (rev ?out) ''/'' @ ''/'' @ n"
    using out by (intro strings_Join_snoc) simp
  have "filepath_Clean (p @ ''/'' @ n) =
      (if ?rooted then CHR ''/'' # strings_Join (rev ?out @ [n]) ''/''
       else strings_Join (rev ?out @ [n]) ''/'')"
    using ne unfolding filepath_Clean_def Let_def hd sp st by simp
  also have "\<dots> = (if ?rooted then CHR ''/'' # strings_Join (rev ?out) ''/'' @ ''/'' @ n
       else strings_Join (rev ?out) ''/'' @ ''/'' @ n)"
    unfolding j by simp
  also have "\<dots> = p @ ''/'' @ n"
  proof (cases ?rooted)
    case True
    then have "p = CHR ''/'' # strings_Join (rev ?out) ''/''" using p by simp
    then show ?thesis using True by simp
  next
    case False
    then have "p = strings_Join (rev ?out) ''/''" using p out by simp
    then show ?thesis using False by simp
  qed
  finally show ?thesis .
qed

lemma split_sep_elems: "e \<in> set (split_sep s) \<Longrightarrow> CHR ''/'' \<notin> set e"
proof (induction s arbitrary: e)
  case Nil
  then show ?case by simp
next
  case (Cons c s)
  obtain x xs where x: "split_sep s = x # xs"
    using split_sep_not_Nil[of s] by (cases "split_sep s") simp_all
  have "CHR ''/'' \<notin> set x" "\<forall>y \<in> set xs. CHR ''/'' \<notin> set y"
    using Cons.IH x by simp_all
  then show ?case using Cons.prems x by (auto split: if_splits)
qed

lemma all_dotdot_normal: "\<not> rooted \<Longrightarrow> \<forall>x \<in> set es. x = ''..'' \<Longrightarrow> normal rooted es"
  by (induction es) simp_all

lemma normal_tail: "normal rooted (e # es) \<Longrightarrow> normal rooted es"
  by (cases "e = ''..''") (simp_all add: all_dotdot_normal)

lemma normal_clean_elem:
  assumes "normal rooted out" "CHR ''/'' \<notin> set e"
  shows "normal rooted (clean_elem rooted out e)"
proof (cases "e = [] \<or> e = ''.''")
  case True
  then show ?thesis using assms by (simp add: clean_elem_def)
next
  case skip: False
  show ?thesis
  proof (cases "e = ''..''")
    case False
    then show ?thesis using assms skip by (simp add: clean_elem_def simple_name_def)
  next
    case True
    show ?thesis
    proof (cases out)
      case Nil
      then show ?thesis using True by (simp add: clean_elem_def)
    next
      case (Cons t ts)
      show ?thesis
      proof (cases "t = ''..''")
        case False
        then show ?thesis using assms(1) True Cons normal_tail[of rooted t ts]
          by (simp add: clean_elem_def)
      next
        case tt: True
        then show ?thesis using assms(1) True Cons by (simp add: clean_elem_def)
      qed
    qed
  qed
qed

lemma normal_foldl:
  "normal rooted out \<Longrightarrow> \<forall>e \<in> set es. CHR ''/'' \<notin> set e \<Longrightarrow>
     normal rooted (foldl (clean_elem rooted) out es)"
  by (induction es arbitrary: out) (simp_all add: normal_clean_elem)

lemma normal_replay: "normal rooted out \<Longrightarrow> foldl (clean_elem rooted) [] (rev out) = out"
proof (induction out)
  case Nil
  then show ?case by simp
next
  case (Cons e es)
  have IH: "foldl (clean_elem rooted) [] (rev es) = es"
    using Cons.IH normal_tail[OF Cons.prems] by simp
  have step: "foldl (clean_elem rooted) [] (rev (e # es)) = clean_elem rooted es e"
    using IH by simp
  show ?case
  proof (cases "e = ''..''")
    case False
    then show ?thesis
      unfolding step using Cons.prems by (simp add: clean_elem_def simple_name_def)
  next
    case True
    then have nr: "\<not> rooted" and all: "\<forall>x \<in> set es. x = ''..''"
      using Cons.prems by simp_all
    show ?thesis
    proof (cases es)
      case Nil
      then show ?thesis unfolding step using True nr by (simp add: clean_elem_def)
    next
      case (Cons t ts)
      then have "t = ''..''" using all by simp
      then show ?thesis unfolding step using True nr Cons by (simp add: clean_elem_def)
    qed
  qed
qed

lemma normal_no_sep: "normal rooted out \<Longrightarrow> e \<in> set out \<Longrightarrow> e \<noteq> [] \<and> CHR ''/'' \<notin> set e"
proof (induction out)
  case Nil
  then show ?case by simp
next
  case (Cons x xs)
  show ?case
  proof (cases "x = ''..''")
    case True
    then have "e = ''..''" using Cons.prems by auto
    then show ?thesis by simp
  next
    case False
    then show ?thesis using Cons by (auto simp add: simple_name_def)
  qed
qed

lemma split_sep_strings_Join:
  "xs \<noteq> [] \<Longrightarrow> \<forall>x \<in> set xs. CHR ''/'' \<notin> set x \<Longrightarrow> split_sep (strings_Join xs ''/'') = xs"
proof (induction xs "''/''" rule: strings_Join.induct)
  case 1
  then show ?case by simp
next
  case (2 x)
  then show ?case by (simp add: split_sep_no_sep)
next
  case (3 x y r)
  have "split_sep (x @ CHR ''/'' # strings_Join (y # r) ''/'') =
      split_sep x @ split_sep (strings_Join (y # r) ''/'')"
    by (rule split_sep_append)
  then show ?case using 3 by (simp add: split_sep_no_sep)
qed

lemma hd_strings_Join: "x \<noteq> [] \<Longrightarrow> hd (strings_Join (x # xs) sep) = hd x"
  by (cases xs) simp_all

lemma strings_Join_Nil_iff:
  "\<forall>x \<in> set xs. x \<noteq> [] \<Longrightarrow> strings_Join xs sep = [] \<longleftrightarrow> xs = []"
  by (induction xs sep rule: strings_Join.induct) simp_all

text \<open>The result of \<^verbatim>\<open>Clean\<close> is a path that \<^verbatim>\<open>Clean\<close> leaves as it is.\<close>

lemma filepath_Clean_idem: "filepath_Clean (filepath_Clean p) = filepath_Clean p"
proof (cases "p = []")
  case True
  have "filepath_Clean ''.'' = ''.''" by code_simp
  then show ?thesis using True by (simp add: filepath_Clean_def)
next
  case False
  let ?rooted = "hd p = CHR ''/''"
  let ?out = "foldl (clean_elem ?rooted) [] (split_sep p)"
  have n: "normal ?rooted ?out"
    by (rule normal_foldl) (simp_all add: split_sep_elems)
  have el: "\<forall>x \<in> set (rev ?out). CHR ''/'' \<notin> set x" "\<forall>x \<in> set (rev ?out). x \<noteq> []"
    using normal_no_sep[OF n] by simp_all
  have q: "filepath_Clean p =
      (if ?rooted then CHR ''/'' # strings_Join (rev ?out) ''/''
       else if ?out = [] then ''.'' else strings_Join (rev ?out) ''/'')"
    using False by (simp add: filepath_Clean_def Let_def)
  show ?thesis
  proof (cases ?rooted)
    case True
    let ?q = "CHR ''/'' # strings_Join (rev ?out) ''/''"
    have qq: "filepath_Clean p = ?q" using q True by simp
    have sp: "split_sep ?q = [] # split_sep (strings_Join (rev ?out) ''/'')" by simp
    have skip: "clean_elem True [] [] = []" by (simp add: clean_elem_def)
    have "foldl (clean_elem True) [] (split_sep ?q) = ?out"
    proof (cases "?out = []")
      case e: True
      then show ?thesis by (simp add: skip)
    next
      case ne: False
      have "split_sep (strings_Join (rev ?out) ''/'') = rev ?out"
        using ne el(1) by (intro split_sep_strings_Join) simp_all
      then show ?thesis
        using normal_replay[OF n] True unfolding sp by (simp add: skip)
    qed
    then have "filepath_Clean ?q = ?q"
      using True by (simp add: filepath_Clean_def Let_def)
    then show ?thesis unfolding qq .
  next
    case nr: False
    show ?thesis
    proof (cases "?out = []")
      case True
      have "filepath_Clean ''.'' = ''.''" by code_simp
      then show ?thesis using q nr True by simp
    next
      case ne: False
      let ?q = "strings_Join (rev ?out) ''/''"
      have qq: "filepath_Clean p = ?q" using q nr ne by simp
      obtain x xs where x: "rev ?out = x # xs"
        using ne by (cases "rev ?out") simp_all
      have xne: "x \<noteq> []" "CHR ''/'' \<notin> set x" using el x by simp_all
      have h1: "hd ?q = hd x"
        using xne unfolding x by (simp add: hd_strings_Join)
      have h2: "hd x \<noteq> CHR ''/''"
        using xne by (cases x) auto
      note h = h1 h2
      have qne: "?q \<noteq> []"
        using strings_Join_Nil_iff[OF el(2), of "''/''"] ne by simp
      have sp: "split_sep ?q = rev ?out"
        using ne el(1) by (intro split_sep_strings_Join) simp_all
      have "foldl (clean_elem False) [] (split_sep ?q) = ?out"
        using normal_replay[OF n] nr unfolding sp by simp
      then have "filepath_Clean ?q = ?q"
        using qne h ne by (simp add: filepath_Clean_def Let_def)
      then show ?thesis unfolding qq .
    qed
  qed
qed

lemma filepath_Join3:
  assumes c: "filepath_Clean dd = dd" and r: "dd \<noteq> ''/''" and d: "dd \<noteq> ''.''"
    and n: "simple_name n" and f: "simple_name f"
  shows "filepath_Join [dd, n, f] = dd @ ''/'' @ n @ ''/'' @ f"
proof -
  have ne: "dd \<noteq> []"
  proof
    assume "dd = []"
    then show False using c by (simp add: filepath_Clean_def)
  qed
  have nn: "n \<noteq> []" using n by (simp add: simple_name_def)
  have one: "filepath_Clean (dd @ ''/'' @ n) = dd @ ''/'' @ n"
    using c r d n by (rule filepath_Clean_extend)
  have l: "dd @ ''/'' @ n \<noteq> ''/''" "dd @ ''/'' @ n \<noteq> ''.''"
    using ne by (cases dd; simp)+
  have two: "filepath_Clean ((dd @ ''/'' @ n) @ ''/'' @ f) = (dd @ ''/'' @ n) @ ''/'' @ f"
    using one l f by (rule filepath_Clean_extend)
  show ?thesis
    using ne two by (simp add: filepath_Join_def split: list.splits)
qed

lemma strings_Join_snoc_not_Nil: "n \<noteq> [] \<Longrightarrow> strings_Join (xs @ [n]) sep \<noteq> []"
  by (cases "xs = []") (simp_all add: strings_Join_snoc)

lemma filepath_Clean_last:
  assumes ne: "p \<noteq> []" and n: "simple_name n"
  shows "filepath_Clean (p @ ''/'' @ n) \<noteq> ''/''" "filepath_Clean (p @ ''/'' @ n) \<noteq> ''.''"
proof -
  let ?rooted = "hd p = CHR ''/''"
  let ?out = "foldl (clean_elem ?rooted) [] (split_sep p)"
  have ns: "CHR ''/'' \<notin> set n" and nn: "n \<noteq> []" and nd: "n \<noteq> ''.''"
    using n by (simp_all add: simple_name_def)
  have sp: "split_sep (p @ ''/'' @ n) = split_sep p @ [n]"
    using split_sep_append[of p n] split_sep_no_sep[OF ns] by simp
  have st: "foldl (clean_elem ?rooted) [] (split_sep p @ [n]) = n # ?out"
    using n by (simp add: clean_elem_def simple_name_def)
  have hd: "hd (p @ ''/'' @ n) = hd p" using ne by simp
  have c: "filepath_Clean (p @ ''/'' @ n) =
      (if ?rooted then CHR ''/'' # strings_Join (rev ?out @ [n]) ''/''
       else strings_Join (rev ?out @ [n]) ''/'')"
    using ne unfolding filepath_Clean_def Let_def hd sp st by simp
  have j: "strings_Join (rev ?out @ [n]) ''/'' \<noteq> []"
    using nn by (rule strings_Join_snoc_not_Nil)
  have k: "strings_Join (rev ?out @ [n]) ''/'' \<noteq> ''/''" "strings_Join (rev ?out @ [n]) ''/'' \<noteq> ''.''"
  proof -
    show "strings_Join (rev ?out @ [n]) ''/'' \<noteq> ''/''"
    proof (cases "?out = []")
      case True
      then show ?thesis using ns by auto
    next
      case False
      then have "strings_Join (rev ?out @ [n]) ''/'' = strings_Join (rev ?out) ''/'' @ ''/'' @ n"
        by (intro strings_Join_snoc) simp
      then show ?thesis using nn by (simp add: append_eq_Cons_conv)
    qed
    show "strings_Join (rev ?out @ [n]) ''/'' \<noteq> ''.''"
    proof (cases "?out = []")
      case True
      then show ?thesis using nd by simp
    next
      case False
      then have "strings_Join (rev ?out @ [n]) ''/'' = strings_Join (rev ?out) ''/'' @ ''/'' @ n"
        by (intro strings_Join_snoc) simp
      then show ?thesis using nn by (simp add: append_eq_Cons_conv)
    qed
  qed
  show "filepath_Clean (p @ ''/'' @ n) \<noteq> ''/''"
    unfolding c using j k by (cases "hd p = CHR ''/''") simp_all
  show "filepath_Clean (p @ ''/'' @ n) \<noteq> ''.''"
    unfolding c using j k by (cases "hd p = CHR ''/''") simp_all
qed

lemma defaultDataDir_clean:
  "filepath_Clean (defaultDataDir e) = defaultDataDir e"
  "defaultDataDir e \<noteq> ''/''" "defaultDataDir e \<noteq> ''.''"
proof -
  let ?h = "monadHomeDir e"
  have s: "simple_name ''data''" by (simp add: simple_name_def)
  have b: "filepath_Clean ''data'' = ''data''" by code_simp
  have j: "defaultDataDir e =
      (if ?h = [] then filepath_Clean ''data'' else filepath_Clean (?h @ ''/'' @ ''data''))"
    by (simp add: defaultDataDir_def filepath_Join_def split: list.splits)
  show "filepath_Clean (defaultDataDir e) = defaultDataDir e"
    unfolding j by (simp add: filepath_Clean_idem)
  show "defaultDataDir e \<noteq> ''/''" "defaultDataDir e \<noteq> ''.''"
    unfolding j using filepath_Clean_last[OF _ s, of ?h] by (simp_all add: b)
qed

lemma defaultDataDir_of_clean:
  assumes "filepath_Clean (monadHomeDir e) = monadHomeDir e"
  shows "defaultDataDir e =
           (if monadHomeDir e = ''/'' then ''/data''
            else if monadHomeDir e = ''.'' then ''data'' else monadHomeDir e @ ''/data'')"
proof -
  let ?h = "monadHomeDir e"
  have ne: "?h \<noteq> []"
  proof
    assume "?h = []"
    then show False using assms by (simp add: filepath_Clean_def)
  qed
  have s: "simple_name ''data''" by (simp add: simple_name_def)
  have a: "filepath_Clean ''//data'' = ''/data''" by code_simp
  have b: "filepath_Clean ''./data'' = ''data''" by code_simp
  have j: "defaultDataDir e = filepath_Clean (?h @ ''/'' @ ''data'')"
    using ne by (simp add: defaultDataDir_def filepath_Join_def split: list.splits)
  have c: "filepath_Clean (?h @ ''/'' @ ''data'') = ?h @ ''/'' @ ''data''"
    if "?h \<noteq> ''/''" "?h \<noteq> ''.''"
    using assms that s by (rule filepath_Clean_extend)
  show ?thesis using j a b c by auto
qed

lemma db_path:
  assumes "simple_name dir" "simple_name f"
  shows "filepath_Join [defaultDataDir e, dir, f] = defaultDataDir e @ ''/'' @ dir @ ''/'' @ f"
  using defaultDataDir_clean[of e] assms by (rule filepath_Join3)

lemma selected_network_again:
  "selected_network c tn rt sn (selected_network c tn rt sn a) = selected_network c tn rt sn a"
  by (simp add: selected_network_def)

lemma simple_db_names:
  "simple_name ''usercheckpoints_leveldb''" "simple_name ''volatilecheckpoints_leveldb''"
  "simple_name ''alertkey_leveldb''" "simple_name ''denyaddress_leveldb''"
  by (simp_all add: simple_name_def)

lemma netName_dir:
  "checkpoint_netName p = (if Net p = wire_TestNet4 then ''testnet'' else Name p)"
  "database_netName p = (if Net p = wire_TestNet4 then ''testnet'' else Name p)"
  by (cases "Net p"; simp add: checkpoint_netName_def database_netName_def)+

lemma checkpoint_paths:
  assumes "checkpoint_loadConfig (parsed ce) = Inr (cfg, args)"
    and "simple_name (checkpoint_netName
           (selected_network (chain ce) (TestNet4 cfg) (RegressionTest cfg) (SimNet cfg) a))"
  shows "checkpoint_GetUserCheckpointDbPath ce a =
      Inr (defaultDataDir ce @ ''/'' @ checkpoint_netName
             (selected_network (chain ce) (TestNet4 cfg) (RegressionTest cfg) (SimNet cfg) a) @
           ''/usercheckpoints_leveldb'',
           selected_network (chain ce) (TestNet4 cfg) (RegressionTest cfg) (SimNet cfg) a)"
    and "checkpoint_GetVolatileCheckpointDbPath ce a =
      Inr (defaultDataDir ce @ ''/'' @ checkpoint_netName
             (selected_network (chain ce) (TestNet4 cfg) (RegressionTest cfg) (SimNet cfg) a) @
           ''/volatilecheckpoints_leveldb'',
           selected_network (chain ce) (TestNet4 cfg) (RegressionTest cfg) (SimNet cfg) a)"
    and "checkpoint_GetAlertKeyDbPath ce a =
      Inr (defaultDataDir ce @ ''/'' @ checkpoint_netName
             (selected_network (chain ce) (TestNet4 cfg) (RegressionTest cfg) (SimNet cfg) a) @
           ''/alertkey_leveldb'',
           selected_network (chain ce) (TestNet4 cfg) (RegressionTest cfg) (SimNet cfg) a)"
proof -
  let ?sel = "selected_network (chain ce) (TestNet4 cfg) (RegressionTest cfg) (SimNet cfg) a"
  have sel: "(if SimNet cfg then SimNetParams (chain ce)
       else if RegressionTest cfg then RegressionNetParams (chain ce)
       else if TestNet4 cfg then TestNet4Params (chain ce) else a) = ?sel"
    by (simp add: selected_network_def)
  have u: "filepath_Join [defaultDataDir ce, checkpoint_netName ?sel, ''usercheckpoints_leveldb''] =
      defaultDataDir ce @ ''/'' @ checkpoint_netName ?sel @ ''/'' @ ''usercheckpoints_leveldb''"
    using assms(2) simple_db_names(1) by (rule db_path)
  have v: "filepath_Join [defaultDataDir ce, checkpoint_netName ?sel, ''volatilecheckpoints_leveldb''] =
      defaultDataDir ce @ ''/'' @ checkpoint_netName ?sel @ ''/'' @ ''volatilecheckpoints_leveldb''"
    using assms(2) simple_db_names(2) by (rule db_path)
  have k: "filepath_Join [defaultDataDir ce, checkpoint_netName ?sel, ''alertkey_leveldb''] =
      defaultDataDir ce @ ''/'' @ checkpoint_netName ?sel @ ''/'' @ ''alertkey_leveldb''"
    using assms(2) simple_db_names(3) by (rule db_path)
  show "checkpoint_GetUserCheckpointDbPath ce a =
      Inr (defaultDataDir ce @ ''/'' @ checkpoint_netName ?sel @ ''/usercheckpoints_leveldb'', ?sel)"
    using assms(1) u unfolding selected_network_def
    by (simp add: checkpoint_GetUserCheckpointDbPath_def Let_def userCheckpointDbNamePrefix_def defaultDbType_def)
  show "checkpoint_GetVolatileCheckpointDbPath ce a =
      Inr (defaultDataDir ce @ ''/'' @ checkpoint_netName ?sel @ ''/volatilecheckpoints_leveldb'', ?sel)"
    using assms(1) v unfolding selected_network_def
    by (simp add: checkpoint_GetVolatileCheckpointDbPath_def Let_def volatileCheckpointDbNamePrefix_def defaultDbType_def)
  show "checkpoint_GetAlertKeyDbPath ce a =
      Inr (defaultDataDir ce @ ''/'' @ checkpoint_netName ?sel @ ''/alertkey_leveldb'', ?sel)"
    using assms(1) k unfolding selected_network_def
    by (simp add: checkpoint_GetAlertKeyDbPath_def Let_def alertKeyDbNamePrefix_def defaultDbType_def)
qed

lemma database_paths:
  assumes "flag_Parse de = Inr fl"
    and "simple_name (database_netName
           (selected_network (chain de) (testnet fl) (regtest fl) (simnet fl) a))"
  shows "database_GetUserCheckpointDbPath de a =
      Inr (defaultDataDir de @ ''/'' @ database_netName
             (selected_network (chain de) (testnet fl) (regtest fl) (simnet fl) a) @
           ''/usercheckpoints_leveldb'',
           selected_network (chain de) (testnet fl) (regtest fl) (simnet fl) a)"
    and "database_GetVolatileCheckpointDbPath de a =
      Inr (defaultDataDir de @ ''/'' @ database_netName
             (selected_network (chain de) (testnet fl) (regtest fl) (simnet fl) a) @
           ''/volatilecheckpoints_leveldb'',
           selected_network (chain de) (testnet fl) (regtest fl) (simnet fl) a)"
    and "database_GetAlertKeyDbPath de a =
      Inr (defaultDataDir de @ ''/'' @ database_netName
             (selected_network (chain de) (testnet fl) (regtest fl) (simnet fl) a) @
           ''/alertkey_leveldb'',
           selected_network (chain de) (testnet fl) (regtest fl) (simnet fl) a)"
    and "database_GetDenyAddressDbPath de a =
      Inr (defaultDataDir de @ ''/'' @ database_netName
             (selected_network (chain de) (testnet fl) (regtest fl) (simnet fl) a) @
           ''/denyaddress_leveldb'',
           selected_network (chain de) (testnet fl) (regtest fl) (simnet fl) a)"
proof -
  let ?sel = "selected_network (chain de) (testnet fl) (regtest fl) (simnet fl) a"
  have j0: "filepath_Join [defaultDataDir de, database_netName ?sel, ''usercheckpoints_leveldb''] =
      defaultDataDir de @ ''/'' @ database_netName ?sel @ ''/'' @ ''usercheckpoints_leveldb''"
    using assms(2) simple_db_names(1) by (rule db_path)
  have j1: "filepath_Join [defaultDataDir de, database_netName ?sel, ''volatilecheckpoints_leveldb''] =
      defaultDataDir de @ ''/'' @ database_netName ?sel @ ''/'' @ ''volatilecheckpoints_leveldb''"
    using assms(2) simple_db_names(2) by (rule db_path)
  have j2: "filepath_Join [defaultDataDir de, database_netName ?sel, ''alertkey_leveldb''] =
      defaultDataDir de @ ''/'' @ database_netName ?sel @ ''/'' @ ''alertkey_leveldb''"
    using assms(2) simple_db_names(3) by (rule db_path)
  have j3: "filepath_Join [defaultDataDir de, database_netName ?sel, ''denyaddress_leveldb''] =
      defaultDataDir de @ ''/'' @ database_netName ?sel @ ''/'' @ ''denyaddress_leveldb''"
    using assms(2) simple_db_names(4) by (rule db_path)
  show "database_GetUserCheckpointDbPath de a =
      Inr (defaultDataDir de @ ''/'' @ database_netName ?sel @ ''/usercheckpoints_leveldb'', ?sel)"
    using assms(1) j0 unfolding selected_network_def
    by (simp add: database_GetUserCheckpointDbPath_def Let_def userCheckpointDbNamePrefix_def defaultDbType_def)
  show "database_GetVolatileCheckpointDbPath de a =
      Inr (defaultDataDir de @ ''/'' @ database_netName ?sel @ ''/volatilecheckpoints_leveldb'', ?sel)"
    using assms(1) j1 unfolding selected_network_def
    by (simp add: database_GetVolatileCheckpointDbPath_def Let_def volatileCheckpointDbNamePrefix_def defaultDbType_def)
  show "database_GetAlertKeyDbPath de a =
      Inr (defaultDataDir de @ ''/'' @ database_netName ?sel @ ''/alertkey_leveldb'', ?sel)"
    using assms(1) j2 unfolding selected_network_def
    by (simp add: database_GetAlertKeyDbPath_def Let_def alertKeyDbNamePrefix_def defaultDbType_def)
  show "database_GetDenyAddressDbPath de a =
      Inr (defaultDataDir de @ ''/'' @ database_netName ?sel @ ''/denyaddress_leveldb'', ?sel)"
    using assms(1) j3 unfolding selected_network_def
    by (simp add: database_GetDenyAddressDbPath_def Let_def denyAddressDbNamePrefix_def defaultDbType_def)
qed

text \<open>
  C7. For every selection of the network flags that the package accepts, each path function
  returns the data directory, a separator, the directory name of the selected network, a
  separator, and the prefix of the store joined by an underscore with the engine type. The
  directory name is \<^verbatim>\<open>testnet\<close> for the network \<^verbatim>\<open>TestNet4\<close> and the name of the network otherwise;
  it is taken to be a simple name. The function leaves the selected network in
  \<^verbatim>\<open>activeNetParams\<close>, and called again it returns the same path. The data directory is a
  clean path, and for a clean home directory it is that directory followed by \<^verbatim>\<open>/data\<close>
  (\<^verbatim>\<open>/data\<close> for the root, \<^verbatim>\<open>data\<close> for the current directory).
\<close>

theorem database_path_layout:
  "(checkpoint_loadConfig (parsed ce) = Inr (cfg, args) \<and>
    sel = selected_network (chain ce) (TestNet4 cfg) (RegressionTest cfg) (SimNet cfg) a \<and>
    dir = (if Net sel = wire_TestNet4 then ''testnet'' else Name sel) \<and> simple_name dir \<longrightarrow>
      checkpoint_GetUserCheckpointDbPath ce a = Inr (defaultDataDir ce @ ''/'' @ dir @ ''/usercheckpoints_leveldb'', sel) \<and>
      checkpoint_GetUserCheckpointDbPath ce sel = Inr (defaultDataDir ce @ ''/'' @ dir @ ''/usercheckpoints_leveldb'', sel) \<and>
      checkpoint_GetVolatileCheckpointDbPath ce a = Inr (defaultDataDir ce @ ''/'' @ dir @ ''/volatilecheckpoints_leveldb'', sel) \<and>
      checkpoint_GetVolatileCheckpointDbPath ce sel = Inr (defaultDataDir ce @ ''/'' @ dir @ ''/volatilecheckpoints_leveldb'', sel) \<and>
      checkpoint_GetAlertKeyDbPath ce a = Inr (defaultDataDir ce @ ''/'' @ dir @ ''/alertkey_leveldb'', sel) \<and>
      checkpoint_GetAlertKeyDbPath ce sel = Inr (defaultDataDir ce @ ''/'' @ dir @ ''/alertkey_leveldb'', sel)) \<and>
   (flag_Parse de = Inr fl \<and>
    sel = selected_network (chain de) (testnet fl) (regtest fl) (simnet fl) a \<and>
    dir = (if Net sel = wire_TestNet4 then ''testnet'' else Name sel) \<and> simple_name dir \<longrightarrow>
      database_GetUserCheckpointDbPath de a = Inr (defaultDataDir de @ ''/'' @ dir @ ''/usercheckpoints_leveldb'', sel) \<and>
      database_GetUserCheckpointDbPath de sel = Inr (defaultDataDir de @ ''/'' @ dir @ ''/usercheckpoints_leveldb'', sel) \<and>
      database_GetVolatileCheckpointDbPath de a = Inr (defaultDataDir de @ ''/'' @ dir @ ''/volatilecheckpoints_leveldb'', sel) \<and>
      database_GetVolatileCheckpointDbPath de sel = Inr (defaultDataDir de @ ''/'' @ dir @ ''/volatilecheckpoints_leveldb'', sel) \<and>
      database_GetAlertKeyDbPath de a = Inr (defaultDataDir de @ ''/'' @ dir @ ''/alertkey_leveldb'', sel) \<and>
      database_GetAlertKeyDbPath de sel = Inr (defaultDataDir de @ ''/'' @ dir @ ''/alertkey_leveldb'', sel) \<and>
      database_GetDenyAddressDbPath de a = Inr (defaultDataDir de @ ''/'' @ dir @ ''/denyaddress_leveldb'', sel) \<and>
      database_GetDenyAddressDbPath de sel = Inr (defaultDataDir de @ ''/'' @ dir @ ''/denyaddress_leveldb'', sel)) \<and>
   filepath_Clean (defaultDataDir e) = defaultDataDir e \<and>
   (filepath_Clean (monadHomeDir e) = monadHomeDir e \<longrightarrow>
      defaultDataDir e =
        (if monadHomeDir e = ''/'' then ''/data''
         else if monadHomeDir e = ''.'' then ''data'' else monadHomeDir e @ ''/data''))"
proof (intro conjI impI)
  assume h: "checkpoint_loadConfig (parsed ce) = Inr (cfg, args) \<and>
    sel = selected_network (chain ce) (TestNet4 cfg) (RegressionTest cfg) (SimNet cfg) a \<and>
    dir = (if Net sel = wire_TestNet4 then ''testnet'' else Name sel) \<and> simple_name dir"
  then have l: "checkpoint_loadConfig (parsed ce) = Inr (cfg, args)"
    and s0: "sel = selected_network (chain ce) (TestNet4 cfg) (RegressionTest cfg) (SimNet cfg) a"
    and d0: "dir = (if Net sel = wire_TestNet4 then ''testnet'' else Name sel)"
    and n: "simple_name dir"
    by blast+
  have s: "selected_network (chain ce) (TestNet4 cfg) (RegressionTest cfg) (SimNet cfg) a = sel"
    using s0 by (rule sym)
  have d: "checkpoint_netName sel = dir"
    unfolding d0 by (rule netName_dir(1))
  have s': "selected_network (chain ce) (TestNet4 cfg) (RegressionTest cfg) (SimNet cfg) sel = sel"
    using selected_network_again[of "chain ce" "TestNet4 cfg" "RegressionTest cfg" "SimNet cfg" a]
    unfolding s .
  have n1: "simple_name (checkpoint_netName
      (selected_network (chain ce) (TestNet4 cfg) (RegressionTest cfg) (SimNet cfg) a))"
    unfolding s d by (rule n)
  have n2: "simple_name (checkpoint_netName
      (selected_network (chain ce) (TestNet4 cfg) (RegressionTest cfg) (SimNet cfg) sel))"
    unfolding s' d by (rule n)
  show "checkpoint_GetUserCheckpointDbPath ce a = Inr (defaultDataDir ce @ ''/'' @ dir @ ''/usercheckpoints_leveldb'', sel)"
    using checkpoint_paths(1)[OF l n1] unfolding s d .
  show "checkpoint_GetUserCheckpointDbPath ce sel = Inr (defaultDataDir ce @ ''/'' @ dir @ ''/usercheckpoints_leveldb'', sel)"
    using checkpoint_paths(1)[OF l n2] unfolding s' d .
  show "checkpoint_GetVolatileCheckpointDbPath ce a = Inr (defaultDataDir ce @ ''/'' @ dir @ ''/volatilecheckpoints_leveldb'', sel)"
    using checkpoint_paths(2)[OF l n1] unfolding s d .
  show "checkpoint_GetVolatileCheckpointDbPath ce sel = Inr (defaultDataDir ce @ ''/'' @ dir @ ''/volatilecheckpoints_leveldb'', sel)"
    using checkpoint_paths(2)[OF l n2] unfolding s' d .
  show "checkpoint_GetAlertKeyDbPath ce a = Inr (defaultDataDir ce @ ''/'' @ dir @ ''/alertkey_leveldb'', sel)"
    using checkpoint_paths(3)[OF l n1] unfolding s d .
  show "checkpoint_GetAlertKeyDbPath ce sel = Inr (defaultDataDir ce @ ''/'' @ dir @ ''/alertkey_leveldb'', sel)"
    using checkpoint_paths(3)[OF l n2] unfolding s' d .
next
  assume h: "flag_Parse de = Inr fl \<and>
    sel = selected_network (chain de) (testnet fl) (regtest fl) (simnet fl) a \<and>
    dir = (if Net sel = wire_TestNet4 then ''testnet'' else Name sel) \<and> simple_name dir"
  then have l: "flag_Parse de = Inr fl"
    and s0: "sel = selected_network (chain de) (testnet fl) (regtest fl) (simnet fl) a"
    and d0: "dir = (if Net sel = wire_TestNet4 then ''testnet'' else Name sel)"
    and n: "simple_name dir"
    by blast+
  have s: "selected_network (chain de) (testnet fl) (regtest fl) (simnet fl) a = sel"
    using s0 by (rule sym)
  have d: "database_netName sel = dir"
    unfolding d0 by (rule netName_dir(2))
  have s': "selected_network (chain de) (testnet fl) (regtest fl) (simnet fl) sel = sel"
    using selected_network_again[of "chain de" "testnet fl" "regtest fl" "simnet fl" a]
    unfolding s .
  have n1: "simple_name (database_netName
      (selected_network (chain de) (testnet fl) (regtest fl) (simnet fl) a))"
    unfolding s d by (rule n)
  have n2: "simple_name (database_netName
      (selected_network (chain de) (testnet fl) (regtest fl) (simnet fl) sel))"
    unfolding s' d by (rule n)
  show "database_GetUserCheckpointDbPath de a = Inr (defaultDataDir de @ ''/'' @ dir @ ''/usercheckpoints_leveldb'', sel)"
    using database_paths(1)[OF l n1] unfolding s d .
  show "database_GetUserCheckpointDbPath de sel = Inr (defaultDataDir de @ ''/'' @ dir @ ''/usercheckpoints_leveldb'', sel)"
    using database_paths(1)[OF l n2] unfolding s' d .
  show "database_GetVolatileCheckpointDbPath de a = Inr (defaultDataDir de @ ''/'' @ dir @ ''/volatilecheckpoints_leveldb'', sel)"
    using database_paths(2)[OF l n1] unfolding s d .
  show "database_GetVolatileCheckpointDbPath de sel = Inr (defaultDataDir de @ ''/'' @ dir @ ''/volatilecheckpoints_leveldb'', sel)"
    using database_paths(2)[OF l n2] unfolding s' d .
  show "database_GetAlertKeyDbPath de a = Inr (defaultDataDir de @ ''/'' @ dir @ ''/alertkey_leveldb'', sel)"
    using database_paths(3)[OF l n1] unfolding s d .
  show "database_GetAlertKeyDbPath de sel = Inr (defaultDataDir de @ ''/'' @ dir @ ''/alertkey_leveldb'', sel)"
    using database_paths(3)[OF l n2] unfolding s' d .
  show "database_GetDenyAddressDbPath de a = Inr (defaultDataDir de @ ''/'' @ dir @ ''/denyaddress_leveldb'', sel)"
    using database_paths(4)[OF l n1] unfolding s d .
  show "database_GetDenyAddressDbPath de sel = Inr (defaultDataDir de @ ''/'' @ dir @ ''/denyaddress_leveldb'', sel)"
    using database_paths(4)[OF l n2] unfolding s' d .
next
  show "filepath_Clean (defaultDataDir e) = defaultDataDir e"
    by (rule defaultDataDir_clean)
next
  assume "filepath_Clean (monadHomeDir e) = monadHomeDir e"
  then show "defaultDataDir e =
        (if monadHomeDir e = ''/'' then ''/data''
         else if monadHomeDir e = ''.'' then ''data'' else monadHomeDir e @ ''/data'')"
    by (rule defaultDataDir_of_clean)
qed

theorem database_path_layout_witness:
  "checkpoint_GetUserCheckpointDbPath
     \<lparr>monadHomeDir = ''/home/u/.monad'',
      chain = \<lparr>MainNetParams = \<lparr>Name = ''mainnet'', Net = wire_MainNet, AlertPubMainKey = ''m1'', AlertPubSubKey = ''s1''\<rparr>,
               TestNet4Params = \<lparr>Name = ''testnet4'', Net = wire_TestNet4, AlertPubMainKey = ''m2'', AlertPubSubKey = ''s2''\<rparr>,
               RegressionNetParams = \<lparr>Name = ''regtest'', Net = wire_TestNet, AlertPubMainKey = ''m3'', AlertPubSubKey = ''s3''\<rparr>,
               SimNetParams = \<lparr>Name = ''simnet'', Net = wire_SimNet, AlertPubMainKey = ''m4'', AlertPubSubKey = ''s4''\<rparr>\<rparr>,
      parsed = Inr (\<lparr>DataDir = [], ConfigFile = ''/home/u/.monad/monad.conf'',
                      TestNet4 = True, RegressionTest = False, SimNet = False\<rparr>, [])\<rparr>
     \<lparr>Name = ''mainnet'', Net = wire_MainNet, AlertPubMainKey = ''m1'', AlertPubSubKey = ''s1''\<rparr> =
     Inr (''/home/u/.monad/data/testnet/usercheckpoints_leveldb'',
          \<lparr>Name = ''testnet4'', Net = wire_TestNet4, AlertPubMainKey = ''m2'', AlertPubSubKey = ''s2''\<rparr>) \<and>
   checkpoint_GetAlertKeyDbPath
     \<lparr>monadHomeDir = ''/home/u/.monad'',
      chain = \<lparr>MainNetParams = \<lparr>Name = ''mainnet'', Net = wire_MainNet, AlertPubMainKey = ''m1'', AlertPubSubKey = ''s1''\<rparr>,
               TestNet4Params = \<lparr>Name = ''testnet4'', Net = wire_TestNet4, AlertPubMainKey = ''m2'', AlertPubSubKey = ''s2''\<rparr>,
               RegressionNetParams = \<lparr>Name = ''regtest'', Net = wire_TestNet, AlertPubMainKey = ''m3'', AlertPubSubKey = ''s3''\<rparr>,
               SimNetParams = \<lparr>Name = ''simnet'', Net = wire_SimNet, AlertPubMainKey = ''m4'', AlertPubSubKey = ''s4''\<rparr>\<rparr>,
      parsed = Inr (\<lparr>DataDir = [], ConfigFile = ''/home/u/.monad/monad.conf'',
                      TestNet4 = True, RegressionTest = False, SimNet = False\<rparr>, [])\<rparr>
     \<lparr>Name = ''testnet4'', Net = wire_TestNet4, AlertPubMainKey = ''m2'', AlertPubSubKey = ''s2''\<rparr> =
     Inr (''/home/u/.monad/data/testnet/alertkey_leveldb'',
          \<lparr>Name = ''testnet4'', Net = wire_TestNet4, AlertPubMainKey = ''m2'', AlertPubSubKey = ''s2''\<rparr>) \<and>
   database_GetDenyAddressDbPath
     \<lparr>monadHomeDir = ''/home/u/.monad'',
      chain = \<lparr>MainNetParams = \<lparr>Name = ''mainnet'', Net = wire_MainNet, AlertPubMainKey = ''m1'', AlertPubSubKey = ''s1''\<rparr>,
               TestNet4Params = \<lparr>Name = ''testnet4'', Net = wire_TestNet4, AlertPubMainKey = ''m2'', AlertPubSubKey = ''s2''\<rparr>,
               RegressionNetParams = \<lparr>Name = ''regtest'', Net = wire_TestNet, AlertPubMainKey = ''m3'', AlertPubSubKey = ''s3''\<rparr>,
               SimNetParams = \<lparr>Name = ''simnet'', Net = wire_SimNet, AlertPubMainKey = ''m4'', AlertPubSubKey = ''s4''\<rparr>\<rparr>,
      flag_Parse = Inr \<lparr>testnet = False, regtest = False, simnet = False\<rparr>\<rparr>
     \<lparr>Name = ''mainnet'', Net = wire_MainNet, AlertPubMainKey = ''m1'', AlertPubSubKey = ''s1''\<rparr> =
     Inr (''/home/u/.monad/data/mainnet/denyaddress_leveldb'',
          \<lparr>Name = ''mainnet'', Net = wire_MainNet, AlertPubMainKey = ''m1'', AlertPubSubKey = ''s1''\<rparr>) \<and>
   defaultDataDir
     \<lparr>monadHomeDir = ''/home/u/.monad'',
      chain = \<lparr>MainNetParams = \<lparr>Name = ''mainnet'', Net = wire_MainNet, AlertPubMainKey = ''m1'', AlertPubSubKey = ''s1''\<rparr>,
               TestNet4Params = \<lparr>Name = ''testnet4'', Net = wire_TestNet4, AlertPubMainKey = ''m2'', AlertPubSubKey = ''s2''\<rparr>,
               RegressionNetParams = \<lparr>Name = ''regtest'', Net = wire_TestNet, AlertPubMainKey = ''m3'', AlertPubSubKey = ''s3''\<rparr>,
               SimNetParams = \<lparr>Name = ''simnet'', Net = wire_SimNet, AlertPubMainKey = ''m4'', AlertPubSubKey = ''s4''\<rparr>\<rparr>,
      parsed = Inr (\<lparr>DataDir = [], ConfigFile = ''/home/u/.monad/monad.conf'',
                      TestNet4 = True, RegressionTest = False, SimNet = False\<rparr>, [])\<rparr> = ''/home/u/.monad/data''"
proof -
  have c: "filepath_Clean ''/home/u/.monad'' = ''/home/u/.monad''" by code_simp
  have dd: "defaultDataDir
     \<lparr>monadHomeDir = ''/home/u/.monad'',
      chain = \<lparr>MainNetParams = \<lparr>Name = ''mainnet'', Net = wire_MainNet, AlertPubMainKey = ''m1'', AlertPubSubKey = ''s1''\<rparr>,
               TestNet4Params = \<lparr>Name = ''testnet4'', Net = wire_TestNet4, AlertPubMainKey = ''m2'', AlertPubSubKey = ''s2''\<rparr>,
               RegressionNetParams = \<lparr>Name = ''regtest'', Net = wire_TestNet, AlertPubMainKey = ''m3'', AlertPubSubKey = ''s3''\<rparr>,
               SimNetParams = \<lparr>Name = ''simnet'', Net = wire_SimNet, AlertPubMainKey = ''m4'', AlertPubSubKey = ''s4''\<rparr>\<rparr>,
      parsed = Inr (\<lparr>DataDir = [], ConfigFile = ''/home/u/.monad/monad.conf'',
                      TestNet4 = True, RegressionTest = False, SimNet = False\<rparr>, [])\<rparr> = ''/home/u/.monad/data''"
    using database_path_layout
      [where e = "\<lparr>monadHomeDir = ''/home/u/.monad'',
      chain = \<lparr>MainNetParams = \<lparr>Name = ''mainnet'', Net = wire_MainNet, AlertPubMainKey = ''m1'', AlertPubSubKey = ''s1''\<rparr>,
               TestNet4Params = \<lparr>Name = ''testnet4'', Net = wire_TestNet4, AlertPubMainKey = ''m2'', AlertPubSubKey = ''s2''\<rparr>,
               RegressionNetParams = \<lparr>Name = ''regtest'', Net = wire_TestNet, AlertPubMainKey = ''m3'', AlertPubSubKey = ''s3''\<rparr>,
               SimNetParams = \<lparr>Name = ''simnet'', Net = wire_SimNet, AlertPubMainKey = ''m4'', AlertPubSubKey = ''s4''\<rparr>\<rparr>,
      parsed = Inr (\<lparr>DataDir = [], ConfigFile = ''/home/u/.monad/monad.conf'',
                      TestNet4 = True, RegressionTest = False, SimNet = False\<rparr>, [])\<rparr>", THEN conjunct2, THEN conjunct2, THEN conjunct2]
    by (simp add: c)
  have dd': "defaultDataDir
     \<lparr>monadHomeDir = ''/home/u/.monad'',
      chain = \<lparr>MainNetParams = \<lparr>Name = ''mainnet'', Net = wire_MainNet, AlertPubMainKey = ''m1'', AlertPubSubKey = ''s1''\<rparr>,
               TestNet4Params = \<lparr>Name = ''testnet4'', Net = wire_TestNet4, AlertPubMainKey = ''m2'', AlertPubSubKey = ''s2''\<rparr>,
               RegressionNetParams = \<lparr>Name = ''regtest'', Net = wire_TestNet, AlertPubMainKey = ''m3'', AlertPubSubKey = ''s3''\<rparr>,
               SimNetParams = \<lparr>Name = ''simnet'', Net = wire_SimNet, AlertPubMainKey = ''m4'', AlertPubSubKey = ''s4''\<rparr>\<rparr>,
      flag_Parse = Inr \<lparr>testnet = False, regtest = False, simnet = False\<rparr>\<rparr> = ''/home/u/.monad/data''"
    using dd by (simp add: defaultDataDir_def)
  have s: "simple_name ''testnet''" "simple_name ''mainnet''"
    by (simp_all add: simple_name_def)
  have a: "checkpoint_GetUserCheckpointDbPath
     \<lparr>monadHomeDir = ''/home/u/.monad'',
      chain = \<lparr>MainNetParams = \<lparr>Name = ''mainnet'', Net = wire_MainNet, AlertPubMainKey = ''m1'', AlertPubSubKey = ''s1''\<rparr>,
               TestNet4Params = \<lparr>Name = ''testnet4'', Net = wire_TestNet4, AlertPubMainKey = ''m2'', AlertPubSubKey = ''s2''\<rparr>,
               RegressionNetParams = \<lparr>Name = ''regtest'', Net = wire_TestNet, AlertPubMainKey = ''m3'', AlertPubSubKey = ''s3''\<rparr>,
               SimNetParams = \<lparr>Name = ''simnet'', Net = wire_SimNet, AlertPubMainKey = ''m4'', AlertPubSubKey = ''s4''\<rparr>\<rparr>,
      parsed = Inr (\<lparr>DataDir = [], ConfigFile = ''/home/u/.monad/monad.conf'',
                      TestNet4 = True, RegressionTest = False, SimNet = False\<rparr>, [])\<rparr>
     \<lparr>Name = ''mainnet'', Net = wire_MainNet, AlertPubMainKey = ''m1'', AlertPubSubKey = ''s1''\<rparr> =
     Inr (''/home/u/.monad/data/testnet/usercheckpoints_leveldb'',
          \<lparr>Name = ''testnet4'', Net = wire_TestNet4, AlertPubMainKey = ''m2'', AlertPubSubKey = ''s2''\<rparr>) \<and>
   checkpoint_GetAlertKeyDbPath
     \<lparr>monadHomeDir = ''/home/u/.monad'',
      chain = \<lparr>MainNetParams = \<lparr>Name = ''mainnet'', Net = wire_MainNet, AlertPubMainKey = ''m1'', AlertPubSubKey = ''s1''\<rparr>,
               TestNet4Params = \<lparr>Name = ''testnet4'', Net = wire_TestNet4, AlertPubMainKey = ''m2'', AlertPubSubKey = ''s2''\<rparr>,
               RegressionNetParams = \<lparr>Name = ''regtest'', Net = wire_TestNet, AlertPubMainKey = ''m3'', AlertPubSubKey = ''s3''\<rparr>,
               SimNetParams = \<lparr>Name = ''simnet'', Net = wire_SimNet, AlertPubMainKey = ''m4'', AlertPubSubKey = ''s4''\<rparr>\<rparr>,
      parsed = Inr (\<lparr>DataDir = [], ConfigFile = ''/home/u/.monad/monad.conf'',
                      TestNet4 = True, RegressionTest = False, SimNet = False\<rparr>, [])\<rparr>
     \<lparr>Name = ''testnet4'', Net = wire_TestNet4, AlertPubMainKey = ''m2'', AlertPubSubKey = ''s2''\<rparr> =
     Inr (''/home/u/.monad/data/testnet/alertkey_leveldb'',
          \<lparr>Name = ''testnet4'', Net = wire_TestNet4, AlertPubMainKey = ''m2'', AlertPubSubKey = ''s2''\<rparr>)"
    using database_path_layout
      [where ce = "\<lparr>monadHomeDir = ''/home/u/.monad'',
      chain = \<lparr>MainNetParams = \<lparr>Name = ''mainnet'', Net = wire_MainNet, AlertPubMainKey = ''m1'', AlertPubSubKey = ''s1''\<rparr>,
               TestNet4Params = \<lparr>Name = ''testnet4'', Net = wire_TestNet4, AlertPubMainKey = ''m2'', AlertPubSubKey = ''s2''\<rparr>,
               RegressionNetParams = \<lparr>Name = ''regtest'', Net = wire_TestNet, AlertPubMainKey = ''m3'', AlertPubSubKey = ''s3''\<rparr>,
               SimNetParams = \<lparr>Name = ''simnet'', Net = wire_SimNet, AlertPubMainKey = ''m4'', AlertPubSubKey = ''s4''\<rparr>\<rparr>,
      parsed = Inr (\<lparr>DataDir = [], ConfigFile = ''/home/u/.monad/monad.conf'',
                      TestNet4 = True, RegressionTest = False, SimNet = False\<rparr>, [])\<rparr>"
         and cfg = "\<lparr>DataDir = [], ConfigFile = ''/home/u/.monad/monad.conf'',
                      TestNet4 = True, RegressionTest = False, SimNet = False\<rparr>"
         and args = "[]"
         and a = "\<lparr>Name = ''mainnet'', Net = wire_MainNet, AlertPubMainKey = ''m1'', AlertPubSubKey = ''s1''\<rparr>"
         and sel = "\<lparr>Name = ''testnet4'', Net = wire_TestNet4, AlertPubMainKey = ''m2'', AlertPubSubKey = ''s2''\<rparr>"
         and dir = "''testnet''", THEN conjunct1]
    by (simp add: dd s checkpoint_loadConfig_def selected_network_def)
  have b: "database_GetDenyAddressDbPath
     \<lparr>monadHomeDir = ''/home/u/.monad'',
      chain = \<lparr>MainNetParams = \<lparr>Name = ''mainnet'', Net = wire_MainNet, AlertPubMainKey = ''m1'', AlertPubSubKey = ''s1''\<rparr>,
               TestNet4Params = \<lparr>Name = ''testnet4'', Net = wire_TestNet4, AlertPubMainKey = ''m2'', AlertPubSubKey = ''s2''\<rparr>,
               RegressionNetParams = \<lparr>Name = ''regtest'', Net = wire_TestNet, AlertPubMainKey = ''m3'', AlertPubSubKey = ''s3''\<rparr>,
               SimNetParams = \<lparr>Name = ''simnet'', Net = wire_SimNet, AlertPubMainKey = ''m4'', AlertPubSubKey = ''s4''\<rparr>\<rparr>,
      flag_Parse = Inr \<lparr>testnet = False, regtest = False, simnet = False\<rparr>\<rparr>
     \<lparr>Name = ''mainnet'', Net = wire_MainNet, AlertPubMainKey = ''m1'', AlertPubSubKey = ''s1''\<rparr> =
     Inr (''/home/u/.monad/data/mainnet/denyaddress_leveldb'',
          \<lparr>Name = ''mainnet'', Net = wire_MainNet, AlertPubMainKey = ''m1'', AlertPubSubKey = ''s1''\<rparr>)"
    using database_path_layout
      [where de = "\<lparr>monadHomeDir = ''/home/u/.monad'',
      chain = \<lparr>MainNetParams = \<lparr>Name = ''mainnet'', Net = wire_MainNet, AlertPubMainKey = ''m1'', AlertPubSubKey = ''s1''\<rparr>,
               TestNet4Params = \<lparr>Name = ''testnet4'', Net = wire_TestNet4, AlertPubMainKey = ''m2'', AlertPubSubKey = ''s2''\<rparr>,
               RegressionNetParams = \<lparr>Name = ''regtest'', Net = wire_TestNet, AlertPubMainKey = ''m3'', AlertPubSubKey = ''s3''\<rparr>,
               SimNetParams = \<lparr>Name = ''simnet'', Net = wire_SimNet, AlertPubMainKey = ''m4'', AlertPubSubKey = ''s4''\<rparr>\<rparr>,
      flag_Parse = Inr \<lparr>testnet = False, regtest = False, simnet = False\<rparr>\<rparr>"
         and fl = "\<lparr>testnet = False, regtest = False, simnet = False\<rparr>"
         and a = "\<lparr>Name = ''mainnet'', Net = wire_MainNet, AlertPubMainKey = ''m1'', AlertPubSubKey = ''s1''\<rparr>"
         and sel = "\<lparr>Name = ''mainnet'', Net = wire_MainNet, AlertPubMainKey = ''m1'', AlertPubSubKey = ''s1''\<rparr>"
         and dir = "''mainnet''", THEN conjunct2, THEN conjunct1]
    by (simp add: dd' s selected_network_def)
  show ?thesis using a b dd by simp
qed

end
